theory Spec2Isabelle
  imports Main "HOL-Library.Word"
begin

unbundle bit_operations_syntax

section \<open>Woldecks board: the authorization core of the Worker and of the local server\<close>

text \<open>
  The repository holds two independent implementations of the same bulletin board: a
  Cloudflare Worker over a hosted relational store (\<^verbatim>\<open>worker/index.js\<close>) and a local
  Node server over a JSON file (\<^verbatim>\<open>server.js\<close>). Both are embedded here function by
  function, under the names of the source. JavaScript strings are modelled as \<open>string\<close>,
  bytes of a \<^verbatim>\<open>Uint8Array\<close> or \<^verbatim>\<open>Buffer\<close> as \<open>8 word\<close>, \<^verbatim>\<open>null\<close> and
  \<^verbatim>\<open>undefined\<close> as \<open>None\<close>, a thrown exception as \<open>Inl\<close> of its message. Characters
  of \<open>string\<close> are 8-bit: text with code units beyond that range is not represented.
\<close>

subsection \<open>Strings\<close>

type_synonym byte = "8 word"

text \<open>\<^verbatim>\<open>s.lastIndexOf(c)\<close>: the index of the last occurrence, \<open>None\<close> for \<^verbatim>\<open>-1\<close>.\<close>

primrec lastIndexOf :: "char \<Rightarrow> string \<Rightarrow> nat option" where
  "lastIndexOf c [] = None"
| "lastIndexOf c (x # xs) =
     (case lastIndexOf c xs of
        Some i \<Rightarrow> Some (Suc i)
      | None \<Rightarrow> if x = c then Some 0 else None)"

text \<open>
  The white space that \<^verbatim>\<open>String.prototype.trim\<close> and \<^verbatim>\<open>parseInt\<close> strip, as far as
  it lies in the 8-bit range: tab, line feed, vertical tab, form feed, carriage return,
  space and no-break space.
\<close>

definition isWhiteSpace :: "char \<Rightarrow> bool" where
  "isWhiteSpace c \<longleftrightarrow> (of_char c :: nat) \<in> {9, 10, 11, 12, 13, 32, 160}"

definition trim :: "string \<Rightarrow> string" where
  "trim s = rev (dropWhile isWhiteSpace (rev (dropWhile isWhiteSpace s)))"


text \<open>\<^verbatim>\<open>s.indexOf(c)\<close>: the index of the first occurrence, \<open>None\<close> for \<^verbatim>\<open>-1\<close>.\<close>

primrec indexOf :: "char \<Rightarrow> string \<Rightarrow> nat option" where
  "indexOf c [] = None"
| "indexOf c (x # xs) = (if x = c then Some 0 else map_option Suc (indexOf c xs))"

text \<open>\<^verbatim>\<open>s.split(c)\<close>: the pieces between the occurrences of \<open>c\<close>, one piece for the empty string.\<close>

primrec split :: "char \<Rightarrow> string \<Rightarrow> string list" where
  "split c [] = [[]]"
| "split c (x # xs) =
     (if x = c then [] # split c xs
      else (case split c xs of [] \<Rightarrow> [[x]] | p # ps \<Rightarrow> (x # p) # ps))"

subsection \<open>JSON values\<close>

datatype json =
    JNull
  | JBool bool
  | JNum int
  | JStr string
  | JArr "json list"
  | JObj "(string \<times> json) list"

text \<open>\<^verbatim>\<open>!body\<close> on a parsed JSON value.\<close>

fun falsy :: "json \<Rightarrow> bool" where
  "falsy JNull = True"
| "falsy (JBool b) = (\<not> b)"
| "falsy (JNum n) = (n = 0)"
| "falsy (JStr s) = (s = [])"
| "falsy (JArr _) = False"
| "falsy (JObj _) = False"

text \<open>
  \<^verbatim>\<open>body.k\<close>: a member of an object (the last of duplicate keys, as \<^verbatim>\<open>JSON.parse\<close>
  keeps it), \<^verbatim>\<open>undefined\<close> on every other value.
\<close>

definition getMember :: "json \<Rightarrow> string \<Rightarrow> json option" where
  "getMember j k = (case j of JObj kvs \<Rightarrow> map_of (rev kvs) k | _ \<Rightarrow> None)"

text \<open>\<^verbatim>\<open>typeof body.k === "string" ? body.k : ""\<close>\<close>

definition stringField :: "json \<Rightarrow> string \<Rightarrow> string" where
  "stringField j k = (case getMember j k of Some (JStr v) \<Rightarrow> v | _ \<Rightarrow> [])"

text \<open>All the keys of the objects inside a value, at any depth.\<close>

fun keys_of :: "json \<Rightarrow> string list" where
  "keys_of (JArr xs) = concat (map keys_of xs)"
| "keys_of (JObj kvs) = concat (map (\<lambda>(k, v). k # keys_of v) kvs)"
| "keys_of _ = []"

subsection \<open>Hex encoding (both implementations)\<close>

definition hexDigit :: "nat \<Rightarrow> char" where
  "hexDigit n = ''0123456789abcdef'' ! n"

text \<open>\<^verbatim>\<open>b.toString(16)\<close> and \<^verbatim>\<open>.padStart(2, "0")\<close>\<close>

fun toString16 :: "nat \<Rightarrow> string" where
  "toString16 n = (if n < 16 then [hexDigit n] else toString16 (n div 16) @ [hexDigit (n mod 16)])"

declare toString16.simps [simp del]

definition padStart2 :: "string \<Rightarrow> string" where
  "padStart2 s = replicate (2 - length s) (CHR ''0'') @ s"

text \<open>
  \<^verbatim>\<open>bytesToHex\<close> of the Worker; \<^verbatim>\<open>buf.toString("hex")\<close> of Node prints the same
  two lower-case digits for each byte.
\<close>

definition bytesToHex :: "byte list \<Rightarrow> string" where
  "bytesToHex bytes = concat (map (\<lambda>b. padStart2 (toString16 (unat b))) bytes)"

definition hexVal :: "char \<Rightarrow> nat option" where
  "hexVal c =
     (let n = (of_char c :: nat) in
      if 48 \<le> n \<and> n \<le> 57 then Some (n - 48)
      else if 97 \<le> n \<and> n \<le> 102 then Some (n - 87)
      else if 65 \<le> n \<and> n \<le> 70 then Some (n - 55)
      else None)"

text \<open>
  \<^verbatim>\<open>Number.parseInt(s, 16)\<close>: leading white space, a sign and a prefix \<^verbatim>\<open>0x\<close> are
  skipped, then the longest run of hex digits is read; \<open>None\<close> is \<^verbatim>\<open>NaN\<close>.
\<close>

fun parseDigits :: "nat option \<Rightarrow> string \<Rightarrow> nat option" where
  "parseDigits acc [] = acc"
| "parseDigits acc (c # cs) =
     (case hexVal c of
        None \<Rightarrow> acc
      | Some d \<Rightarrow> parseDigits (Some (16 * (case acc of None \<Rightarrow> 0 | Some a \<Rightarrow> a) + d)) cs)"

definition parseInt16 :: "string \<Rightarrow> int option" where
  "parseInt16 s =
     (let t = dropWhile isWhiteSpace s;
          neg = (t \<noteq> [] \<and> hd t = CHR ''-'');
          u = (if t \<noteq> [] \<and> (hd t = CHR ''-'' \<or> hd t = CHR ''+'') then tl t else t);
          v = (if take 2 u = ''0x'' \<or> take 2 u = ''0X'' then drop 2 u else u)
      in case parseDigits None v of
           None \<Rightarrow> None
         | Some n \<Rightarrow> Some (if neg then - int n else int n))"

text \<open>Storing a number in a \<^verbatim>\<open>Uint8Array\<close>: \<^verbatim>\<open>NaN\<close> becomes 0, an integer wraps.\<close>

definition toUint8 :: "int option \<Rightarrow> byte" where
  "toUint8 v = (case v of None \<Rightarrow> 0 | Some n \<Rightarrow> word_of_int n)"

text \<open>
  \<^verbatim>\<open>hexToBytes\<close> of the Worker. The array has \<^verbatim>\<open>hex.length / 2\<close> elements, rounded
  down, and element \<open>i\<close> is parsed from the two characters at \<open>2 i\<close>: the loop is a
  recursion over the pairs, and a last single character is never read.
\<close>

fun hexToBytes :: "string \<Rightarrow> byte list" where
  "hexToBytes (a # b # rest) = toUint8 (parseInt16 [a, b]) # hexToBytes rest"
| "hexToBytes _ = []"

text \<open>
  \<^verbatim>\<open>Buffer.from(s, "hex")\<close> of Node: decoding stops at the first pair that is not
  two hex digits, and a last single character is dropped.
\<close>

fun bufferFromHex :: "string \<Rightarrow> byte list" where
  "bufferFromHex (a # b # rest) =
     (case (hexVal a, hexVal b) of
        (Some x, Some y) \<Rightarrow> of_nat (16 * x + y) # bufferFromHex rest
      | _ \<Rightarrow> [])"
| "bufferFromHex _ = []"

text \<open>\<^verbatim>\<open>safeEqualHex\<close>: the OR of the XORs of the character codes.\<close>

definition safeEqualHex :: "string \<Rightarrow> string \<Rightarrow> bool" where
  "safeEqualHex a b =
     (if length a \<noteq> length b then False
      else foldl (\<lambda>diff (x, y). diff OR ((of_char x :: nat) XOR of_char y)) 0 (zip a b) = 0)"

subsection \<open>The cookie header (both implementations)\<close>

text \<open>
  \<^verbatim>\<open>decodeURIComponent\<close> is a builtin of the platform and a parameter of the model, of
  type \<open>decoder\<close>: \<open>Inl\<close> is the message of the \<^verbatim>\<open>URIError\<close> it throws on an escape
  sequence that is not the UTF-8 encoding of a character.
\<close>

type_synonym decoder = "string \<Rightarrow> string + string"

text \<open>
  The body of the \<^verbatim>\<open>forEach\<close> of \<^verbatim>\<open>parseCookies\<close>, the same in both files: a part
  without \<^verbatim>\<open>=\<close> or with an empty key is skipped, the value of every other part is
  decoded and stored under its key. \<open>out\<close> holds the assignments made so far, the last
  one first, so that \<open>map_of out k\<close> is \<^verbatim>\<open>out[k]\<close>.
\<close>

definition cookiePart :: "decoder \<Rightarrow> string \<Rightarrow> (string \<times> string) list \<Rightarrow> string + (string \<times> string) list" where
  "cookiePart dec part out =
     (case indexOf (CHR ''='') part of
        None \<Rightarrow> Inr out
      | Some idx \<Rightarrow>
          let k = trim (take idx part);
              v = trim (drop (idx + 1) part)
          in if k = [] then Inr out
             else (case dec v of Inl e \<Rightarrow> Inl e | Inr decoded \<Rightarrow> Inr ((k, decoded) # out)))"

text \<open>The \<^verbatim>\<open>forEach\<close> itself: the first exception ends it.\<close>

fun forEachPart :: "decoder \<Rightarrow> string list \<Rightarrow> (string \<times> string) list \<Rightarrow> string + (string \<times> string) list" where
  "forEachPart dec [] out = Inr out"
| "forEachPart dec (part # parts) out =
     (case cookiePart dec part out of
        Inl e \<Rightarrow> Inl e
      | Inr out' \<Rightarrow> forEachPart dec parts out')"

text \<open>
  \<^verbatim>\<open>parseCookies(header)\<close> of the Worker; the header is \<open>None\<close> when the request has no
  \<^verbatim>\<open>Cookie\<close> header.
\<close>

definition parseCookies :: "decoder \<Rightarrow> string option \<Rightarrow> string + (string \<times> string) list" where
  "parseCookies dec header =
     (case header of
        None \<Rightarrow> Inr []
      | Some h \<Rightarrow> if h = [] then Inr [] else forEachPart dec (split (CHR '';'') h) [])"

text \<open>\<^verbatim>\<open>parseCookies(req)\<close> of the local server, on \<^verbatim>\<open>req.headers.cookie || ""\<close>.\<close>

definition srv_parseCookies :: "decoder \<Rightarrow> string option \<Rightarrow> string + (string \<times> string) list" where
  "srv_parseCookies dec header =
     forEachPart dec (split (CHR '';'') (case header of None \<Rightarrow> [] | Some h \<Rightarrow> h)) []"


subsection \<open>Credential hasher of the Worker\<close>

text \<open>
  The primitives of the platform are not part of the repository; they are parameters of
  the model. \<open>subtle_digest\<close> is SHA-256 of the UTF-8 bytes of a string.
  \<open>subtle_deriveBits password hash salt iterations length\<close> is PBKDF2 with the given
  digest name and a length in bits; \<open>Inl\<close> is the message of the exception it throws.
  \<open>decodeURIComponent\<close> is the builtin of that name.
\<close>

record platform =
  subtle_digest :: "string \<Rightarrow> byte list"
  subtle_deriveBits :: "string \<Rightarrow> string \<Rightarrow> byte list \<Rightarrow> int \<Rightarrow> int \<Rightarrow> string + byte list"
  decodeURIComponent :: decoder

text \<open>
  \<^verbatim>\<open>new Uint8Array(n)\<close> and \<^verbatim>\<open>crypto.getRandomValues(array)\<close>, which fills the array it is
  given: the result has the length of the array, and its byte \<open>i\<close> is what the random
  source \<open>src\<close> hands out at \<open>i\<close>.
\<close>

definition newUint8Array :: "nat \<Rightarrow> byte list" where
  "newUint8Array n = replicate n 0"

definition getRandomValues :: "(nat \<Rightarrow> byte) \<Rightarrow> byte list \<Rightarrow> byte list" where
  "getRandomValues src array = map src [0..<length array]"

record pw_record =
  pw_salt_hex :: string
  pw_iterations :: int
  pw_digest :: string
  pw_keylen :: int
  pw_hash_hex :: string

definition pbkdf2Hash :: "platform \<Rightarrow> string \<Rightarrow> string \<Rightarrow> int \<Rightarrow> int \<Rightarrow> string \<Rightarrow> string + string" where
  "pbkdf2Hash cr password saltHex iterations keylen digest =
     (case subtle_deriveBits cr password digest (hexToBytes saltHex) iterations (keylen * 8) of
        Inl e \<Rightarrow> Inl e
      | Inr bits \<Rightarrow> Inr (bytesToHex bits))"

definition makePasswordRecord :: "platform \<Rightarrow> (nat \<Rightarrow> byte) \<Rightarrow> string \<Rightarrow> string + pw_record" where
  "makePasswordRecord cr src password =
     (let salt = getRandomValues src (newUint8Array 16);
          saltHex = bytesToHex salt;
          iterations = 100000;
          keylen = 32;
          digest = ''SHA-256''
      in case pbkdf2Hash cr password saltHex iterations keylen digest of
           Inl e \<Rightarrow> Inl e
         | Inr hashHex \<Rightarrow>
             Inr \<lparr>pw_salt_hex = saltHex, pw_iterations = iterations, pw_digest = ''sha256'',
                  pw_keylen = keylen, pw_hash_hex = hashHex\<rparr>)"

definition verifyPassword :: "platform \<Rightarrow> string \<Rightarrow> 'a pw_record_scheme \<Rightarrow> string + bool" where
  "verifyPassword cr password record =
     (let digest = (if pw_digest record = ''sha256'' then ''SHA-256'' else pw_digest record)
      in case pbkdf2Hash cr password (pw_salt_hex record) (pw_iterations record)
                (pw_keylen record) digest of
           Inl e \<Rightarrow> Inl e
         | Inr hashHex \<Rightarrow> Inr (safeEqualHex hashHex (pw_hash_hex record)))"

text \<open>\<open>stripPrefix p s\<close> is the rest of \<open>s\<close> after its prefix \<open>p\<close>, if \<open>s\<close> starts with \<open>p\<close>.\<close>

fun stripPrefix :: "string \<Rightarrow> string \<Rightarrow> string option" where
  "stripPrefix [] s = Some s"
| "stripPrefix (p # ps) [] = None"
| "stripPrefix (p # ps) (c # cs) = (if p = c then stripPrefix ps cs else None)"

subsection \<open>Token codec of the Worker\<close>

record token_parts =
  tp_token :: string
  tp_salt :: string

text \<open>
  \<^verbatim>\<open>splitToken(raw)\<close>. The argument is \<open>None\<close> when the cookie is missing
  (\<^verbatim>\<open>undefined\<close>); \<^verbatim>\<open>!raw\<close> also holds of the empty string.
\<close>

definition splitToken :: "string option \<Rightarrow> token_parts option" where
  "splitToken raw =
     (case raw of
        None \<Rightarrow> None
      | Some r \<Rightarrow>
          if r = [] then None
          else (case lastIndexOf (CHR ''.'') r of
                  None \<Rightarrow> None
                | Some idx \<Rightarrow> Some \<lparr>tp_token = take idx r, tp_salt = drop (idx + 1) r\<rparr>))"

definition sha256Hex :: "platform \<Rightarrow> string \<Rightarrow> string" where
  "sha256Hex cr input = bytesToHex (subtle_digest cr input)"

record token_data =
  td_token :: string
  td_salt :: string
  td_hash :: string


text \<open>
  \<^verbatim>\<open>makeToken(pepper)\<close>; \<open>uuid\<close> is the result of \<^verbatim>\<open>crypto.randomUUID()\<close> and
  \<open>src\<close> the random source.
\<close>

definition makeToken :: "platform \<Rightarrow> string \<Rightarrow> (nat \<Rightarrow> byte) \<Rightarrow> string \<Rightarrow> token_data" where
  "makeToken cr uuid src pepper =
     (let salt = bytesToHex (getRandomValues src (newUint8Array 16));
          hash = sha256Hex cr (uuid @ '':'' @ salt @ '':'' @ pepper)
      in \<lparr>td_token = uuid, td_salt = salt, td_hash = hash\<rparr>)"

subsection \<open>The hosted store of the Worker (supabase/schema.sql)\<close>

text \<open>
  An instant is a number of milliseconds; the source prints it as ISO text and the store
  compares it as \<^verbatim>\<open>timestamptz\<close>. The \<^verbatim>\<open>id\<close> and \<^verbatim>\<open>created_at\<close> columns of the two
  token tables are left out: no handler reads them.
\<close>

record post_row = pw_record +
  pr_id :: string
  pr_title :: string
  pr_author :: string
  pr_content :: string
  pr_created_at :: nat
  pr_updated_at :: "nat option"

record view_token_row =
  vt_post_id :: string
  vt_token_hash :: string
  vt_token_salt :: string
  vt_expires_at :: nat

record admin_session_row =
  as_token_hash :: string
  as_token_salt :: string
  as_expires_at :: nat

record supabase =
  posts :: "post_row list"
  view_tokens :: "view_token_row list"
  admin_sessions :: "admin_session_row list"

datatype db_request =
    SelectAdminSessions | InsertAdminSessions | DeleteAdminSessions
  | SelectPosts | InsertPosts | PatchPosts | DeletePosts
  | SelectViewTokens | InsertViewTokens


text \<open>
  What a request meets outside the code: the store, the time of \<^verbatim>\<open>Date.now()\<close>, for
  each kind of request to the store whether it comes back with \<^verbatim>\<open>res.ok\<close> false (then
  with which text, and without effect on the store), and the values the random sources
  hand out. The \<^verbatim>\<open>PATCH\<close> and the \<^verbatim>\<open>DELETE\<close> of a post write the path segment into
  the query as it is (\<^verbatim>\<open>posts?id=eq.${id}\<close>, lines 490 and 552), so which rows they
  touch is the store's reading of that text: \<open>matching w q\<close> holds of the rows that the
  store selects for the query text \<open>q\<close>.
\<close>

record world =
  db :: supabase
  clock :: nat
  outage :: "db_request \<Rightarrow> string option"
  matching :: "string \<Rightarrow> post_row \<Rightarrow> bool"
  randomUUID :: string
  randomValues :: "nat \<Rightarrow> byte"
  gen_random_uuid :: string

record env =
  ADMIN_PASSWORD :: string
  TOKEN_PEPPER :: string

text \<open>
  Of a request the method, the path, the \<^verbatim>\<open>Cookie\<close> header as it was sent (\<open>None\<close>
  without the header) and the result of \<^verbatim>\<open>readJson\<close> (\<open>None\<close> when it returns null, the
  empty object for an empty text). Of a response the status, the body and the cookie it
  sets are kept; the CORS headers are left out.
\<close>

record request =
  rq_method :: string
  rq_pathname :: string
  rq_cookie :: "string option"
  rq_body :: "json option"

record cookie =
  ck_name :: string
  ck_value :: string
  ck_attrs :: "string list"

record response =
  rs_status :: nat
  rs_body :: json
  rs_set_cookie :: "cookie option"

definition send :: "nat \<Rightarrow> json \<Rightarrow> response" where
  "send status body = \<lparr>rs_status = status, rs_body = body, rs_set_cookie = None\<rparr>"

definition errorBody :: "string \<Rightarrow> json" where
  "errorBody msg = JObj [(''error'', JStr msg)]"

definition errorDetail :: "string \<Rightarrow> string \<Rightarrow> json" where
  "errorDetail msg detail = JObj [(''error'', JStr msg), (''detail'', JStr detail)]"

definition instantJson :: "nat option \<Rightarrow> json" where
  "instantJson t = (case t of None \<Rightarrow> JNull | Some n \<Rightarrow> JNum (int n))"

definition postSummaryJson :: "post_row \<Rightarrow> json" where
  "postSummaryJson p =
     JObj [(''id'', JStr (pr_id p)), (''title'', JStr (pr_title p)), (''author'', JStr (pr_author p)),
           (''createdAt'', instantJson (Some (pr_created_at p))),
           (''updatedAt'', instantJson (pr_updated_at p))]"

definition postJson :: "post_row \<Rightarrow> json" where
  "postJson p =
     JObj [(''id'', JStr (pr_id p)), (''title'', JStr (pr_title p)), (''author'', JStr (pr_author p)),
           (''content'', JStr (pr_content p)),
           (''createdAt'', instantJson (Some (pr_created_at p))),
           (''updatedAt'', instantJson (pr_updated_at p))]"

text \<open>The queries of the handlers, as the store answers them.\<close>

definition selectPost :: "world \<Rightarrow> string \<Rightarrow> post_row list" where
  "selectPost w ident = take 1 (filter (\<lambda>p. pr_id p = ident) (posts (db w)))"

definition selectAdminSessions :: "world \<Rightarrow> string \<Rightarrow> string \<Rightarrow> admin_session_row list" where
  "selectAdminSessions w tokenHash salt =
     take 1 (filter (\<lambda>r. as_token_hash r = tokenHash \<and> as_token_salt r = salt \<and>
                        clock w < as_expires_at r) (admin_sessions (db w)))"

definition selectViewTokens :: "world \<Rightarrow> string \<Rightarrow> string \<Rightarrow> string \<Rightarrow> view_token_row list" where
  "selectViewTokens w ident tokenHash salt =
     take 1 (filter (\<lambda>r. vt_post_id r = ident \<and> vt_token_hash r = tokenHash \<and>
                        vt_token_salt r = salt \<and> clock w < vt_expires_at r) (view_tokens (db w)))"

text \<open>
  The text \<^verbatim>\<open>id=eq.${id}\<close> that the two mutations put into the query, and the
  mutations as the store carries them out. The update trigger of the schema sets
  \<^verbatim>\<open>updated_at\<close>; the view tokens of a deleted post go with it (\<^verbatim>\<open>on delete cascade\<close>).
\<close>

definition idQuery :: "string \<Rightarrow> string" where
  "idQuery ident = ''id=eq.'' @ ident"

definition patchPost :: "world \<Rightarrow> string \<Rightarrow> string \<Rightarrow> string \<Rightarrow> supabase" where
  "patchPost w ident title content =
     (db w)\<lparr>posts :=
        map (\<lambda>p. if matching w (idQuery ident) p
                 then p\<lparr>pr_title := title, pr_content := content, pr_updated_at := Some (clock w)\<rparr>
                 else p) (posts (db w))\<rparr>"

definition deletePost :: "world \<Rightarrow> string \<Rightarrow> supabase" where
  "deletePost w ident =
     (let gone = filter (matching w (idQuery ident)) (posts (db w))
      in (db w)\<lparr>posts := filter (\<lambda>p. \<not> matching w (idQuery ident) p) (posts (db w)),
                view_tokens := filter (\<lambda>r. vt_post_id r \<notin> pr_id ` set gone) (view_tokens (db w))\<rparr>)"

subsection \<open>Admin session of the Worker\<close>

definition tokenHashOf :: "platform \<Rightarrow> env \<Rightarrow> token_parts \<Rightarrow> string" where
  "tokenHashOf cr env tokenParts =
     sha256Hex cr (tp_token tokenParts @ '':'' @ tp_salt tokenParts @ '':'' @ TOKEN_PEPPER env)"

text \<open>
  What the two queries ask of a row beside its expiry (lines 179 to 180 and 459 to 460):
  the hash of the presented token is the stored hash, and its salt the stored salt.
\<close>

definition tokenMatches :: "platform \<Rightarrow> env \<Rightarrow> string option \<Rightarrow> string \<Rightarrow> string \<Rightarrow> bool" where
  "tokenMatches cr env raw storedHash storedSalt =
     (case splitToken raw of
        None \<Rightarrow> False
      | Some tokenParts \<Rightarrow>
          storedHash = tokenHashOf cr env tokenParts \<and> storedSalt = tp_salt tokenParts)"

text \<open>\<open>Inl\<close> is the exception of \<^verbatim>\<open>parseCookies\<close>.\<close>

definition adminSessionFromCookie ::
  "platform \<Rightarrow> env \<Rightarrow> world \<Rightarrow> request \<Rightarrow> string + admin_session_row option" where
  "adminSessionFromCookie cr env w rq =
     (case parseCookies (decodeURIComponent cr) (rq_cookie rq) of
        Inl e \<Rightarrow> Inl e
      | Inr cookies \<Rightarrow>
          (case splitToken (map_of cookies ''woldecks.admin'') of
             None \<Rightarrow> Inr None
           | Some tokenParts \<Rightarrow>
               (case outage w SelectAdminSessions of
                  Some _ \<Rightarrow> Inr None
                | None \<Rightarrow>
                    (case selectAdminSessions w (tokenHashOf cr env tokenParts) (tp_salt tokenParts) of
                       [] \<Rightarrow> Inr None
                     | r # _ \<Rightarrow> Inr (Some r)))))"

definition isAdmin :: "platform \<Rightarrow> env \<Rightarrow> world \<Rightarrow> request \<Rightarrow> string + bool" where
  "isAdmin cr env w rq =
     (case adminSessionFromCookie cr env w rq of
        Inl e \<Rightarrow> Inl e
      | Inr session \<Rightarrow> Inr (session \<noteq> None))"

subsection \<open>Authorization of a mutation in the Worker\<close>

text \<open>
  The view-token lookup of the \<^verbatim>\<open>PUT\<close> and \<^verbatim>\<open>DELETE\<close> handlers (the same text in
  both, lines 450 to 469 and 512 to 531): \<^verbatim>\<open>authorized\<close> after it.
\<close>

definition viewTokenAuthorized :: "platform \<Rightarrow> env \<Rightarrow> world \<Rightarrow> string \<Rightarrow> string \<Rightarrow> bool" where
  "viewTokenAuthorized cr env w ident viewToken =
     (case splitToken (Some viewToken) of
        None \<Rightarrow> False
      | Some tokenParts \<Rightarrow>
          (case outage w SelectViewTokens of
             Some _ \<Rightarrow> False
           | None \<Rightarrow>
               selectViewTokens w ident (tokenHashOf cr env tokenParts) (tp_salt tokenParts) \<noteq> []))"

text \<open>
  The password fallback of both handlers (lines 471 to 487 and 533 to 549): \<open>Inl\<close> is an
  exception, \<open>Inr (Some r)\<close> the response the handler returns with, \<open>Inr None\<close> falls
  through to the mutation.
\<close>

definition passwordFallback ::
  "platform \<Rightarrow> world \<Rightarrow> string \<Rightarrow> string \<Rightarrow> string + response option" where
  "passwordFallback cr w ident password =
     (if password = [] then Inr (Some (send 401 (errorBody ''Password required'')))
      else (case outage w SelectPosts of
              Some detail \<Rightarrow> Inr (Some (send 500 (errorDetail ''Failed to verify'' detail)))
            | None \<Rightarrow>
                (case selectPost w ident of
                   [] \<Rightarrow> Inr (Some (send 404 (errorBody ''Not found'')))
                 | p # _ \<Rightarrow>
                     (case verifyPassword cr password p of
                        Inl e \<Rightarrow> Inl e
                      | Inr ok \<Rightarrow>
                          if \<not> ok then Inr (Some (send 401 (errorBody ''Invalid password'')))
                          else Inr None))))"

text \<open>
  Lines 448 to 488 and 510 to 550: \<^verbatim>\<open>isAdmin\<close> first, and only for a caller who is not
  the admin the view token and then the password.
\<close>

definition authorizeMutation ::
  "platform \<Rightarrow> env \<Rightarrow> world \<Rightarrow> request \<Rightarrow> string \<Rightarrow> string \<Rightarrow> string \<Rightarrow> string + response option" where
  "authorizeMutation cr env w rq ident password viewToken =
     (case isAdmin cr env w rq of
        Inl e \<Rightarrow> Inl e
      | Inr isAdminUser \<Rightarrow>
          if isAdminUser then Inr None
          else if viewTokenAuthorized cr env w ident viewToken then Inr None
          else passwordFallback cr w ident password)"

subsection \<open>The request handler of the Worker\<close>

text \<open>
  Each branch of \<^verbatim>\<open>fetch\<close> is a function of its own. A result is the response with the
  store after the request, or \<open>Inl\<close> of the message of an exception, which the
  \<^verbatim>\<open>catch\<close> of \<^verbatim>\<open>fetch\<close> turns into a response. No handler writes to the store before
  a call that can throw, so the store after an exception is the store before the request.
\<close>

type_synonym outcome = "string + (response \<times> supabase)"

text \<open>\<^verbatim>\<open>const body = await readJson(request); if (!body) ...\<close>: the body, if it is truthy.\<close>

definition truthyBody :: "json option \<Rightarrow> json option" where
  "truthyBody b = (case b of None \<Rightarrow> None | Some j \<Rightarrow> if falsy j then None else Some j)"

definition okBody :: json where
  "okBody = JObj [(''ok'', JBool True)]"

definition handleAdminMe :: "platform \<Rightarrow> env \<Rightarrow> world \<Rightarrow> request \<Rightarrow> outcome" where
  "handleAdminMe cr env w rq =
     (case isAdmin cr env w rq of
        Inl e \<Rightarrow> Inl e
      | Inr admin \<Rightarrow> Inr (send 200 (JObj [(''admin'', JBool admin)]), db w))"

definition handleAdminLogin :: "platform \<Rightarrow> env \<Rightarrow> world \<Rightarrow> request \<Rightarrow> outcome" where
  "handleAdminLogin cr env w rq =
     (case truthyBody (rq_body rq) of
        None \<Rightarrow> Inr (send 400 (errorBody ''Invalid JSON''), db w)
      | Some body \<Rightarrow>
          let input = stringField body ''password'' in
          if input = [] then Inr (send 400 (errorBody ''Missing field: password''), db w)
          else if input \<noteq> ADMIN_PASSWORD env then Inr (send 401 (errorBody ''Invalid password''), db w)
          else
            let tokenData = makeToken cr (randomUUID w) (randomValues w) (TOKEN_PEPPER env);
                expiresAt = clock w + 24 * 60 * 60 * 1000
            in (case outage w InsertAdminSessions of
                  Some _ \<Rightarrow> Inr (send 500 (errorBody ''Failed to create session''), db w)
                | None \<Rightarrow>
                    Inr ((send 200 (JObj [(''admin'', JBool True)]))
                           \<lparr>rs_set_cookie := Some
                              \<lparr>ck_name = ''woldecks.admin'',
                               ck_value = td_token tokenData @ ''.'' @ td_salt tokenData,
                               ck_attrs = [''Path=/'', ''HttpOnly'', ''SameSite=None'', ''Secure'',
                                           ''Max-Age=86400'']\<rparr>\<rparr>,
                         (db w)\<lparr>admin_sessions := admin_sessions (db w) @
                            [\<lparr>as_token_hash = td_hash tokenData, as_token_salt = td_salt tokenData,
                              as_expires_at = expiresAt\<rparr>]\<rparr>)))"

definition handleAdminLogout :: "platform \<Rightarrow> env \<Rightarrow> world \<Rightarrow> request \<Rightarrow> outcome" where
  "handleAdminLogout cr env w rq =
     (case parseCookies (decodeURIComponent cr) (rq_cookie rq) of
        Inl e \<Rightarrow> Inl e
      | Inr cookies \<Rightarrow>
          let after =
                (case splitToken (map_of cookies ''woldecks.admin'') of
                   None \<Rightarrow> db w
                 | Some tokenParts \<Rightarrow>
                     (case outage w DeleteAdminSessions of
                        Some _ \<Rightarrow> db w
                      | None \<Rightarrow>
                          (db w)\<lparr>admin_sessions :=
                             filter (\<lambda>r. \<not> (as_token_hash r = tokenHashOf cr env tokenParts \<and>
                                             as_token_salt r = tp_salt tokenParts))
                               (admin_sessions (db w))\<rparr>))
          in Inr ((send 200 okBody)
                    \<lparr>rs_set_cookie := Some
                       \<lparr>ck_name = ''woldecks.admin'', ck_value = ''x'',
                        ck_attrs = [''Path=/'', ''HttpOnly'', ''SameSite=None'', ''Secure'', ''Max-Age=0'']\<rparr>\<rparr>,
                  after))"

text \<open>\<^verbatim>\<open>order: created_at.desc\<close>; the store is free in the order of equal instants.\<close>

definition handleListPosts :: "world \<Rightarrow> outcome" where
  "handleListPosts w =
     (case outage w SelectPosts of
        Some detail \<Rightarrow> Inr (send 500 (errorDetail ''Failed to load posts'' detail), db w)
      | None \<Rightarrow>
          Inr (send 200 (JObj [(''posts'',
                 JArr (map postSummaryJson (rev (sort_key pr_created_at (posts (db w))))))]), db w))"

definition handleCreatePost :: "platform \<Rightarrow> world \<Rightarrow> request \<Rightarrow> outcome" where
  "handleCreatePost cr w rq =
     (case truthyBody (rq_body rq) of
        None \<Rightarrow> Inr (send 400 (errorBody ''Invalid JSON''), db w)
      | Some body \<Rightarrow>
          let title = trim (stringField body ''title'');
              author = trim (stringField body ''author'');
              content = trim (stringField body ''content'');
              password = stringField body ''password''
          in if title = [] \<or> author = [] \<or> content = [] \<or> password = []
             then Inr (send 400 (errorBody ''Missing fields''), db w)
             else (case makePasswordRecord cr (randomValues w) password of
                     Inl e \<Rightarrow> Inl e
                   | Inr passwordRecord \<Rightarrow>
                       (case outage w InsertPosts of
                          Some detail \<Rightarrow> Inr (send 500 (errorDetail ''Failed to create post'' detail), db w)
                        | None \<Rightarrow>
                            Inr (send 201 (JObj [(''id'', JStr (gen_random_uuid w))]),
                                 (db w)\<lparr>posts := posts (db w) @
                                    [pw_record.extend passwordRecord
                                       (post_row.fields (gen_random_uuid w) title author content
                                          (clock w) None)]\<rparr>))))"

text \<open>The read of one post, shared by \<^verbatim>\<open>GET /api/posts/{id}\<close> and the admin's view.\<close>

definition loadPost :: "world \<Rightarrow> string \<Rightarrow> outcome" where
  "loadPost w ident =
     (case outage w SelectPosts of
        Some detail \<Rightarrow> Inr (send 500 (errorDetail ''Failed to load post'' detail), db w)
      | None \<Rightarrow>
          (case selectPost w ident of
             [] \<Rightarrow> Inr (send 404 (errorBody ''Not found''), db w)
           | post # _ \<Rightarrow> Inr (send 200 (JObj [(''post'', postJson post)]), db w)))"

definition handleGetPost :: "platform \<Rightarrow> env \<Rightarrow> world \<Rightarrow> request \<Rightarrow> string \<Rightarrow> outcome" where
  "handleGetPost cr env w rq ident =
     (case isAdmin cr env w rq of
        Inl e \<Rightarrow> Inl e
      | Inr admin \<Rightarrow>
          if \<not> admin then Inr (send 401 (errorBody ''Admin only''), db w)
          else loadPost w ident)"

text \<open>The view of a caller who is not the admin (lines 385 to 434).\<close>

definition viewWithPassword :: "platform \<Rightarrow> env \<Rightarrow> world \<Rightarrow> request \<Rightarrow> string \<Rightarrow> outcome" where
  "viewWithPassword cr env w rq ident =
     (case truthyBody (rq_body rq) of
        None \<Rightarrow> Inr (send 400 (errorBody ''Invalid JSON''), db w)
      | Some body \<Rightarrow>
          let password = stringField body ''password'' in
          if password = [] then Inr (send 401 (errorBody ''Password required''), db w)
          else (case outage w SelectPosts of
                  Some detail \<Rightarrow> Inr (send 500 (errorDetail ''Failed to load post'' detail), db w)
                | None \<Rightarrow>
                    (case selectPost w ident of
                       [] \<Rightarrow> Inr (send 404 (errorBody ''Not found''), db w)
                     | post # _ \<Rightarrow>
                         (case verifyPassword cr password post of
                            Inl e \<Rightarrow> Inl e
                          | Inr ok \<Rightarrow>
                              if \<not> ok then Inr (send 401 (errorBody ''Invalid password''), db w)
                              else
                                let tokenData = makeToken cr (randomUUID w) (randomValues w)
                                                  (TOKEN_PEPPER env);
                                    expiresAt = clock w + 60 * 60 * 1000
                                in (case outage w InsertViewTokens of
                                      Some detail \<Rightarrow>
                                        Inr (send 500 (errorDetail ''Failed to issue token'' detail), db w)
                                    | None \<Rightarrow>
                                        Inr (send 200
                                               (JObj [(''post'', postJson post),
                                                      (''viewToken'',
                                                       JStr (td_token tokenData @ ''.'' @ td_salt tokenData))]),
                                             (db w)\<lparr>view_tokens := view_tokens (db w) @
                                                [\<lparr>vt_post_id = ident,
                                                  vt_token_hash = td_hash tokenData,
                                                  vt_token_salt = td_salt tokenData,
                                                  vt_expires_at = expiresAt\<rparr>]\<rparr>))))))"

definition handleViewPost :: "platform \<Rightarrow> env \<Rightarrow> world \<Rightarrow> request \<Rightarrow> string \<Rightarrow> outcome" where
  "handleViewPost cr env w rq ident =
     (case isAdmin cr env w rq of
        Inl e \<Rightarrow> Inl e
      | Inr admin \<Rightarrow>
          if admin then loadPost w ident
          else viewWithPassword cr env w rq ident)"

text \<open>
  The end of the \<^verbatim>\<open>PUT\<close> handler (lines 490 to 499) and of the \<^verbatim>\<open>DELETE\<close> handler
  (lines 552 to 559): the mutation, once the request is authorized.
\<close>

definition updatePost :: "world \<Rightarrow> string \<Rightarrow> string \<Rightarrow> string \<Rightarrow> response \<times> supabase" where
  "updatePost w ident title content =
     (case outage w PatchPosts of
        Some detail \<Rightarrow> (send 500 (errorDetail ''Failed to update'' detail), db w)
      | None \<Rightarrow> (send 200 okBody, patchPost w ident title content))"

definition removePost :: "world \<Rightarrow> string \<Rightarrow> response \<times> supabase" where
  "removePost w ident =
     (case outage w DeletePosts of
        Some detail \<Rightarrow> (send 500 (errorDetail ''Failed to delete'' detail), db w)
      | None \<Rightarrow> (send 200 okBody, deletePost w ident))"

definition handlePutPost :: "platform \<Rightarrow> env \<Rightarrow> world \<Rightarrow> request \<Rightarrow> string \<Rightarrow> outcome" where
  "handlePutPost cr env w rq ident =
     (case truthyBody (rq_body rq) of
        None \<Rightarrow> Inr (send 400 (errorBody ''Invalid JSON''), db w)
      | Some body \<Rightarrow>
          let title = trim (stringField body ''title'');
              content = trim (stringField body ''content'');
              password = stringField body ''password'';
              viewToken = stringField body ''viewToken''
          in if title = [] \<or> content = [] then Inr (send 400 (errorBody ''Missing fields''), db w)
             else (case authorizeMutation cr env w rq ident password viewToken of
                     Inl e \<Rightarrow> Inl e
                   | Inr (Some rejection) \<Rightarrow> Inr (rejection, db w)
                   | Inr None \<Rightarrow> Inr (updatePost w ident title content)))"

definition handleDeletePost :: "platform \<Rightarrow> env \<Rightarrow> world \<Rightarrow> request \<Rightarrow> string \<Rightarrow> outcome" where
  "handleDeletePost cr env w rq ident =
     (case truthyBody (rq_body rq) of
        None \<Rightarrow> Inr (send 400 (errorBody ''Invalid JSON''), db w)
      | Some body \<Rightarrow>
          let password = stringField body ''password'';
              viewToken = stringField body ''viewToken''
          in (case authorizeMutation cr env w rq ident password viewToken of
                Inl e \<Rightarrow> Inl e
              | Inr (Some rejection) \<Rightarrow> Inr (rejection, db w)
              | Inr None \<Rightarrow> Inr (removePost w ident)))"

text \<open>The two path patterns, \<^verbatim>\<open>^\/api\/posts\/([^/]+)$\<close> and \<^verbatim>\<open>^\/api\/posts\/([^/]+)\/view$\<close>.\<close>

definition postMatch :: "string \<Rightarrow> string option" where
  "postMatch path =
     (case stripPrefix ''/api/posts/'' path of
        None \<Rightarrow> None
      | Some rest \<Rightarrow> if rest \<noteq> [] \<and> CHR ''/'' \<notin> set rest then Some rest else None)"

definition viewMatch :: "string \<Rightarrow> string option" where
  "viewMatch path =
     (case stripPrefix ''/api/posts/'' path of
        None \<Rightarrow> None
      | Some rest \<Rightarrow>
          (case stripPrefix (rev ''/view'') (rev rest) of
             None \<Rightarrow> None
           | Some r \<Rightarrow> if r \<noteq> [] \<and> CHR ''/'' \<notin> set r then Some (rev r) else None))"

text \<open>What the two patterns match; the termination of \<^verbatim>\<open>route\<close> below rests on it.\<close>

lemma stripPrefix_Some: "stripPrefix p s = Some r \<longleftrightarrow> s = p @ r"
  by (induction p s rule: stripPrefix.induct) auto

lemma stripPrefix_append: "stripPrefix p (p @ r) = Some r"
  by (simp add: stripPrefix_Some)

lemma postMatch_Some:
  "postMatch path = Some i \<longleftrightarrow> path = ''/api/posts/'' @ i \<and> i \<noteq> [] \<and> CHR ''/'' \<notin> set i"
proof
  assume "postMatch path = Some i"
  then have "stripPrefix ''/api/posts/'' path = Some i" and "i \<noteq> []" and "CHR ''/'' \<notin> set i"
    by (auto simp: postMatch_def split: option.splits if_splits)
  then show "path = ''/api/posts/'' @ i \<and> i \<noteq> [] \<and> CHR ''/'' \<notin> set i"
    using stripPrefix_Some [of "''/api/posts/''" path i] by blast
next
  assume a: "path = ''/api/posts/'' @ i \<and> i \<noteq> [] \<and> CHR ''/'' \<notin> set i"
  then have "stripPrefix ''/api/posts/'' path = Some i"
    using stripPrefix_append [of "''/api/posts/''" i] by metis
  with a show "postMatch path = Some i" by (simp add: postMatch_def)
qed

lemma viewMatch_Some:
  "viewMatch path = Some i \<longleftrightarrow> path = ''/api/posts/'' @ i @ ''/view'' \<and> i \<noteq> [] \<and> CHR ''/'' \<notin> set i"
proof
  assume "viewMatch path = Some i"
  then obtain rest r where 1: "stripPrefix ''/api/posts/'' path = Some rest"
    and 2: "stripPrefix (rev ''/view'') (rev rest) = Some r" and 3: "r \<noteq> []" "CHR ''/'' \<notin> set r" "i = rev r"
    by (auto simp: viewMatch_def split: option.splits if_splits)
  from 2 have "rev rest = rev ''/view'' @ r" by (simp only: stripPrefix_Some)
  then have "rev (rev rest) = rev (rev ''/view'' @ r)" by (rule arg_cong)
  then have "rest = i @ ''/view''" using 3 by (simp only: rev_rev_ident rev_append)
  moreover from 1 have "path = ''/api/posts/'' @ rest" by (simp only: stripPrefix_Some)
  ultimately show "path = ''/api/posts/'' @ i @ ''/view'' \<and> i \<noteq> [] \<and> CHR ''/'' \<notin> set i"
    using 3 by simp
next
  assume a: "path = ''/api/posts/'' @ i @ ''/view'' \<and> i \<noteq> [] \<and> CHR ''/'' \<notin> set i"
  then have 1: "stripPrefix ''/api/posts/'' path = Some (i @ ''/view'')"
    using stripPrefix_append [of "''/api/posts/''" "i @ ''/view''"] by metis
  have "rev (i @ ''/view'') = rev ''/view'' @ rev i" by (rule rev_append)
  then have 2: "stripPrefix (rev ''/view'') (rev (i @ ''/view'')) = Some (rev i)"
    using stripPrefix_append [of "rev ''/view''" "rev i"] by metis
  from a show "viewMatch path = Some i"
    unfolding viewMatch_def by (simp only: 1 2 option.case) simp
qed

lemma viewMatch_redirect:
  assumes "viewMatch path = Some i"
  shows "viewMatch (''/api/posts/'' @ i) = None"
proof (cases "viewMatch (''/api/posts/'' @ i)")
  case None then show ?thesis .
next
  case (Some j)
  then have "i = j @ ''/view''" by (simp add: viewMatch_Some)
  with assms show ?thesis by (simp add: viewMatch_Some)
qed

lemma postMatch_not_view: "postMatch path = Some i \<Longrightarrow> viewMatch path = None"
proof (cases "viewMatch path")
  case None then show ?thesis .
next
  case (Some j)
  assume "postMatch path = Some i"
  then have i: "path = ''/api/posts/'' @ i" "CHR ''/'' \<notin> set i" by (simp_all add: postMatch_Some)
  from Some have "path = ''/api/posts/'' @ j @ ''/view''" by (simp add: viewMatch_Some)
  with i have "i = j @ ''/view''" by simp
  with i show ?thesis by simp
qed

definition routes :: "platform \<Rightarrow> env \<Rightarrow> world \<Rightarrow> request \<Rightarrow> outcome" where
  "routes cr env w rq =
     (let path = rq_pathname rq; meth = rq_method rq in
      if path = ''/api/admin/me'' \<and> meth = ''GET'' then handleAdminMe cr env w rq
      else if path = ''/api/admin/login'' \<and> meth = ''POST'' then handleAdminLogin cr env w rq
      else if path = ''/api/admin/logout'' \<and> meth = ''POST'' then handleAdminLogout cr env w rq
      else if path = ''/api/posts'' \<and> meth = ''GET'' then handleListPosts w
      else if path = ''/api/posts'' \<and> meth = ''POST'' then handleCreatePost cr w rq
      else if postMatch path \<noteq> None \<and> meth = ''GET'' then handleGetPost cr env w rq (the (postMatch path))
      else if viewMatch path \<noteq> None \<and> meth = ''POST'' then handleViewPost cr env w rq (the (viewMatch path))
      else if postMatch path \<noteq> None \<and> meth = ''PUT'' then handlePutPost cr env w rq (the (postMatch path))
      else if postMatch path \<noteq> None \<and> meth = ''DELETE'' then handleDeletePost cr env w rq (the (postMatch path))
      else Inr (send 404 (errorBody ''Not found''), db w))"

text \<open>
  \<^verbatim>\<open>fetch\<close>: the \<^verbatim>\<open>OPTIONS\<close> answer has no body; an exception of a handler becomes
  the response 500 with the message as \<^verbatim>\<open>detail\<close>.
\<close>

definition fetch :: "platform \<Rightarrow> env \<Rightarrow> world \<Rightarrow> request \<Rightarrow> response \<times> supabase" where
  "fetch cr env w rq =
     (if rq_method rq = ''OPTIONS'' then (send 204 JNull, db w)
      else (case routes cr env w rq of
              Inl message \<Rightarrow> (send 500 (errorDetail ''Worker error'' message), db w)
            | Inr result \<Rightarrow> result))"

subsection \<open>Credential hasher of the local server\<close>

text \<open>
  The primitives of Node are parameters as well:
  \<open>node_pbkdf2Sync password salt iterations keylen digest\<close> (\<open>Inl\<close> is the message of
  the exception it throws), \<open>node_hmac key value\<close> for the hex digest of
  \<^verbatim>\<open>createHmac("sha256", key).update(value)\<close>, \<open>node_randomUUID n\<close> for the result
  of call number \<open>n\<close> of \<^verbatim>\<open>crypto.randomUUID()\<close> while a request is handled,
  \<open>node_entropy\<close> for the random source and \<open>node_decodeURIComponent\<close> for the builtin.
\<close>

record node =
  node_pbkdf2Sync :: "string \<Rightarrow> byte list \<Rightarrow> int \<Rightarrow> int \<Rightarrow> string \<Rightarrow> string + byte list"
  node_hmac :: "string \<Rightarrow> string \<Rightarrow> string"
  node_randomUUID :: "nat \<Rightarrow> string"
  node_entropy :: "nat \<Rightarrow> byte"
  node_decodeURIComponent :: decoder

text \<open>\<^verbatim>\<open>crypto.randomBytes(n)\<close>: the first \<open>n\<close> bytes of the random source.\<close>

definition randomBytes :: "node \<Rightarrow> nat \<Rightarrow> byte list" where
  "randomBytes nd n = map (node_entropy nd) [0..<n]"

record srv_pw_record =
  rec_saltHex :: string
  rec_iterations :: int
  rec_digest :: string
  rec_keylen :: int
  rec_hashHex :: string

record derived =
  d_iterations :: int
  d_digest :: string
  d_keylen :: int
  d_hashHex :: string

definition srv_pbkdf2Hash :: "node \<Rightarrow> string \<Rightarrow> string \<Rightarrow> string + derived" where
  "srv_pbkdf2Hash nd password saltHex =
     (let salt = bufferFromHex saltHex;
          iterations = 120000;
          keylen = 32;
          digest = ''sha256''
      in case node_pbkdf2Sync nd password salt iterations keylen digest of
           Inl e \<Rightarrow> Inl e
         | Inr hash \<Rightarrow>
             Inr \<lparr>d_iterations = iterations, d_digest = digest, d_keylen = keylen,
                  d_hashHex = bytesToHex hash\<rparr>)"

definition srv_makePasswordRecord :: "node \<Rightarrow> string \<Rightarrow> string + srv_pw_record" where
  "srv_makePasswordRecord nd password =
     (let saltHex = bytesToHex (randomBytes nd 16) in
      case srv_pbkdf2Hash nd password saltHex of
        Inl e \<Rightarrow> Inl e
      | Inr d \<Rightarrow>
          Inr \<lparr>rec_saltHex = saltHex, rec_iterations = d_iterations d, rec_digest = d_digest d,
               rec_keylen = d_keylen d, rec_hashHex = d_hashHex d\<rparr>)"

text \<open>\<^verbatim>\<open>crypto.timingSafeEqual\<close> throws on buffers of different lengths.\<close>

definition timingSafeEqual :: "byte list \<Rightarrow> byte list \<Rightarrow> string + bool" where
  "timingSafeEqual a b =
     (if length a \<noteq> length b then Inl ''Input buffers must have the same byte length''
      else Inr (a = b))"

definition srv_verifyPassword :: "node \<Rightarrow> string \<Rightarrow> srv_pw_record \<Rightarrow> string + bool" where
  "srv_verifyPassword nd password record =
     (case node_pbkdf2Sync nd password (bufferFromHex (rec_saltHex record)) (rec_iterations record)
             (rec_keylen record) (rec_digest record) of
        Inl e \<Rightarrow> Inl e
      | Inr derived \<Rightarrow>
          (case timingSafeEqual (bufferFromHex (rec_hashHex record))
                  (bufferFromHex (bytesToHex derived)) of
             Inl _ \<Rightarrow> Inr False
           | Inr eq \<Rightarrow> Inr eq))"

subsection \<open>State and sessions of the local server\<close>

record srv_token =
  tk_token :: string
  tk_createdAt :: nat

record srv_session =
  ss_createdAt :: nat
  ss_verified :: "string set"
  ss_tokens :: "string \<rightharpoonup> srv_token"

record srv_post =
  sp_id :: string
  sp_title :: string
  sp_author :: string
  sp_content :: string
  sp_password :: srv_pw_record
  sp_createdAt :: nat
  sp_updatedAt :: "nat option"

text \<open>The map \<^verbatim>\<open>sessions\<close> of the process and the posts of the data file.\<close>

record srv_state =
  sessions :: "string \<rightharpoonup> srv_session"
  data_posts :: "srv_post list"

record srv_config =
  srv_ADMIN_PASSWORD :: string
  SESSION_SECRET :: string

text \<open>
  Of a request the method, the path, the \<^verbatim>\<open>Cookie\<close> header as it was sent, and the
  parsed body, \<open>None\<close> when reading or parsing it throws.
\<close>

record srv_request =
  sr_method :: string
  sr_pathname :: string
  sr_cookie :: "string option"
  sr_body :: "json option"

definition sign :: "node \<Rightarrow> srv_config \<Rightarrow> string \<Rightarrow> string" where
  "sign nd cfg v = v @ ''.'' @ node_hmac nd (SESSION_SECRET cfg) v"

definition verifySigned :: "node \<Rightarrow> srv_config \<Rightarrow> string \<Rightarrow> string option" where
  "verifySigned nd cfg signedValue =
     (case lastIndexOf (CHR ''.'') signedValue of
        None \<Rightarrow> None
      | Some idx \<Rightarrow>
          let v = take idx signedValue;
              mac = drop (idx + 1) signedValue;
              expected = node_hmac nd (SESSION_SECRET cfg) v
          in if mac = expected then Some v else None)"

text \<open>
  \<^verbatim>\<open>if (!signed) return null\<close> holds of a missing cookie and of an empty one; \<open>Inl\<close> is
  the exception of \<^verbatim>\<open>parseCookies\<close>.
\<close>

definition getSessionId :: "node \<Rightarrow> srv_config \<Rightarrow> srv_request \<Rightarrow> string + string option" where
  "getSessionId nd cfg rq =
     (case srv_parseCookies (node_decodeURIComponent nd) (sr_cookie rq) of
        Inl e \<Rightarrow> Inl e
      | Inr cookies \<Rightarrow>
          (case map_of cookies ''woldecks.sid'' of
             None \<Rightarrow> Inr None
           | Some signedValue \<Rightarrow>
               if signedValue = [] then Inr None else Inr (verifySigned nd cfg signedValue)))"

definition setCookie :: "string \<Rightarrow> string \<Rightarrow> bool \<Rightarrow> cookie" where
  "setCookie name v clear =
     \<lparr>ck_name = name, ck_value = v,
      ck_attrs = [''Path=/'', ''HttpOnly'', ''SameSite=Lax''] @ (if clear then [''Max-Age=0''] else [])\<rparr>"

text \<open>
  \<^verbatim>\<open>getOrCreateSession\<close>: the session id and the session, the cookie it sets if it
  creates the session, the map of sessions after it, and the number of calls of
  \<^verbatim>\<open>randomUUID\<close> it made.
\<close>

definition newSession :: "nat \<Rightarrow> srv_session" where
  "newSession now = \<lparr>ss_createdAt = now, ss_verified = {}, ss_tokens = Map.empty\<rparr>"

definition getOrCreateSession ::
  "node \<Rightarrow> srv_config \<Rightarrow> nat \<Rightarrow> (string \<rightharpoonup> srv_session) \<Rightarrow> srv_request \<Rightarrow>
     string + (string \<times> srv_session \<times> cookie option \<times> (string \<rightharpoonup> srv_session) \<times> nat)" where
  "getOrCreateSession nd cfg now sess rq =
     (let fresh = (node_randomUUID nd 0, newSession now,
                   Some (setCookie ''woldecks.sid'' (sign nd cfg (node_randomUUID nd 0)) False),
                   sess(node_randomUUID nd 0 \<mapsto> newSession now), 1)
      in case getSessionId nd cfg rq of
           Inl e \<Rightarrow> Inl e
         | Inr None \<Rightarrow> Inr fresh
         | Inr (Some sid) \<Rightarrow>
             (case (if sid = [] then None else sess sid) of
                None \<Rightarrow> Inr fresh
              | Some session \<Rightarrow> Inr (sid, session, None, sess, 0)))"

text \<open>
  \<^verbatim>\<open>getAdminSession\<close> looks the id up in the same map \<^verbatim>\<open>sessions\<close> in which
  \<^verbatim>\<open>getOrCreateSession\<close> keeps the sessions of visitors.
\<close>

definition getAdminSession :: "node \<Rightarrow> srv_config \<Rightarrow> srv_state \<Rightarrow> srv_request \<Rightarrow> string + string option" where
  "getAdminSession nd cfg s rq =
     (case srv_parseCookies (node_decodeURIComponent nd) (sr_cookie rq) of
        Inl e \<Rightarrow> Inl e
      | Inr cookies \<Rightarrow>
          (case map_of cookies ''woldecks.admin'' of
             None \<Rightarrow> Inr None
           | Some signedValue \<Rightarrow>
               if signedValue = [] then Inr None
               else (case verifySigned nd cfg signedValue of
                       None \<Rightarrow> Inr None
                     | Some sid \<Rightarrow> if sid = [] then Inr None
                                  else if sessions s sid \<noteq> None then Inr (Some sid) else Inr None)))"

definition srv_isAdmin :: "node \<Rightarrow> srv_config \<Rightarrow> srv_state \<Rightarrow> srv_request \<Rightarrow> string + bool" where
  "srv_isAdmin nd cfg s rq =
     (case getAdminSession nd cfg s rq of
        Inl e \<Rightarrow> Inl e
      | Inr sid \<Rightarrow> Inr (sid \<noteq> None))"

subsection \<open>Authorization of a mutation in the local server\<close>

datatype srv_verdict =
    Thrown string
  | Rejected response
  | Authorized "cookie option" "string \<rightharpoonup> srv_session"

text \<open>\<^verbatim>\<open>ensured.verified.add(id); ensured.tokens.set(id, {token, createdAt})\<close>\<close>

definition unlock :: "srv_session \<Rightarrow> string \<Rightarrow> string \<Rightarrow> nat \<Rightarrow> srv_session" where
  "unlock session ident token now =
     session\<lparr>ss_verified := insert ident (ss_verified session),
             ss_tokens := (ss_tokens session)(ident \<mapsto> \<lparr>tk_token = token, tk_createdAt = now\<rparr>)\<rparr>"

text \<open>The session of the request: \<^verbatim>\<open>sid && sessions.has(sid) ? sessions.get(sid) : null\<close>\<close>

definition sessionOf :: "node \<Rightarrow> srv_config \<Rightarrow> srv_state \<Rightarrow> srv_request \<Rightarrow> string + srv_session option" where
  "sessionOf nd cfg s rq =
     (case getSessionId nd cfg rq of
        Inl e \<Rightarrow> Inl e
      | Inr None \<Rightarrow> Inr None
      | Inr (Some sid) \<Rightarrow> Inr (if sid = [] then None else sessions s sid))"

definition sessionVerified :: "srv_session option \<Rightarrow> string \<Rightarrow> bool" where
  "sessionVerified session ident = (case session of None \<Rightarrow> False | Some x \<Rightarrow> ident \<in> ss_verified x)"

definition sessionTokenOk :: "srv_session option \<Rightarrow> string \<Rightarrow> string \<Rightarrow> bool" where
  "sessionTokenOk session ident viewToken =
     (case session of
        None \<Rightarrow> False
      | Some x \<Rightarrow> (case ss_tokens x ident of None \<Rightarrow> False | Some t \<Rightarrow> tk_token t = viewToken))"


text \<open>
  The password check of the block (lines 417 to 424 and 457 to 464), for a caller whose
  session does not authorize the request.
\<close>

definition srv_passwordFallback ::
  "node \<Rightarrow> srv_config \<Rightarrow> nat \<Rightarrow> srv_state \<Rightarrow> srv_request \<Rightarrow> string \<Rightarrow> srv_post \<Rightarrow> string \<Rightarrow> srv_verdict" where
  "srv_passwordFallback nd cfg now s rq ident post password =
     (if password = [] then Rejected (send 401 (errorBody ''Password required''))
      else (case srv_verifyPassword nd password (sp_password post) of
              Inl e \<Rightarrow> Thrown e
            | Inr ok \<Rightarrow>
                if \<not> ok then Rejected (send 401 (errorBody ''Invalid password''))
                else (case getOrCreateSession nd cfg now (sessions s) rq of
                        Inl e \<Rightarrow> Thrown e
                      | Inr (sid, ensured, ck, sess, used) \<Rightarrow>
                          Authorized ck
                            (sess(sid \<mapsto> unlock ensured ident (node_randomUUID nd used) now)))))"

text \<open>
  The block of the \<^verbatim>\<open>PUT\<close> and \<^verbatim>\<open>DELETE\<close> handlers of \<^verbatim>\<open>route\<close> (the same text
  in both, lines 408 to 426 and 448 to 466); \<open>post\<close> is \<^verbatim>\<open>data.posts[idx]\<close>.
\<close>

definition srv_authorizeMutation ::
  "node \<Rightarrow> srv_config \<Rightarrow> nat \<Rightarrow> srv_state \<Rightarrow> srv_request \<Rightarrow> string \<Rightarrow> srv_post \<Rightarrow> string \<Rightarrow> string \<Rightarrow>
     srv_verdict" where
  "srv_authorizeMutation nd cfg now s rq ident post password viewToken =
     (case srv_isAdmin nd cfg s rq of
        Inl e \<Rightarrow> Thrown e
      | Inr admin \<Rightarrow>
          if admin then Authorized None (sessions s)
          else (case sessionOf nd cfg s rq of
                  Inl e \<Rightarrow> Thrown e
                | Inr session \<Rightarrow>
                    let verified = sessionVerified session ident;
                        tokenOk = sessionTokenOk session ident viewToken
                    in if \<not> verified \<and> \<not> tokenOk
                       then srv_passwordFallback nd cfg now s rq ident post password
                       else Authorized None (sessions s)))"

subsection \<open>The request handler of the local server\<close>

text \<open>
  A result of \<^verbatim>\<open>route\<close> is the response it sent, if it sent one, with the state after
  the request; \<open>Inl\<close> is an exception that leaves \<^verbatim>\<open>route\<close> or one of its asynchronous
  handlers, with the state at that moment: nothing is sent, and nothing in the file
  catches it. What Node does with it (it may end the process, and the map of sessions with
  it) is outside the model; the posts are those of the data file.
\<close>

type_synonym srv_outcome = "(string \<times> srv_state) + (response option \<times> srv_state)"

definition json_response :: "nat \<Rightarrow> json \<Rightarrow> cookie option \<Rightarrow> response option" where
  "json_response status body ck = Some \<lparr>rs_status = status, rs_body = body, rs_set_cookie = ck\<rparr>"

definition srv_postSummaryJson :: "srv_post \<Rightarrow> json" where
  "srv_postSummaryJson p =
     JObj [(''id'', JStr (sp_id p)), (''title'', JStr (sp_title p)), (''author'', JStr (sp_author p)),
           (''createdAt'', instantJson (Some (sp_createdAt p))),
           (''updatedAt'', instantJson (sp_updatedAt p))]"

definition srv_postJson :: "srv_post \<Rightarrow> json" where
  "srv_postJson p =
     JObj [(''id'', JStr (sp_id p)), (''title'', JStr (sp_title p)), (''author'', JStr (sp_author p)),
           (''content'', JStr (sp_content p)),
           (''createdAt'', instantJson (Some (sp_createdAt p))),
           (''updatedAt'', instantJson (sp_updatedAt p))]"

text \<open>\<^verbatim>\<open>posts.findIndex(f)\<close>, \<open>None\<close> for \<^verbatim>\<open>-1\<close>.\<close>

fun findIndex :: "('a \<Rightarrow> bool) \<Rightarrow> 'a list \<Rightarrow> nat option" where
  "findIndex f [] = None"
| "findIndex f (x # xs) = (if f x then Some 0 else map_option Suc (findIndex f xs))"

definition srv_handleAdminMe :: "node \<Rightarrow> srv_config \<Rightarrow> srv_state \<Rightarrow> srv_request \<Rightarrow> srv_outcome" where
  "srv_handleAdminMe nd cfg s rq =
     (case srv_isAdmin nd cfg s rq of
        Inl e \<Rightarrow> Inl (e, s)
      | Inr admin \<Rightarrow> Inr (json_response 200 (JObj [(''admin'', JBool admin)]) None, s))"

definition srv_handleAdminLogin :: "node \<Rightarrow> srv_config \<Rightarrow> nat \<Rightarrow> srv_state \<Rightarrow> srv_request \<Rightarrow> srv_outcome" where
  "srv_handleAdminLogin nd cfg now s rq =
     (case sr_body rq of
        None \<Rightarrow> Inr (json_response 400 (errorBody ''Invalid JSON'') None, s)
      | Some body \<Rightarrow>
          if body = JNull then Inr (None, s)
          else
            let input = stringField body ''password'' in
            if input = [] then Inr (json_response 400 (errorBody ''Missing field: password'') None, s)
            else if input \<noteq> srv_ADMIN_PASSWORD cfg
            then Inr (json_response 401 (errorBody ''Invalid password'') None, s)
            else Inr (json_response 200 (JObj [(''admin'', JBool True)])
                        (Some (setCookie ''woldecks.admin'' (sign nd cfg (node_randomUUID nd 0)) False)),
                      s\<lparr>sessions := (sessions s)(node_randomUUID nd 0 \<mapsto> newSession now)\<rparr>))"

definition srv_handleAdminLogout :: "node \<Rightarrow> srv_config \<Rightarrow> srv_state \<Rightarrow> srv_request \<Rightarrow> srv_outcome" where
  "srv_handleAdminLogout nd cfg s rq =
     (case getAdminSession nd cfg s rq of
        Inl e \<Rightarrow> Inl (e, s)
      | Inr found \<Rightarrow>
          Inr (json_response 200 okBody (Some (setCookie ''woldecks.admin'' ''x'' True)),
               (case found of
                  None \<Rightarrow> s
                | Some sid \<Rightarrow> s\<lparr>sessions := (sessions s)(sid := None)\<rparr>)))"

text \<open>
  The comparator of the sort puts the later post first; it never answers 0, so the order of
  posts of the same instant is left to the engine.
\<close>

definition srv_handleListPosts :: "srv_state \<Rightarrow> srv_outcome" where
  "srv_handleListPosts s =
     Inr (json_response 200
            (JObj [(''posts'', JArr (map srv_postSummaryJson (rev (sort_key sp_createdAt (data_posts s)))))])
            None, s)"

definition srv_handleCreatePost :: "node \<Rightarrow> nat \<Rightarrow> srv_state \<Rightarrow> srv_request \<Rightarrow> srv_outcome" where
  "srv_handleCreatePost nd now s rq =
     (case sr_body rq of
        None \<Rightarrow> Inr (json_response 400 (errorBody ''Invalid JSON'') None, s)
      | Some body \<Rightarrow>
          if body = JNull then Inr (None, s)
          else
            let title = trim (stringField body ''title'');
                author = trim (stringField body ''author'');
                content = trim (stringField body ''content'');
                password = stringField body ''password''
            in if title = [] \<or> author = [] \<or> content = [] \<or> password = []
               then Inr (json_response 400 (errorBody ''Missing fields'') None, s)
               else (case srv_makePasswordRecord nd password of
                       Inl e \<Rightarrow> Inl (e, s)
                     | Inr passwordRecord \<Rightarrow>
                         Inr (json_response 201 (JObj [(''id'', JStr (node_randomUUID nd 0))]) None,
                              s\<lparr>data_posts :=
                                 \<lparr>sp_id = node_randomUUID nd 0, sp_title = title, sp_author = author,
                                  sp_content = content, sp_password = passwordRecord,
                                  sp_createdAt = now, sp_updatedAt = None\<rparr> # data_posts s\<rparr>)))"

definition srv_handleGetPost :: "node \<Rightarrow> srv_config \<Rightarrow> srv_state \<Rightarrow> srv_request \<Rightarrow> string \<Rightarrow> srv_outcome" where
  "srv_handleGetPost nd cfg s rq ident =
     (case srv_isAdmin nd cfg s rq of
        Inl e \<Rightarrow> Inl (e, s)
      | Inr admin \<Rightarrow>
          if \<not> admin then Inr (json_response 401 (errorBody ''Admin only'') None, s)
          else (case find (\<lambda>p. sp_id p = ident) (data_posts s) of
                  None \<Rightarrow> Inr (json_response 404 (errorBody ''Not found'') None, s)
                | Some post \<Rightarrow> Inr (json_response 200 (JObj [(''post'', srv_postJson post)]) None, s)))"

text \<open>The view of a caller who is not the admin.\<close>

definition srv_handleViewPost ::
  "node \<Rightarrow> srv_config \<Rightarrow> nat \<Rightarrow> srv_state \<Rightarrow> srv_request \<Rightarrow> string \<Rightarrow> srv_outcome" where
  "srv_handleViewPost nd cfg now s rq ident =
     (case sr_body rq of
        None \<Rightarrow> Inr (json_response 400 (errorBody ''Invalid JSON'') None, s)
      | Some body \<Rightarrow>
          if body = JNull then Inr (None, s)
          else
            let password = stringField body ''password'' in
            if password = [] then Inr (json_response 401 (errorBody ''Password required'') None, s)
            else (case find (\<lambda>p. sp_id p = ident) (data_posts s) of
                    None \<Rightarrow> Inr (json_response 404 (errorBody ''Not found'') None, s)
                  | Some post \<Rightarrow>
                      (case srv_verifyPassword nd password (sp_password post) of
                         Inl e \<Rightarrow> Inl (e, s)
                       | Inr ok \<Rightarrow>
                           if \<not> ok then Inr (json_response 401 (errorBody ''Invalid password'') None, s)
                           else (case getOrCreateSession nd cfg now (sessions s) rq of
                                   Inl e \<Rightarrow> Inl (e, s)
                                 | Inr (sid, session, ck, sess, used) \<Rightarrow>
                                     Inr (json_response 200
                                            (JObj [(''post'', srv_postJson post),
                                                   (''viewToken'', JStr (node_randomUUID nd used))])
                                            ck,
                                          s\<lparr>sessions := sess(sid \<mapsto>
                                               unlock session ident (node_randomUUID nd used) now)\<rparr>)))))"

text \<open>
  The end of the \<^verbatim>\<open>PUT\<close> handler (lines 428 to 432) and of the \<^verbatim>\<open>DELETE\<close> handler
  (lines 468 to 470); \<open>ck\<close> is the cookie that \<^verbatim>\<open>getOrCreateSession\<close> may have set and
  \<open>sess\<close> the map of sessions after the authorization.
\<close>

definition srv_updatePost ::
  "nat \<Rightarrow> srv_state \<Rightarrow> nat \<Rightarrow> string \<Rightarrow> string \<Rightarrow> cookie option \<Rightarrow> (string \<rightharpoonup> srv_session) \<Rightarrow>
     response option \<times> srv_state" where
  "srv_updatePost now s idx title content ck sess =
     (json_response 200 okBody ck,
      \<lparr>sessions = sess,
       data_posts = (data_posts s)
         [idx := (data_posts s ! idx)
            \<lparr>sp_title := title, sp_content := content, sp_updatedAt := Some now\<rparr>]\<rparr>)"

definition srv_removePost ::
  "srv_state \<Rightarrow> nat \<Rightarrow> cookie option \<Rightarrow> (string \<rightharpoonup> srv_session) \<Rightarrow> response option \<times> srv_state" where
  "srv_removePost s idx ck sess =
     (json_response 200 okBody ck,
      \<lparr>sessions = sess, data_posts = take idx (data_posts s) @ drop (Suc idx) (data_posts s)\<rparr>)"

definition srv_handlePutPost ::
  "node \<Rightarrow> srv_config \<Rightarrow> nat \<Rightarrow> srv_state \<Rightarrow> srv_request \<Rightarrow> string \<Rightarrow> srv_outcome" where
  "srv_handlePutPost nd cfg now s rq ident =
     (case sr_body rq of
        None \<Rightarrow> Inr (json_response 400 (errorBody ''Invalid JSON'') None, s)
      | Some body \<Rightarrow>
          if body = JNull then Inr (None, s)
          else
            let title = trim (stringField body ''title'');
                content = trim (stringField body ''content'');
                password = stringField body ''password'';
                viewToken = stringField body ''viewToken''
            in if title = [] \<or> content = [] then Inr (json_response 400 (errorBody ''Missing fields'') None, s)
               else (case findIndex (\<lambda>p. sp_id p = ident) (data_posts s) of
                       None \<Rightarrow> Inr (json_response 404 (errorBody ''Not found'') None, s)
                     | Some idx \<Rightarrow>
                         (case srv_authorizeMutation nd cfg now s rq ident (data_posts s ! idx)
                                 password viewToken of
                            Thrown e \<Rightarrow> Inl (e, s)
                          | Rejected r \<Rightarrow> Inr (Some r, s)
                          | Authorized ck sess \<Rightarrow> Inr (srv_updatePost now s idx title content ck sess))))"

definition srv_handleDeletePost ::
  "node \<Rightarrow> srv_config \<Rightarrow> nat \<Rightarrow> srv_state \<Rightarrow> srv_request \<Rightarrow> string \<Rightarrow> srv_outcome" where
  "srv_handleDeletePost nd cfg now s rq ident =
     (case sr_body rq of
        None \<Rightarrow> Inr (json_response 400 (errorBody ''Invalid JSON'') None, s)
      | Some body \<Rightarrow>
          if body = JNull then Inr (None, s)
          else
            let password = stringField body ''password'';
                viewToken = stringField body ''viewToken''
            in (case findIndex (\<lambda>p. sp_id p = ident) (data_posts s) of
                  None \<Rightarrow> Inr (json_response 404 (errorBody ''Not found'') None, s)
                | Some idx \<Rightarrow>
                    (case srv_authorizeMutation nd cfg now s rq ident (data_posts s ! idx)
                            password viewToken of
                       Thrown e \<Rightarrow> Inl (e, s)
                     | Rejected r \<Rightarrow> Inr (Some r, s)
                     | Authorized ck sess \<Rightarrow> Inr (srv_removePost s idx ck sess))))"

text \<open>
  \<^verbatim>\<open>route\<close>. The view of the admin sets \<^verbatim>\<open>req.url\<close> to the path of the post and
  calls \<^verbatim>\<open>route\<close> again, with the method of the request unchanged; \<open>None\<close> is the
  \<^verbatim>\<open>null\<close> of a request that no branch takes.
\<close>

function route :: "node \<Rightarrow> srv_config \<Rightarrow> nat \<Rightarrow> srv_state \<Rightarrow> srv_request \<Rightarrow> srv_outcome" where
  "route nd cfg now s rq =
     (if sr_pathname rq = ''/api/admin/me'' \<and> sr_method rq = ''GET''
      then srv_handleAdminMe nd cfg s rq
      else if sr_pathname rq = ''/api/admin/login'' \<and> sr_method rq = ''POST''
      then srv_handleAdminLogin nd cfg now s rq
      else if sr_pathname rq = ''/api/admin/logout'' \<and> sr_method rq = ''POST''
      then srv_handleAdminLogout nd cfg s rq
      else if sr_pathname rq = ''/api/posts'' \<and> sr_method rq = ''GET'' then srv_handleListPosts s
      else if sr_pathname rq = ''/api/posts'' \<and> sr_method rq = ''POST''
      then srv_handleCreatePost nd now s rq
      else if postMatch (sr_pathname rq) \<noteq> None \<and> sr_method rq = ''GET''
      then srv_handleGetPost nd cfg s rq (the (postMatch (sr_pathname rq)))
      else if viewMatch (sr_pathname rq) \<noteq> None \<and> sr_method rq = ''POST''
      then (case srv_isAdmin nd cfg s rq of
              Inl e \<Rightarrow> Inl (e, s)
            | Inr admin \<Rightarrow>
                if admin
                then route nd cfg now s (rq\<lparr>sr_pathname := ''/api/posts/'' @ the (viewMatch (sr_pathname rq))\<rparr>)
                else srv_handleViewPost nd cfg now s rq (the (viewMatch (sr_pathname rq))))
      else if postMatch (sr_pathname rq) \<noteq> None \<and> sr_method rq = ''PUT''
      then srv_handlePutPost nd cfg now s rq (the (postMatch (sr_pathname rq)))
      else if postMatch (sr_pathname rq) \<noteq> None \<and> sr_method rq = ''DELETE''
      then srv_handleDeletePost nd cfg now s rq (the (postMatch (sr_pathname rq)))
      else Inr (None, s))"
  by pat_completeness auto
termination
proof (relation "measure (\<lambda>(nd, cfg, now, s, rq). if viewMatch (sr_pathname rq) = None then 0 else 1)")
  show "wf (measure (\<lambda>(nd, cfg, now, s, rq). if viewMatch (sr_pathname rq) = None then 0 else (1::nat)))"
    by simp
next
  fix nd :: node and cfg :: srv_config and now :: nat and s :: srv_state and rq :: srv_request
    and x :: bool
  assume "viewMatch (sr_pathname rq) \<noteq> None \<and> sr_method rq = ''POST''"
  then obtain i where i: "viewMatch (sr_pathname rq) = Some i" by auto
  from viewMatch_redirect [OF i]
  show "((nd, cfg, now, s, rq\<lparr>sr_pathname := ''/api/posts/'' @ the (viewMatch (sr_pathname rq))\<rparr>),
         nd, cfg, now, s, rq)
        \<in> measure (\<lambda>(nd, cfg, now, s, rq). if viewMatch (sr_pathname rq) = None then 0 else 1)"
    by (simp only: i option.sel in_measure prod.case srv_request.simps) simp
qed

declare route.simps [simp del]


subsection \<open>Stand-ins for the primitives\<close>

text \<open>
  To run the handlers on concrete requests the parameters need values. These stand-ins are
  not cryptographic: the digest of a string is its bytes, the derived key is the salt
  followed by the bytes of the password, the MAC is the key followed by the value. Like the
  primitives they stand for, the two key derivations throw on an iteration count that is
  not positive. The decoder returns a string without escape as it is and throws on every
  other; it agrees with the builtin on the strings used below.
\<close>

definition bytesOf :: "string \<Rightarrow> byte list" where
  "bytesOf str = map (\<lambda>c. of_nat (of_char c)) str"

definition plainDigest :: "string \<Rightarrow> byte list" where
  "plainDigest input = bytesOf input"

definition plainDeriveBits :: "string \<Rightarrow> string \<Rightarrow> byte list \<Rightarrow> int \<Rightarrow> int \<Rightarrow> string + byte list" where
  "plainDeriveBits password hash salt iterations len =
     (if iterations \<le> 0 then Inl ''iterations out of range'' else Inr (salt @ bytesOf password))"

definition plainDecode :: decoder where
  "plainDecode v = (if CHR ''%'' \<in> set v then Inl ''URI malformed'' else Inr v)"

definition plainPlatform :: platform where
  "plainPlatform = \<lparr>subtle_digest = plainDigest, subtle_deriveBits = plainDeriveBits,
                     decodeURIComponent = plainDecode\<rparr>"

definition plainPbkdf2Sync :: "string \<Rightarrow> byte list \<Rightarrow> int \<Rightarrow> int \<Rightarrow> string \<Rightarrow> string + byte list" where
  "plainPbkdf2Sync password salt iterations keylen digest =
     (if iterations \<le> 0 then Inl ''iterations out of range'' else Inr (salt @ bytesOf password))"

definition plainHmac :: "string \<Rightarrow> string \<Rightarrow> string" where
  "plainHmac k v = k @ v"

definition plainUUID :: "nat \<Rightarrow> string" where
  "plainUUID n = (if n = 0 then ''uuid-0'' else ''uuid-1'')"

definition plainNode :: node where
  "plainNode = \<lparr>node_pbkdf2Sync = plainPbkdf2Sync, node_hmac = plainHmac,
                node_randomUUID = plainUUID, node_entropy = (\<lambda>i. 7),
                node_decodeURIComponent = plainDecode\<rparr>"

text \<open>
  A store with one post, one view token for it and one admin session. The store reads the
  text of a hand-written query literally, which is what it does for an id without
  reserved characters.
\<close>

definition demoEnv :: env where
  "demoEnv = \<lparr>ADMIN_PASSWORD = ''admin1234'', TOKEN_PEPPER = ''pepper''\<rparr>"

definition demoPost :: post_row where
  "demoPost =
     \<lparr>pw_salt_hex = bytesToHex (replicate 16 7), pw_iterations = 100000, pw_digest = ''sha256'',
      pw_keylen = 32, pw_hash_hex = bytesToHex (replicate 16 7 @ bytesOf ''swordfish''),
      pr_id = ''p1'', pr_title = ''Hello'', pr_author = ''Ann'', pr_content = ''First post'',
      pr_created_at = 100, pr_updated_at = None\<rparr>"

definition demoAdminRow :: admin_session_row where
  "demoAdminRow =
     \<lparr>as_token_hash = sha256Hex plainPlatform ''adm:5a17:pepper'', as_token_salt = ''5a17'',
      as_expires_at = 2000\<rparr>"

definition demoViewRow :: view_token_row where
  "demoViewRow =
     \<lparr>vt_post_id = ''p1'', vt_token_hash = sha256Hex plainPlatform ''tok:5a17:pepper'',
      vt_token_salt = ''5a17'', vt_expires_at = 1000\<rparr>"

definition noOutage :: "db_request \<Rightarrow> string option" where
  "noOutage q = None"

definition literalMatching :: "string \<Rightarrow> post_row \<Rightarrow> bool" where
  "literalMatching q p \<longleftrightarrow> q = idQuery (pr_id p)"

definition demoWorld :: "nat \<Rightarrow> world" where
  "demoWorld now =
     \<lparr>db = \<lparr>posts = [demoPost], view_tokens = [demoViewRow], admin_sessions = [demoAdminRow]\<rparr>,
      clock = now, outage = noOutage, matching = literalMatching, randomUUID = ''uuid-9'',
      randomValues = (\<lambda>i. 9), gen_random_uuid = ''p2''\<rparr>"


definition adminCookie :: "string option" where
  "adminCookie = Some ''woldecks.admin=adm.5a17''"

definition adminRequest :: request where
  "adminRequest =
     \<lparr>rq_method = ''GET'', rq_pathname = ''/api/admin/me'', rq_cookie = adminCookie,
      rq_body = Some (JObj [])\<rparr>"

text \<open>A cookie header with an escape that is not UTF-8.\<close>

definition malformedCookie :: "string option" where
  "malformedCookie = Some ''theme=%E0''"

text \<open>The state of a local server with the same post and no session.\<close>

definition demoCfg :: srv_config where
  "demoCfg = \<lparr>srv_ADMIN_PASSWORD = ''admin1234'', SESSION_SECRET = ''secret''\<rparr>"

definition demoSrvPost :: srv_post where
  "demoSrvPost =
     \<lparr>sp_id = ''p1'', sp_title = ''Hello'', sp_author = ''Ann'', sp_content = ''First post'',
      sp_password =
        \<lparr>rec_saltHex = bytesToHex (replicate 16 7), rec_iterations = 120000, rec_digest = ''sha256'',
         rec_keylen = 32, rec_hashHex = bytesToHex (replicate 16 7 @ bytesOf ''swordfish'')\<rparr>,
      sp_createdAt = 100, sp_updatedAt = None\<rparr>"

definition freshState :: srv_state where
  "freshState = \<lparr>sessions = Map.empty, data_posts = [demoSrvPost]\<rparr>"

text \<open>
  The state after a visitor without cookies has viewed the post with its password at time
  10: the session \<^verbatim>\<open>uuid-0\<close> has unlocked the post and holds the token \<^verbatim>\<open>uuid-1\<close>.
\<close>

definition demoSession :: srv_session where
  "demoSession =
     \<lparr>ss_createdAt = 10, ss_verified = {''p1''},
      ss_tokens = [''p1'' \<mapsto> \<lparr>tk_token = ''uuid-1'', tk_createdAt = 10\<rparr>]\<rparr>"

definition demoState :: srv_state where
  "demoState = \<lparr>sessions = [''uuid-0'' \<mapsto> demoSession], data_posts = [demoSrvPost]\<rparr>"

text \<open>The cookie header of that visitor, and an update with it, without view token and password.\<close>

definition visitorCookie :: "string option" where
  "visitorCookie = Some ''woldecks.sid=uuid-0.secretuuid-0''"



section \<open>Properties\<close>


subsection \<open>Hex encoding\<close>

lemma hex_digits_all:
  "list_all (\<lambda>n. hexVal (hexDigit n) = Some n \<and> \<not> isWhiteSpace (hexDigit n) \<and>
      hexDigit n \<notin> set ''-+xX.'') [0..<16]"
  by code_simp

lemma hexVal_hexDigit: "n < 16 \<Longrightarrow> hexVal (hexDigit n) = Some n"
  using hex_digits_all by (simp add: list_all_iff)

lemma hexDigit_plain:
  "n < 16 \<Longrightarrow> \<not> isWhiteSpace (hexDigit n) \<and> hexDigit n \<noteq> CHR ''-'' \<and> hexDigit n \<noteq> CHR ''+''
     \<and> hexDigit n \<noteq> CHR ''x'' \<and> hexDigit n \<noteq> CHR ''X'' \<and> hexDigit n \<noteq> CHR ''.''"
  using hex_digits_all by (simp add: list_all_iff)

lemma parseInt16_pair:
  assumes "a < 16" "b < 16"
  shows "parseInt16 [hexDigit a, hexDigit b] = Some (int (16 * a + b))"
  using hexDigit_plain [OF assms(1)] hexDigit_plain [OF assms(2)]
  by (simp add: parseInt16_def hexVal_hexDigit assms)

lemma byte_hex:
  fixes b :: byte
  shows "padStart2 (toString16 (unat b)) = [hexDigit (unat b div 16), hexDigit (unat b mod 16)]"
proof -
  have lt: "unat b < 256" using unsigned_less [of b, where 'a = nat] by simp
  show ?thesis
  proof (cases "unat b < 16")
    case True
    then show ?thesis
      by (simp add: toString16.simps [of "unat b"] padStart2_def hexDigit_def)
  next
    case False
    with lt have "unat b div 16 < 16" by simp
    with False show ?thesis
      by (simp add: toString16.simps [of "unat b"] toString16.simps [of "unat b div 16"] padStart2_def)
  qed
qed

lemma bytesToHex_Cons:
  "bytesToHex (b # bs) = hexDigit (unat b div 16) # hexDigit (unat b mod 16) # bytesToHex bs"
  by (simp add: bytesToHex_def byte_hex)

lemma bytesToHex_Nil: "bytesToHex [] = []"
  by (simp add: bytesToHex_def)

lemma byte_div_mod: fixes b :: byte shows "unat b div 16 < 16" "unat b mod 16 < 16"
  using unsigned_less [of b, where 'a = nat] by simp_all

lemma byte_recompose: fixes b :: byte shows "word_of_int (int (16 * (unat b div 16) + unat b mod 16)) = b"
  by simp

lemma byte_recompose_nat: fixes b :: byte shows "(of_nat (16 * (unat b div 16) + unat b mod 16) :: byte) = b"
  by simp

lemma hexToBytes_bytesToHex: "hexToBytes (bytesToHex bs) = bs"
proof (induction bs)
  case Nil
  show ?case by (simp add: bytesToHex_Nil)
next
  case (Cons b bs)
  have "parseInt16 [hexDigit (unat b div 16), hexDigit (unat b mod 16)]
          = Some (int (16 * (unat b div 16) + unat b mod 16))"
    by (rule parseInt16_pair) (rule byte_div_mod)+
  then show ?case
    using Cons.IH byte_recompose [of b] by (simp add: bytesToHex_Cons toUint8_def del: of_nat_add of_nat_mult)
qed

lemma bufferFromHex_bytesToHex: "bufferFromHex (bytesToHex bs) = bs"
proof (induction bs)
  case Nil
  show ?case by (simp add: bytesToHex_Nil)
next
  case (Cons b bs)
  then show ?case
    using byte_recompose_nat [of b]
    by (simp add: bytesToHex_Cons hexVal_hexDigit byte_div_mod del: of_nat_add of_nat_mult)
qed

lemma bytesToHex_inj: "bytesToHex a = bytesToHex b \<longleftrightarrow> a = b"
  by (metis hexToBytes_bytesToHex)

lemma length_bytesToHex: "length (bytesToHex bs) = 2 * length bs"
  by (induction bs) (simp_all add: bytesToHex_Nil bytesToHex_Cons)

lemma dot_notin_bytesToHex: "CHR ''.'' \<notin> set (bytesToHex bs)"
proof (induction bs)
  case Nil show ?case by (simp add: bytesToHex_Nil)
next
  case (Cons b bs)
  with hexDigit_plain [OF byte_div_mod(1) [of b]] hexDigit_plain [OF byte_div_mod(2) [of b]]
  show ?case by (auto simp: bytesToHex_Cons)
qed

lemma nat_xor_eq_0: "(a::nat) XOR b = 0 \<longleftrightarrow> a = b"
  by (auto simp: bit_eq_iff bit_xor_iff)

lemma foldl_diff_zero:
  "foldl (\<lambda>diff (x, y). diff OR ((of_char x :: nat) XOR of_char y)) d xs = 0 \<longleftrightarrow>
     d = 0 \<and> (\<forall>(x, y) \<in> set xs. x = y)"
proof (induction xs arbitrary: d)
  case Nil show ?case by simp
next
  case (Cons p ps)
  obtain x y where p: "p = (x, y)" by (cases p)
  have "(of_char x :: nat) XOR of_char y = 0 \<longleftrightarrow> x = y"
    by (simp add: nat_xor_eq_0)
  then show ?case by (auto simp: Cons.IH p or_eq_0_iff)
qed

lemma safeEqualHex_iff: "safeEqualHex a b \<longleftrightarrow> a = b"
proof (cases "length a = length b")
  case False then show ?thesis by (auto simp: safeEqualHex_def)
next
  case True
  have "(\<forall>(x, y) \<in> set (zip a b). x = y) \<longleftrightarrow> a = b"
    using True by (induction a b rule: list_induct2) auto
  with True show ?thesis by (simp add: safeEqualHex_def foldl_diff_zero)
qed

subsection \<open>The token parser\<close>

lemma lastIndexOf_None: "lastIndexOf c s = None \<longleftrightarrow> c \<notin> set s"
  by (induction s) (auto split: option.splits)

lemma lastIndexOf_Some_mem: "lastIndexOf c s = Some i \<Longrightarrow> c \<in> set s"
  using lastIndexOf_None [of c s] by auto

lemma lastIndexOf_append:
  "c \<notin> set b \<Longrightarrow> lastIndexOf c (a @ c # b) = Some (length a)"
  by (induction a) (auto simp: lastIndexOf_None [THEN iffD2])

lemma lastIndexOf_Some:
  "lastIndexOf c s = Some i \<Longrightarrow> s = take i s @ c # drop (Suc i) s \<and> c \<notin> set (drop (Suc i) s)"
proof (induction s arbitrary: i)
  case Nil
  then show ?case by simp
next
  case (Cons x xs)
  show ?case
  proof (cases "lastIndexOf c xs")
    case None
    with Cons.prems show ?thesis
      by (auto simp: lastIndexOf_None split: if_splits)
  next
    case (Some j)
    with Cons.prems have i: "i = Suc j" by simp
    from Cons.IH [OF Some] show ?thesis by (simp add: i)
  qed
qed

lemma splitToken_append:
  "CHR ''.'' \<notin> set b \<Longrightarrow> splitToken (Some (a @ CHR ''.'' # b)) = Some \<lparr>tp_token = a, tp_salt = b\<rparr>"
  by (simp add: splitToken_def lastIndexOf_append)

lemma splitToken_SomeD:
  assumes "splitToken raw = Some p"
  shows "raw = Some (tp_token p @ CHR ''.'' # tp_salt p)" and "CHR ''.'' \<notin> set (tp_salt p)"
proof -
  from assms obtain r i where r: "raw = Some r" and i: "lastIndexOf (CHR ''.'') r = Some i"
    and p_def: "p = \<lparr>tp_token = take i r, tp_salt = drop (i + 1) r\<rparr>"
    by (auto simp: splitToken_def split: option.splits if_splits)
  from lastIndexOf_Some [OF i] show "raw = Some (tp_token p @ CHR ''.'' # tp_salt p)"
    by (simp add: r p_def)
  from lastIndexOf_Some [OF i] show "CHR ''.'' \<notin> set (tp_salt p)"
    by (simp add: p_def)
qed

lemma splitToken_salt_suffix:
  assumes "splitToken (Some (a @ CHR ''.'' # b)) = Some p"
  shows "(tp_token p = a \<and> tp_salt p = b) \<or> length (tp_salt p) < length b"
proof -
  from splitToken_SomeD [OF assms]
  have eq: "a @ CHR ''.'' # b = tp_token p @ CHR ''.'' # tp_salt p"
    and nodot: "CHR ''.'' \<notin> set (tp_salt p)" by simp_all
  from eq obtain us where
    "(a = tp_token p @ us \<and> us @ CHR ''.'' # b = CHR ''.'' # tp_salt p) \<or>
     (a @ us = tp_token p \<and> CHR ''.'' # b = us @ CHR ''.'' # tp_salt p)"
    by (auto simp: append_eq_append_conv2)
  then show ?thesis
  proof
    assume h: "a = tp_token p @ us \<and> us @ CHR ''.'' # b = CHR ''.'' # tp_salt p"
    show ?thesis
    proof (cases us)
      case Nil with h show ?thesis by simp
    next
      case (Cons u us')
      with h have "tp_salt p = us' @ CHR ''.'' # b" by simp
      with nodot show ?thesis by simp
    qed
  next
    assume h: "a @ us = tp_token p \<and> CHR ''.'' # b = us @ CHR ''.'' # tp_salt p"
    show ?thesis
    proof (cases us)
      case Nil with h show ?thesis by simp
    next
      case (Cons u us')
      with h have "b = us' @ CHR ''.'' # tp_salt p" by simp
      then show ?thesis by simp
    qed
  qed
qed

text \<open>
  C8 (as stated): the parser returns null for every malformed input, including a string
  whose secret part or salt part is empty. The code has no check of the parts: a string
  that ends with the separator is split into a secret and an empty salt.
\<close>

theorem splitToken_empty_part_counterexample:
  "splitToken (Some ''abc.'') = Some \<lparr>tp_token = ''abc'', tp_salt = []\<rparr> \<and>
   splitToken (Some ''.abc'') = Some \<lparr>tp_token = [], tp_salt = ''abc''\<rparr> \<and>
   splitToken (Some ''abc.'') \<noteq> None \<and> splitToken (Some ''.abc'') \<noteq> None"
  by (simp add: splitToken_def)

text \<open>
  C8 (amended): the parser is total; it returns null exactly for a missing string, an empty
  string and a string without separator; every other string is split at its last
  separator, into a secret and a salt that has no separator, either of which may be empty.
\<close>

theorem splitToken_total_last_separator:
  "(splitToken raw = None \<longleftrightarrow> raw = None \<or> raw = Some [] \<or> (\<exists>r. raw = Some r \<and> CHR ''.'' \<notin> set r)) \<and>
   (\<forall>p. splitToken raw = Some p \<longrightarrow>
        raw = Some (tp_token p @ CHR ''.'' # tp_salt p) \<and> CHR ''.'' \<notin> set (tp_salt p)) \<and>
   (CHR ''.'' \<notin> set b \<longrightarrow> splitToken (Some (a @ CHR ''.'' # b)) = Some \<lparr>tp_token = a, tp_salt = b\<rparr>)"
proof (intro conjI allI impI)
  show "splitToken raw = None \<longleftrightarrow> raw = None \<or> raw = Some [] \<or> (\<exists>r. raw = Some r \<and> CHR ''.'' \<notin> set r)"
    by (auto simp: splitToken_def lastIndexOf_None dest: lastIndexOf_Some_mem split: option.splits)
next
  fix p assume p: "splitToken raw = Some p"
  then obtain r i where r: "raw = Some r" and i: "lastIndexOf (CHR ''.'') r = Some i"
    and p_def: "p = \<lparr>tp_token = take i r, tp_salt = drop (i + 1) r\<rparr>"
    by (auto simp: splitToken_def split: option.splits if_splits)
  from lastIndexOf_Some [OF i] show "raw = Some (tp_token p @ CHR ''.'' # tp_salt p)"
    by (simp add: r p_def)
  from lastIndexOf_Some [OF i] show "CHR ''.'' \<notin> set (tp_salt p)"
    by (simp add: p_def)
next
  assume "CHR ''.'' \<notin> set b"
  then show "splitToken (Some (a @ CHR ''.'' # b)) = Some \<lparr>tp_token = a, tp_salt = b\<rparr>"
    by (simp add: splitToken_def lastIndexOf_append)
qed

theorem splitToken_total_last_separator_witness:
  "splitToken (Some ''s.e.c.5a17'') = Some \<lparr>tp_token = ''s.e.c'', tp_salt = ''5a17''\<rparr> \<and>
   splitToken (Some ''nodot'') = None"
  using splitToken_total_last_separator [of "Some ''s.e.c.5a17''" "''5a17''" "''s.e.c''"]
    splitToken_total_last_separator [of "Some ''nodot''"]
  by simp


subsection \<open>The credential hasher\<close>

lemma length_getRandomValues: "length (getRandomValues src (newUint8Array n)) = n"
  by (simp add: getRandomValues_def newUint8Array_def)

lemma getRandomValues_16: "getRandomValues src (newUint8Array 16) = map src [0..<16]"
  by (simp add: getRandomValues_def newUint8Array_def)

lemma length_randomBytes: "length (randomBytes nd n) = n"
  by (simp add: randomBytes_def)

lemma pbkdf2Hash_hex:
  "pbkdf2Hash cr p (bytesToHex salt) iterations keylen digest =
     (case subtle_deriveBits cr p digest salt iterations (keylen * 8) of
        Inl e \<Rightarrow> Inl e
      | Inr bits \<Rightarrow> Inr (bytesToHex bits))"
  by (simp add: pbkdf2Hash_def hexToBytes_bytesToHex)

lemma makePasswordRecord_cases:
  "makePasswordRecord cr src p =
     (case subtle_deriveBits cr p ''SHA-256'' (getRandomValues src (newUint8Array 16)) 100000 256 of
        Inl e \<Rightarrow> Inl e
      | Inr bits \<Rightarrow>
          Inr \<lparr>pw_salt_hex = bytesToHex (getRandomValues src (newUint8Array 16)),
               pw_iterations = 100000, pw_digest = ''sha256'', pw_keylen = 32,
               pw_hash_hex = bytesToHex bits\<rparr>)"
  by (simp add: makePasswordRecord_def pbkdf2Hash_hex split: sum.splits)

lemma verifyPassword_cases:
  "verifyPassword cr password r =
     (case subtle_deriveBits cr password (if pw_digest r = ''sha256'' then ''SHA-256'' else pw_digest r)
             (hexToBytes (pw_salt_hex r)) (pw_iterations r) (pw_keylen r * 8) of
        Inl e \<Rightarrow> Inl e
      | Inr bits \<Rightarrow> Inr (bytesToHex bits = pw_hash_hex r))"
  by (simp add: verifyPassword_def pbkdf2Hash_def safeEqualHex_iff split: sum.splits)

lemma srv_makePasswordRecord_cases:
  "srv_makePasswordRecord nd p =
     (case node_pbkdf2Sync nd p (randomBytes nd 16) 120000 32 ''sha256'' of
        Inl e \<Rightarrow> Inl e
      | Inr hash \<Rightarrow>
          Inr \<lparr>rec_saltHex = bytesToHex (randomBytes nd 16), rec_iterations = 120000,
               rec_digest = ''sha256'', rec_keylen = 32, rec_hashHex = bytesToHex hash\<rparr>)"
  by (simp add: srv_makePasswordRecord_def srv_pbkdf2Hash_def bufferFromHex_bytesToHex
      split: sum.splits)

lemma srv_verifyPassword_cases:
  "srv_verifyPassword nd password q =
     (case node_pbkdf2Sync nd password (bufferFromHex (rec_saltHex q)) (rec_iterations q)
             (rec_keylen q) (rec_digest q) of
        Inl e \<Rightarrow> Inl e
      | Inr hash \<Rightarrow> Inr (bufferFromHex (rec_hashHex q) = hash))"
  by (auto simp: srv_verifyPassword_def timingSafeEqual_def bufferFromHex_bytesToHex
      split: sum.splits)

text \<open>
  C5: in both implementations, a password verifies against the record made from it, and
  another password verifies against that record exactly when PBKDF2 derives the same key
  from both, that is, never short of a collision of the primitive. The hypotheses say that
  the primitive returns for the parameters of the record.
\<close>

theorem verify_made_record:
  "(subtle_deriveBits cr p1 ''SHA-256'' (getRandomValues src (newUint8Array 16)) 100000 256 = Inr h1 \<longrightarrow>
    subtle_deriveBits cr p2 ''SHA-256'' (getRandomValues src (newUint8Array 16)) 100000 256 = Inr h2 \<longrightarrow>
      (\<exists>r. makePasswordRecord cr src p1 = Inr r \<and>
           verifyPassword cr p1 r = Inr True \<and>
           verifyPassword cr p2 r = Inr (h2 = h1))) \<and>
   (node_pbkdf2Sync nd p1 (randomBytes nd 16) 120000 32 ''sha256'' = Inr g1 \<longrightarrow>
    node_pbkdf2Sync nd p2 (randomBytes nd 16) 120000 32 ''sha256'' = Inr g2 \<longrightarrow>
      (\<exists>r. srv_makePasswordRecord nd p1 = Inr r \<and>
           srv_verifyPassword nd p1 r = Inr True \<and>
           srv_verifyPassword nd p2 r = Inr (g2 = g1)))"
proof (intro conjI impI)
  assume 1: "subtle_deriveBits cr p1 ''SHA-256'' (getRandomValues src (newUint8Array 16)) 100000 256 = Inr h1"
    and 2: "subtle_deriveBits cr p2 ''SHA-256'' (getRandomValues src (newUint8Array 16)) 100000 256 = Inr h2"
  show "\<exists>r. makePasswordRecord cr src p1 = Inr r \<and> verifyPassword cr p1 r = Inr True \<and>
          verifyPassword cr p2 r = Inr (h2 = h1)"
    using 1 2 by (simp add: makePasswordRecord_cases verifyPassword_cases hexToBytes_bytesToHex
        bytesToHex_inj)
next
  assume 1: "node_pbkdf2Sync nd p1 (randomBytes nd 16) 120000 32 ''sha256'' = Inr g1"
    and 2: "node_pbkdf2Sync nd p2 (randomBytes nd 16) 120000 32 ''sha256'' = Inr g2"
  show "\<exists>r. srv_makePasswordRecord nd p1 = Inr r \<and> srv_verifyPassword nd p1 r = Inr True \<and>
          srv_verifyPassword nd p2 r = Inr (g2 = g1)"
    using 1 2 by (auto simp: srv_makePasswordRecord_cases srv_verifyPassword_cases
        bufferFromHex_bytesToHex)
qed

lemma bytesOf_inj: "bytesOf a = bytesOf b \<longleftrightarrow> a = b"
proof -
  have "inj (\<lambda>c. (of_nat (of_char c) :: byte))"
  proof (rule injI)
    fix c d :: char
    assume "(of_nat (of_char c) :: byte) = of_nat (of_char d)"
    then have "unat (of_nat (of_char c) :: byte) = unat (of_nat (of_char d) :: byte)" by simp
    then have "(of_char c :: nat) mod 256 = of_char d mod 256"
      by (simp add: unat_of_nat)
    then show "c = d" by simp
  qed
  then show ?thesis unfolding bytesOf_def by (simp add: inj_map_eq_map)
qed

lemma plain_sources:
  "getRandomValues (\<lambda>i. b) (newUint8Array 16) = replicate 16 b"
  "randomBytes plainNode 16 = replicate 16 7"
  by (simp_all add: getRandomValues_def newUint8Array_def randomBytes_def plainNode_def map_replicate_const)

text \<open>The hypotheses of C5 hold of the stand-ins.\<close>

theorem verify_made_record_witness:
  "(\<exists>r. makePasswordRecord plainPlatform (\<lambda>i. 7) ''swordfish'' = Inr r \<and>
        verifyPassword plainPlatform ''swordfish'' r = Inr True \<and>
        verifyPassword plainPlatform ''wrong'' r = Inr False) \<and>
   (\<exists>r. srv_makePasswordRecord plainNode ''swordfish'' = Inr r \<and>
        srv_verifyPassword plainNode ''swordfish'' r = Inr True \<and>
        srv_verifyPassword plainNode ''wrong'' r = Inr False)"
  using verify_made_record [of plainPlatform "''swordfish''" "\<lambda>i. 7"
      "replicate 16 7 @ bytesOf ''swordfish''" "''wrong''" "replicate 16 7 @ bytesOf ''wrong''"
      plainNode "replicate 16 7 @ bytesOf ''swordfish''" "replicate 16 7 @ bytesOf ''wrong''"]
  by (simp add: plain_sources plainPlatform_def plainDeriveBits_def plainNode_def plainPbkdf2Sync_def
      bytesOf_inj randomBytes_def map_replicate_const)


text \<open>
  C9: in both implementations \<^verbatim>\<open>makePasswordRecord\<close> returns a record exactly when
  PBKDF2 returns for the parameters it fixes, and every record it returns holds as its
  salt the 16 bytes taken from the random source, 100000 iterations (120000 in the local
  server), the digest \<^verbatim>\<open>sha256\<close> and a key of 256 bits, and its hash is what PBKDF2
  derives from the password under the parameters the record stores (the Worker stores the
  digest as \<^verbatim>\<open>sha256\<close> and names it \<^verbatim>\<open>SHA-256\<close> to the primitive, in
  \<^verbatim>\<open>makePasswordRecord\<close> as in \<^verbatim>\<open>verifyPassword\<close>).
\<close>

theorem makePasswordRecord_parameters:
  "makePasswordRecord cr src password =
     (case subtle_deriveBits cr password ''SHA-256'' (map src [0..<16]) 100000 256 of
        Inl e \<Rightarrow> Inl e
      | Inr bits \<Rightarrow>
          Inr \<lparr>pw_salt_hex = bytesToHex (map src [0..<16]), pw_iterations = 100000,
               pw_digest = ''sha256'', pw_keylen = 32, pw_hash_hex = bytesToHex bits\<rparr>) \<and>
   (\<forall>r. makePasswordRecord cr src password = Inr r \<longrightarrow>
      hexToBytes (pw_salt_hex r) = map src [0..<16] \<and>
      length (hexToBytes (pw_salt_hex r)) = 16 \<and>
      pw_iterations r = 100000 \<and> 100000 \<le> pw_iterations r \<and>
      pw_digest r = ''sha256'' \<and> pw_keylen r * 8 = 256 \<and>
      (\<exists>bits. subtle_deriveBits cr password
                (if pw_digest r = ''sha256'' then ''SHA-256'' else pw_digest r)
                (hexToBytes (pw_salt_hex r)) (pw_iterations r) (pw_keylen r * 8) = Inr bits \<and>
              pw_hash_hex r = bytesToHex bits)) \<and>
   srv_makePasswordRecord nd password =
     (case node_pbkdf2Sync nd password (map (node_entropy nd) [0..<16]) 120000 32 ''sha256'' of
        Inl e \<Rightarrow> Inl e
      | Inr hash \<Rightarrow>
          Inr \<lparr>rec_saltHex = bytesToHex (map (node_entropy nd) [0..<16]), rec_iterations = 120000,
               rec_digest = ''sha256'', rec_keylen = 32, rec_hashHex = bytesToHex hash\<rparr>) \<and>
   (\<forall>q. srv_makePasswordRecord nd password = Inr q \<longrightarrow>
      bufferFromHex (rec_saltHex q) = map (node_entropy nd) [0..<16] \<and>
      length (bufferFromHex (rec_saltHex q)) = 16 \<and>
      rec_iterations q = 120000 \<and> 100000 \<le> rec_iterations q \<and>
      rec_digest q = ''sha256'' \<and> rec_keylen q * 8 = 256 \<and>
      (\<exists>hash. node_pbkdf2Sync nd password (bufferFromHex (rec_saltHex q)) (rec_iterations q)
                 (rec_keylen q) (rec_digest q) = Inr hash \<and>
               rec_hashHex q = bytesToHex hash))"
proof (intro conjI allI impI)
  show w: "makePasswordRecord cr src password =
     (case subtle_deriveBits cr password ''SHA-256'' (map src [0..<16]) 100000 256 of
        Inl e \<Rightarrow> Inl e
      | Inr bits \<Rightarrow>
          Inr \<lparr>pw_salt_hex = bytesToHex (map src [0..<16]), pw_iterations = 100000,
               pw_digest = ''sha256'', pw_keylen = 32, pw_hash_hex = bytesToHex bits\<rparr>)"
    by (simp only: makePasswordRecord_cases getRandomValues_16)
  show l: "srv_makePasswordRecord nd password =
     (case node_pbkdf2Sync nd password (map (node_entropy nd) [0..<16]) 120000 32 ''sha256'' of
        Inl e \<Rightarrow> Inl e
      | Inr hash \<Rightarrow>
          Inr \<lparr>rec_saltHex = bytesToHex (map (node_entropy nd) [0..<16]), rec_iterations = 120000,
               rec_digest = ''sha256'', rec_keylen = 32, rec_hashHex = bytesToHex hash\<rparr>)"
    by (simp only: srv_makePasswordRecord_cases randomBytes_def)
  {
    fix r assume "makePasswordRecord cr src password = Inr r"
    with w obtain bits where
      b: "subtle_deriveBits cr password ''SHA-256'' (map src [0..<16]) 100000 256 = Inr bits"
      and r: "r = \<lparr>pw_salt_hex = bytesToHex (map src [0..<16]), pw_iterations = 100000,
               pw_digest = ''sha256'', pw_keylen = 32, pw_hash_hex = bytesToHex bits\<rparr>"
      by (auto split: sum.splits)
    from b show "hexToBytes (pw_salt_hex r) = map src [0..<16]"
      "length (hexToBytes (pw_salt_hex r)) = 16"
      "pw_iterations r = 100000" "100000 \<le> pw_iterations r"
      "pw_digest r = ''sha256''" "pw_keylen r * 8 = 256"
      "\<exists>bits. subtle_deriveBits cr password
                (if pw_digest r = ''sha256'' then ''SHA-256'' else pw_digest r)
                (hexToBytes (pw_salt_hex r)) (pw_iterations r) (pw_keylen r * 8) = Inr bits \<and>
              pw_hash_hex r = bytesToHex bits"
      by (simp_all add: r hexToBytes_bytesToHex)
  }
  {
    fix q assume "srv_makePasswordRecord nd password = Inr q"
    with l obtain hash where
      b: "node_pbkdf2Sync nd password (map (node_entropy nd) [0..<16]) 120000 32 ''sha256'' = Inr hash"
      and q: "q = \<lparr>rec_saltHex = bytesToHex (map (node_entropy nd) [0..<16]), rec_iterations = 120000,
               rec_digest = ''sha256'', rec_keylen = 32, rec_hashHex = bytesToHex hash\<rparr>"
      by (auto split: sum.splits)
    from b show "bufferFromHex (rec_saltHex q) = map (node_entropy nd) [0..<16]"
      "length (bufferFromHex (rec_saltHex q)) = 16"
      "rec_iterations q = 120000" "100000 \<le> rec_iterations q"
      "rec_digest q = ''sha256''" "rec_keylen q * 8 = 256"
      "\<exists>hash. node_pbkdf2Sync nd password (bufferFromHex (rec_saltHex q)) (rec_iterations q)
                 (rec_keylen q) (rec_digest q) = Inr hash \<and>
               rec_hashHex q = bytesToHex hash"
      by (simp_all add: q bufferFromHex_bytesToHex)
  }
qed

text \<open>The records that the stand-ins make.\<close>

theorem makePasswordRecord_parameters_witness:
  "makePasswordRecord plainPlatform (\<lambda>i. 7) ''swordfish'' =
     Inr \<lparr>pw_salt_hex = bytesToHex (replicate 16 7), pw_iterations = 100000, pw_digest = ''sha256'',
          pw_keylen = 32, pw_hash_hex = bytesToHex (replicate 16 7 @ bytesOf ''swordfish'')\<rparr> \<and>
   length (hexToBytes (bytesToHex (replicate 16 (7::byte)))) = 16 \<and>
   srv_makePasswordRecord plainNode ''swordfish'' =
     Inr \<lparr>rec_saltHex = bytesToHex (replicate 16 7), rec_iterations = 120000, rec_digest = ''sha256'',
          rec_keylen = 32, rec_hashHex = bytesToHex (replicate 16 7 @ bytesOf ''swordfish'')\<rparr> \<and>
   length (bufferFromHex (bytesToHex (replicate 16 (7::byte)))) = 16"
proof -
  note t = makePasswordRecord_parameters [of plainPlatform "\<lambda>i. 7" "''swordfish''" plainNode]
  have m: "map (\<lambda>i. 7::byte) [0..<16] = replicate 16 7" "map (node_entropy plainNode) [0..<16] = replicate 16 7"
    by (simp_all add: map_replicate_const plainNode_def)
  have 1: "makePasswordRecord plainPlatform (\<lambda>i. 7) ''swordfish'' =
     Inr \<lparr>pw_salt_hex = bytesToHex (replicate 16 7), pw_iterations = 100000, pw_digest = ''sha256'',
          pw_keylen = 32, pw_hash_hex = bytesToHex (replicate 16 7 @ bytesOf ''swordfish'')\<rparr>"
    using t [THEN conjunct1] by (simp add: m plainPlatform_def plainDeriveBits_def)
  have 2: "srv_makePasswordRecord plainNode ''swordfish'' =
     Inr \<lparr>rec_saltHex = bytesToHex (replicate 16 7), rec_iterations = 120000, rec_digest = ''sha256'',
          rec_keylen = 32, rec_hashHex = bytesToHex (replicate 16 7 @ bytesOf ''swordfish'')\<rparr>"
  proof -
    have pn: "node_pbkdf2Sync plainNode = plainPbkdf2Sync" by (simp add: plainNode_def)
    from t [THEN conjunct2, THEN conjunct2, THEN conjunct1] show ?thesis
      by (simp add: m pn plainPbkdf2Sync_def)
  qed
  from t [THEN conjunct2, THEN conjunct1, THEN spec, THEN mp, OF 1]
  have 3: "length (hexToBytes (bytesToHex (replicate 16 (7::byte)))) = 16" by simp
  from t [THEN conjunct2, THEN conjunct2, THEN conjunct2, THEN spec, THEN mp, OF 2]
  have 4: "length (bufferFromHex (bytesToHex (replicate 16 (7::byte)))) = 16" by simp
  from 1 2 3 4 show ?thesis by simp
qed




subsection \<open>The cookie header\<close>

lemma parseCookies_same: "srv_parseCookies dec header = parseCookies dec header"
  by (cases header) (auto simp: srv_parseCookies_def parseCookies_def cookiePart_def)

lemma parseCookies_absent: "parseCookies dec None = Inr []" "srv_parseCookies dec None = Inr []"
  by (simp_all add: parseCookies_def srv_parseCookies_def cookiePart_def)

lemma demo_cookies:
  "parseCookies plainDecode adminCookie = Inr [(''woldecks.admin'', ''adm.5a17'')]"
  "parseCookies plainDecode malformedCookie = Inl ''URI malformed''"
  "srv_parseCookies plainDecode malformedCookie = Inl ''URI malformed''"
  "srv_parseCookies plainDecode visitorCookie = Inr [(''woldecks.sid'', ''uuid-0.secretuuid-0'')]"
  "srv_parseCookies plainDecode (Some ''woldecks.admin=uuid-0.secretuuid-0'') =
     Inr [(''woldecks.admin'', ''uuid-0.secretuuid-0'')]"
  by code_simp+

lemma decoders [simp]:
  "decodeURIComponent plainPlatform = plainDecode" "node_decodeURIComponent plainNode = plainDecode"
  by (simp_all add: plainPlatform_def plainNode_def)

subsection \<open>The token codec and the expiry of tokens\<close>

lemma filter_drop_row: "\<not> P r \<Longrightarrow> filter (\<lambda>x. x \<noteq> r \<and> P x) xs = filter P xs"
  by (rule filter_cong) auto

lemma take1_empty: "take (Suc 0) ys = [] \<longleftrightarrow> ys = []"
  by (cases ys) simp_all

lemma selectAdminSessions_empty:
  "selectAdminSessions w h salt = [] \<longleftrightarrow>
     \<not> (\<exists>r \<in> set (admin_sessions (db w)).
          as_token_hash r = h \<and> as_token_salt r = salt \<and> clock w < as_expires_at r)"
  by (simp add: selectAdminSessions_def take1_empty filter_empty_conv)

lemma selectViewTokens_empty:
  "selectViewTokens w ident h salt = [] \<longleftrightarrow>
     \<not> (\<exists>r \<in> set (view_tokens (db w)).
          vt_post_id r = ident \<and> vt_token_hash r = h \<and> vt_token_salt r = salt \<and>
          clock w < vt_expires_at r)"
  by (simp add: selectViewTokens_def take1_empty filter_empty_conv)


lemma isAdmin_Inl:
  "isAdmin cr env w rq = Inl e \<longleftrightarrow> parseCookies (decodeURIComponent cr) (rq_cookie rq) = Inl e"
  by (auto simp: isAdmin_def adminSessionFromCookie_def split: sum.splits option.splits list.splits)

lemma isAdmin_parsed:
  assumes "parseCookies (decodeURIComponent cr) (rq_cookie rq) = Inr cookies"
  shows "isAdmin cr env w rq =
     Inr (outage w SelectAdminSessions = None \<and>
          (\<exists>r \<in> set (admin_sessions (db w)).
             tokenMatches cr env (map_of cookies ''woldecks.admin'') (as_token_hash r) (as_token_salt r) \<and>
             clock w < as_expires_at r))"
proof (cases "splitToken (map_of cookies ''woldecks.admin'')")
  case None
  with assms show ?thesis by (simp add: isAdmin_def adminSessionFromCookie_def tokenMatches_def)
next
  case (Some p)
  show ?thesis
  proof (cases "outage w SelectAdminSessions")
    case (Some d)
    with assms \<open>splitToken (map_of cookies ''woldecks.admin'') = Some p\<close> show ?thesis
      by (simp add: isAdmin_def adminSessionFromCookie_def)
  next
    case None
    have "(selectAdminSessions w (tokenHashOf cr env p) (tp_salt p) \<noteq> []) =
        (\<exists>r \<in> set (admin_sessions (db w)).
           as_token_hash r = tokenHashOf cr env p \<and> as_token_salt r = tp_salt p \<and>
           clock w < as_expires_at r)"
      by (auto simp: selectAdminSessions_empty)
    with assms None \<open>splitToken (map_of cookies ''woldecks.admin'') = Some p\<close> show ?thesis
      by (cases "selectAdminSessions w (tokenHashOf cr env p) (tp_salt p)")
         (simp_all add: isAdmin_def adminSessionFromCookie_def tokenMatches_def)
  qed
qed

lemma isAdmin_no_cookie: "rq_cookie rq = None \<Longrightarrow> isAdmin cr env w rq = Inr False"
  by (simp add: isAdmin_def adminSessionFromCookie_def parseCookies_def splitToken_def)

lemma viewTokenAuthorized_iff:
  "viewTokenAuthorized cr env w ident viewToken \<longleftrightarrow>
     outage w SelectViewTokens = None \<and>
     (\<exists>r \<in> set (view_tokens (db w)).
        vt_post_id r = ident \<and>
        tokenMatches cr env (Some viewToken) (vt_token_hash r) (vt_token_salt r) \<and>
        clock w < vt_expires_at r)"
  by (cases "splitToken (Some viewToken)"; cases "outage w SelectViewTokens")
     (auto simp: viewTokenAuthorized_def selectViewTokens_empty tokenMatches_def)

lemma selectAdminSessions_drop_expired:
  "as_expires_at r \<le> clock w \<Longrightarrow>
   selectAdminSessions (w\<lparr>db := (db w)\<lparr>admin_sessions := filter (\<lambda>x. x \<noteq> r) (admin_sessions (db w))\<rparr>\<rparr>) h salt
     = selectAdminSessions w h salt"
  by (simp add: selectAdminSessions_def filter_drop_row)

lemma selectViewTokens_drop_expired:
  "vt_expires_at v \<le> clock w \<Longrightarrow>
   selectViewTokens (w\<lparr>db := (db w)\<lparr>view_tokens := filter (\<lambda>x. x \<noteq> v) (view_tokens (db w))\<rparr>\<rparr>) ident h salt
     = selectViewTokens w ident h salt"
  by (simp add: selectViewTokens_def filter_drop_row)


text \<open>
  C4: a stored admin session or view token with expiry \<open>t\<close> that matches the presented
  token is accepted by every check at a time before \<open>t\<close> (when the store answers), and
  at or after \<open>t\<close> the check gives what it gives without the row: the row is treated
  as absent although it is still in the table.
\<close>

theorem expiry_enforced_at_read:
  "(r \<in> set (admin_sessions (db w)) \<longrightarrow>
    parseCookies (decodeURIComponent cr) (rq_cookie rq) = Inr cookies \<longrightarrow>
    tokenMatches cr env (map_of cookies ''woldecks.admin'') (as_token_hash r) (as_token_salt r) \<longrightarrow>
    outage w SelectAdminSessions = None \<longrightarrow> clock w < as_expires_at r \<longrightarrow>
      isAdmin cr env w rq = Inr True) \<and>
   (as_expires_at r \<le> clock w \<longrightarrow>
      adminSessionFromCookie cr env w rq =
        adminSessionFromCookie cr env
          (w\<lparr>db := (db w)\<lparr>admin_sessions := filter (\<lambda>x. x \<noteq> r) (admin_sessions (db w))\<rparr>\<rparr>) rq) \<and>
   (as_expires_at r \<le> clock w \<longrightarrow> admin_sessions (db w) = [r] \<longrightarrow>
      isAdmin cr env w rq \<noteq> Inr True) \<and>
   (v \<in> set (view_tokens (db w)) \<longrightarrow> vt_post_id v = ident \<longrightarrow>
    tokenMatches cr env (Some viewToken) (vt_token_hash v) (vt_token_salt v) \<longrightarrow>
    outage w SelectViewTokens = None \<longrightarrow> clock w < vt_expires_at v \<longrightarrow>
      viewTokenAuthorized cr env w ident viewToken) \<and>
   (vt_expires_at v \<le> clock w \<longrightarrow>
      viewTokenAuthorized cr env w ident viewToken =
        viewTokenAuthorized cr env
          (w\<lparr>db := (db w)\<lparr>view_tokens := filter (\<lambda>x. x \<noteq> v) (view_tokens (db w))\<rparr>\<rparr>) ident viewToken) \<and>
   (vt_expires_at v \<le> clock w \<longrightarrow> view_tokens (db w) = [v] \<longrightarrow>
      \<not> viewTokenAuthorized cr env w ident viewToken)"
proof (intro conjI impI)
  assume "r \<in> set (admin_sessions (db w))"
    and c: "parseCookies (decodeURIComponent cr) (rq_cookie rq) = Inr cookies"
    and "tokenMatches cr env (map_of cookies ''woldecks.admin'') (as_token_hash r) (as_token_salt r)"
    "outage w SelectAdminSessions = None" "clock w < as_expires_at r"
  then show "isAdmin cr env w rq = Inr True" by (auto simp: isAdmin_parsed [OF c])
next
  assume e: "as_expires_at r \<le> clock w"
  show "adminSessionFromCookie cr env w rq =
        adminSessionFromCookie cr env
          (w\<lparr>db := (db w)\<lparr>admin_sessions := filter (\<lambda>x. x \<noteq> r) (admin_sessions (db w))\<rparr>\<rparr>) rq"
    using e by (simp add: adminSessionFromCookie_def selectAdminSessions_drop_expired
        split: sum.splits option.splits)
next
  assume e: "as_expires_at r \<le> clock w" "admin_sessions (db w) = [r]"
  show "isAdmin cr env w rq \<noteq> Inr True"
  proof (cases "parseCookies (decodeURIComponent cr) (rq_cookie rq)")
    case (Inl x)
    then have "isAdmin cr env w rq = Inl x" by (simp add: isAdmin_Inl)
    then show ?thesis by simp
  next
    case (Inr cookies')
    from isAdmin_parsed [OF this, of env w] e show ?thesis by simp
  qed
next
  assume "v \<in> set (view_tokens (db w))" "vt_post_id v = ident"
    "tokenMatches cr env (Some viewToken) (vt_token_hash v) (vt_token_salt v)"
    "outage w SelectViewTokens = None" "clock w < vt_expires_at v"
  then show "viewTokenAuthorized cr env w ident viewToken" by (auto simp: viewTokenAuthorized_iff)
next
  assume e: "vt_expires_at v \<le> clock w"
  show "viewTokenAuthorized cr env w ident viewToken =
        viewTokenAuthorized cr env
          (w\<lparr>db := (db w)\<lparr>view_tokens := filter (\<lambda>x. x \<noteq> v) (view_tokens (db w))\<rparr>\<rparr>) ident viewToken"
    using e by (simp add: viewTokenAuthorized_def selectViewTokens_drop_expired split: option.splits)
next
  assume "vt_expires_at v \<le> clock w" "view_tokens (db w) = [v]"
  then show "\<not> viewTokenAuthorized cr env w ident viewToken" by (simp add: viewTokenAuthorized_iff)
qed

lemma tokenMatches_issued:
  "tokenMatches cr env (Some (uuid @ ''.'' @ bytesToHex rnd))
     (sha256Hex cr (uuid @ '':'' @ bytesToHex rnd @ '':'' @ TOKEN_PEPPER env)) (bytesToHex rnd)"
  using splitToken_append [OF dot_notin_bytesToHex, of uuid rnd]
  by (simp add: tokenMatches_def tokenHashOf_def)

lemma tokenMatches_other_salt:
  assumes "length salt' = length salt" and "salt' \<noteq> salt"
  shows "\<not> tokenMatches cr env (Some (secret @ ''.'' @ salt')) h salt"
proof (cases "splitToken (Some (secret @ ''.'' @ salt'))")
  case None
  then show ?thesis by (simp add: tokenMatches_def)
next
  case (Some p)
  then have "splitToken (Some (secret @ CHR ''.'' # salt')) = Some p" by simp
  from splitToken_salt_suffix [OF this] assms have "tp_salt p \<noteq> salt" by auto
  with Some show ?thesis by (auto simp: tokenMatches_def)
qed

lemma tokenMatches_secret:
  "tokenMatches cr env (Some (secret' @ ''.'' @ bytesToHex rnd))
     (sha256Hex cr (secret @ '':'' @ bytesToHex rnd @ '':'' @ TOKEN_PEPPER env)) (bytesToHex rnd) =
   (subtle_digest cr (secret' @ '':'' @ bytesToHex rnd @ '':'' @ TOKEN_PEPPER env) =
    subtle_digest cr (secret @ '':'' @ bytesToHex rnd @ '':'' @ TOKEN_PEPPER env))"
  using splitToken_append [OF dot_notin_bytesToHex, of secret' rnd]
  by (auto simp: tokenMatches_def tokenHashOf_def sha256Hex_def bytesToHex_inj)

text \<open>
  C6: the hash of a token made by \<^verbatim>\<open>makeToken\<close> is the digest of secret, salt and
  pepper, and the string \<open>secret.salt\<close> matches the hash and the salt stored for it. With
  one character of the salt altered it does not match. With one character of the secret
  altered it matches exactly when the digest of the altered string is the digest of the
  issued one: verification fails unless the two strings collide under SHA-256. The last
  two parts tie \<open>tokenMatches\<close> to the two lookups of the code.
\<close>

theorem token_round_trip:
  "(let td = makeToken cr uuid src (TOKEN_PEPPER env) in
      td_token td = uuid \<and> td_salt td = bytesToHex (map src [0..<16]) \<and>
      td_hash td =
        bytesToHex (subtle_digest cr (td_token td @ '':'' @ td_salt td @ '':'' @ TOKEN_PEPPER env)) \<and>
      tokenMatches cr env (Some (td_token td @ ''.'' @ td_salt td)) (td_hash td) (td_salt td) \<and>
      (\<forall>i c. i < length (td_salt td) \<longrightarrow> c \<noteq> td_salt td ! i \<longrightarrow>
         \<not> tokenMatches cr env (Some (td_token td @ ''.'' @ (td_salt td)[i := c]))
             (td_hash td) (td_salt td)) \<and>
      (\<forall>i c. i < length (td_token td) \<longrightarrow> c \<noteq> td_token td ! i \<longrightarrow>
         tokenMatches cr env (Some ((td_token td)[i := c] @ ''.'' @ td_salt td))
           (td_hash td) (td_salt td) =
         (subtle_digest cr ((td_token td)[i := c] @ '':'' @ td_salt td @ '':'' @ TOKEN_PEPPER env) =
          subtle_digest cr (td_token td @ '':'' @ td_salt td @ '':'' @ TOKEN_PEPPER env)))) \<and>
   (parseCookies (decodeURIComponent cr) (rq_cookie rq) = Inr cookies \<longrightarrow>
    isAdmin cr env w rq =
      Inr (outage w SelectAdminSessions = None \<and>
           (\<exists>r \<in> set (admin_sessions (db w)).
              tokenMatches cr env (map_of cookies ''woldecks.admin'') (as_token_hash r) (as_token_salt r) \<and>
              clock w < as_expires_at r))) \<and>
   (viewTokenAuthorized cr env w ident viewToken \<longleftrightarrow>
      outage w SelectViewTokens = None \<and>
      (\<exists>r \<in> set (view_tokens (db w)).
         vt_post_id r = ident \<and>
         tokenMatches cr env (Some viewToken) (vt_token_hash r) (vt_token_salt r) \<and>
         clock w < vt_expires_at r))"
proof -
  let ?salt = "bytesToHex (map src [0..<16])"
  let ?hash = "sha256Hex cr (uuid @ '':'' @ ?salt @ '':'' @ TOKEN_PEPPER env)"
  have td: "makeToken cr uuid src (TOKEN_PEPPER env) =
      \<lparr>td_token = uuid, td_salt = ?salt, td_hash = ?hash\<rparr>"
    by (simp add: makeToken_def getRandomValues_16 Let_def)
  have h: "?hash = bytesToHex (subtle_digest cr (uuid @ '':'' @ ?salt @ '':'' @ TOKEN_PEPPER env))"
    by (simp add: sha256Hex_def)
  have issued: "tokenMatches cr env (Some (uuid @ ''.'' @ ?salt)) ?hash ?salt"
    by (rule tokenMatches_issued)
  have salt: "\<not> tokenMatches cr env (Some (uuid @ ''.'' @ ?salt[i := c])) ?hash ?salt"
    if "i < length ?salt" "c \<noteq> ?salt ! i" for i c
    using that by (intro tokenMatches_other_salt) (simp_all add: list_update_same_conv)
  have secret: "tokenMatches cr env (Some (uuid[i := c] @ ''.'' @ ?salt)) ?hash ?salt =
      (subtle_digest cr (uuid[i := c] @ '':'' @ ?salt @ '':'' @ TOKEN_PEPPER env) =
       subtle_digest cr (uuid @ '':'' @ ?salt @ '':'' @ TOKEN_PEPPER env))" for i c
    by (rule tokenMatches_secret)
  have first: "let td = makeToken cr uuid src (TOKEN_PEPPER env) in
      td_token td = uuid \<and> td_salt td = bytesToHex (map src [0..<16]) \<and>
      td_hash td =
        bytesToHex (subtle_digest cr (td_token td @ '':'' @ td_salt td @ '':'' @ TOKEN_PEPPER env)) \<and>
      tokenMatches cr env (Some (td_token td @ ''.'' @ td_salt td)) (td_hash td) (td_salt td) \<and>
      (\<forall>i c. i < length (td_salt td) \<longrightarrow> c \<noteq> td_salt td ! i \<longrightarrow>
         \<not> tokenMatches cr env (Some (td_token td @ ''.'' @ (td_salt td)[i := c]))
             (td_hash td) (td_salt td)) \<and>
      (\<forall>i c. i < length (td_token td) \<longrightarrow> c \<noteq> td_token td ! i \<longrightarrow>
         tokenMatches cr env (Some ((td_token td)[i := c] @ ''.'' @ td_salt td))
           (td_hash td) (td_salt td) =
         (subtle_digest cr ((td_token td)[i := c] @ '':'' @ td_salt td @ '':'' @ TOKEN_PEPPER env) =
          subtle_digest cr (td_token td @ '':'' @ td_salt td @ '':'' @ TOKEN_PEPPER env)))"
    unfolding td Let_def token_data.simps
    using h issued salt secret by blast
  show ?thesis
    using first isAdmin_parsed [of cr rq cookies env w] viewTokenAuthorized_iff [of cr env w ident viewToken]
    by blast
qed

lemma demo_admin_matches:
  "tokenMatches plainPlatform demoEnv (Some ''adm.5a17'') (as_token_hash demoAdminRow) (as_token_salt demoAdminRow)"
  by (simp add: tokenMatches_def splitToken_def tokenHashOf_def demoAdminRow_def demoEnv_def)

lemma demo_view_matches:
  "tokenMatches plainPlatform demoEnv (Some ''tok.5a17'') (vt_token_hash demoViewRow) (vt_token_salt demoViewRow)"
  by (simp add: tokenMatches_def splitToken_def tokenHashOf_def demoViewRow_def demoEnv_def)

lemma demoWorld_simps:
  "admin_sessions (db (demoWorld t)) = [demoAdminRow]"
  "view_tokens (db (demoWorld t)) = [demoViewRow]"
  "posts (db (demoWorld t)) = [demoPost]"
  "clock (demoWorld t) = t"
  "outage (demoWorld t) q = None"
  "matching (demoWorld t) = literalMatching"
  "rq_cookie adminRequest = adminCookie"
  "as_expires_at demoAdminRow = 2000"
  "vt_expires_at demoViewRow = 1000"
  "vt_post_id demoViewRow = ''p1''"
  by (simp_all add: demoWorld_def noOutage_def adminRequest_def demoAdminRow_def demoViewRow_def)

text \<open>One millisecond before the expiry and at the expiry.\<close>

theorem expiry_enforced_at_read_witness:
  "isAdmin plainPlatform demoEnv (demoWorld 1999) adminRequest = Inr True \<and>
   isAdmin plainPlatform demoEnv (demoWorld 2000) adminRequest \<noteq> Inr True \<and>
   viewTokenAuthorized plainPlatform demoEnv (demoWorld 999) ''p1'' ''tok.5a17'' \<and>
   \<not> viewTokenAuthorized plainPlatform demoEnv (demoWorld 1000) ''p1'' ''tok.5a17''"
proof -
  let ?c = "[(''woldecks.admin'', ''adm.5a17'')]"
  note early = expiry_enforced_at_read [of demoAdminRow "demoWorld 1999" plainPlatform
      adminRequest ?c demoEnv demoViewRow "''p1''" "''tok.5a17''"]
  note late = expiry_enforced_at_read [of demoAdminRow "demoWorld 2000" plainPlatform
      adminRequest ?c demoEnv demoViewRow "''p1''" "''tok.5a17''"]
  note early_view = expiry_enforced_at_read [of demoAdminRow "demoWorld 999" plainPlatform
      adminRequest ?c demoEnv demoViewRow "''p1''" "''tok.5a17''"]
  note late_view = expiry_enforced_at_read [of demoAdminRow "demoWorld 1000" plainPlatform
      adminRequest ?c demoEnv demoViewRow "''p1''" "''tok.5a17''"]
  have 1: "isAdmin plainPlatform demoEnv (demoWorld 1999) adminRequest = Inr True"
    using early demo_admin_matches by (simp add: demoWorld_simps demo_cookies)
  have 2: "isAdmin plainPlatform demoEnv (demoWorld 2000) adminRequest \<noteq> Inr True"
    using late by (simp add: demoWorld_simps)
  have 3: "viewTokenAuthorized plainPlatform demoEnv (demoWorld 999) ''p1'' ''tok.5a17''"
    using early_view demo_view_matches by (simp add: demoWorld_simps)
  have 4: "\<not> viewTokenAuthorized plainPlatform demoEnv (demoWorld 1000) ''p1'' ''tok.5a17''"
    using late_view by (auto simp: demoWorld_simps)
  from 1 2 3 4 show ?thesis by simp
qed

lemma hex_5a17: "bytesToHex [90, 23] = ''5a17''"
  by (simp add: bytesToHex_Cons bytesToHex_Nil hexDigit_def)


lemma demo_salt: "bytesToHex (map (\<lambda>i. 9 :: byte) [0..<16]) = ''09090909090909090909090909090909''"
  by code_simp

text \<open>
  A token of the stand-ins, its salt with the first character altered and its secret with
  the first character altered: the stand-in digest does not collide on the two strings.
\<close>

theorem token_round_trip_witness:
  "tokenMatches plainPlatform demoEnv (Some ''adm.09090909090909090909090909090909'')
     (sha256Hex plainPlatform ''adm:09090909090909090909090909090909:pepper'')
     ''09090909090909090909090909090909'' \<and>
   \<not> tokenMatches plainPlatform demoEnv (Some ''adm.f9090909090909090909090909090909'')
     (sha256Hex plainPlatform ''adm:09090909090909090909090909090909:pepper'')
     ''09090909090909090909090909090909'' \<and>
   \<not> tokenMatches plainPlatform demoEnv (Some ''bdm.09090909090909090909090909090909'')
     (sha256Hex plainPlatform ''adm:09090909090909090909090909090909:pepper'')
     ''09090909090909090909090909090909'' \<and>
   isAdmin plainPlatform demoEnv (demoWorld 0) adminRequest = Inr True"
proof -
  let ?salt = "''09090909090909090909090909090909''"
  let ?hash = "sha256Hex plainPlatform (''adm'' @ '':'' @ ?salt @ '':'' @ TOKEN_PEPPER demoEnv)"
  note t = token_round_trip [of plainPlatform "''adm''" "\<lambda>i. 9" demoEnv adminRequest
      "[(''woldecks.admin'', ''adm.5a17'')]" "demoWorld 0" "''p1''" "''tok.5a17''"]
  note a = t [THEN conjunct1, unfolded Let_def makeToken_def token_data.simps getRandomValues_16 demo_salt]
  have pepper: "TOKEN_PEPPER demoEnv = ''pepper''" by (simp add: demoEnv_def)
  from a have "tokenMatches plainPlatform demoEnv (Some (''adm'' @ ''.'' @ ?salt)) ?hash ?salt"
    by blast
  then have 1: "tokenMatches plainPlatform demoEnv (Some ''adm.09090909090909090909090909090909'')
     (sha256Hex plainPlatform ''adm:09090909090909090909090909090909:pepper'')
     ''09090909090909090909090909090909''"
    by (simp add: pepper)
  from a have "0 < length ?salt \<longrightarrow> CHR ''f'' \<noteq> ?salt ! 0 \<longrightarrow>
      \<not> tokenMatches plainPlatform demoEnv (Some (''adm'' @ ''.'' @ ?salt[0 := CHR ''f''])) ?hash ?salt"
    by blast
  then have 2: "\<not> tokenMatches plainPlatform demoEnv (Some ''adm.f9090909090909090909090909090909'')
     (sha256Hex plainPlatform ''adm:09090909090909090909090909090909:pepper'')
     ''09090909090909090909090909090909''"
    by (simp add: pepper)
  from a have "0 < length ''adm'' \<longrightarrow> CHR ''b'' \<noteq> ''adm'' ! 0 \<longrightarrow>
      tokenMatches plainPlatform demoEnv (Some ((''adm'')[0 := CHR ''b''] @ ''.'' @ ?salt)) ?hash ?salt =
      (subtle_digest plainPlatform ((''adm'')[0 := CHR ''b''] @ '':'' @ ?salt @ '':'' @ TOKEN_PEPPER demoEnv) =
       subtle_digest plainPlatform (''adm'' @ '':'' @ ?salt @ '':'' @ TOKEN_PEPPER demoEnv))"
    by blast
  then have 3: "\<not> tokenMatches plainPlatform demoEnv (Some ''bdm.09090909090909090909090909090909'')
     (sha256Hex plainPlatform ''adm:09090909090909090909090909090909:pepper'')
     ''09090909090909090909090909090909''"
    by (simp add: pepper plainPlatform_def plainDigest_def bytesOf_inj)
  from t [THEN conjunct2, THEN conjunct1] demo_admin_matches
  have 4: "isAdmin plainPlatform demoEnv (demoWorld 0) adminRequest = Inr True"
    by (simp add: demoWorld_simps demo_cookies)
  from 1 2 3 4 show ?thesis by simp
qed


subsection \<open>Authorization of \<^verbatim>\<open>PUT\<close> and \<^verbatim>\<open>DELETE\<close>\<close>

lemma routes_put:
  "rq_method rq = ''PUT'' \<Longrightarrow> postMatch (rq_pathname rq) = Some ident \<Longrightarrow>
   routes cr env w rq = handlePutPost cr env w rq ident"
  by (simp add: routes_def)

lemma routes_delete:
  "rq_method rq = ''DELETE'' \<Longrightarrow> postMatch (rq_pathname rq) = Some ident \<Longrightarrow>
   routes cr env w rq = handleDeletePost cr env w rq ident"
  by (simp add: routes_def)

lemma fetch_put_invalid:
  assumes "rq_method rq = ''PUT''" "postMatch (rq_pathname rq) = Some ident"
  shows "(truthyBody (rq_body rq) = None \<longrightarrow>
            fetch cr env w rq = (send 400 (errorBody ''Invalid JSON''), db w)) \<and>
         (truthyBody (rq_body rq) = Some body \<longrightarrow>
          trim (stringField body ''title'') = [] \<or> trim (stringField body ''content'') = [] \<longrightarrow>
            fetch cr env w rq = (send 400 (errorBody ''Missing fields''), db w))"
  using assms by (auto simp: fetch_def routes_put handlePutPost_def)

lemma fetch_delete_invalid:
  assumes "rq_method rq = ''DELETE''" "postMatch (rq_pathname rq) = Some ident"
  shows "truthyBody (rq_body rq) = None \<longrightarrow>
            fetch cr env w rq = (send 400 (errorBody ''Invalid JSON''), db w)"
  using assms by (auto simp: fetch_def routes_delete handleDeletePost_def)

lemma fetch_put_valid:
  assumes "rq_method rq = ''PUT''" "postMatch (rq_pathname rq) = Some ident"
    "truthyBody (rq_body rq) = Some body"
    "trim (stringField body ''title'') \<noteq> []" "trim (stringField body ''content'') \<noteq> []"
  shows "fetch cr env w rq =
     (case authorizeMutation cr env w rq ident (stringField body ''password'')
             (stringField body ''viewToken'') of
        Inl e \<Rightarrow> (send 500 (errorDetail ''Worker error'' e), db w)
      | Inr None \<Rightarrow>
          updatePost w ident (trim (stringField body ''title'')) (trim (stringField body ''content''))
      | Inr (Some rejection) \<Rightarrow> (rejection, db w))"
  using assms by (simp add: fetch_def routes_put handlePutPost_def split: sum.splits option.splits)

lemma fetch_delete_valid:
  assumes "rq_method rq = ''DELETE''" "postMatch (rq_pathname rq) = Some ident"
    "truthyBody (rq_body rq) = Some body"
  shows "fetch cr env w rq =
     (case authorizeMutation cr env w rq ident (stringField body ''password'')
             (stringField body ''viewToken'') of
        Inl e \<Rightarrow> (send 500 (errorDetail ''Worker error'' e), db w)
      | Inr None \<Rightarrow> removePost w ident
      | Inr (Some rejection) \<Rightarrow> (rejection, db w))"
  using assms by (simp add: fetch_def routes_delete handleDeletePost_def split: sum.splits option.splits)


lemma passwordFallback_rejects:
  "passwordFallback cr w ident password = Inr (Some r) \<Longrightarrow> rs_status r \<in> {401, 404, 500}"
  by (auto simp: passwordFallback_def send_def split: option.splits list.splits sum.splits if_splits)

text \<open>The order of the checks of the Worker, for a handler that ends in \<open>mutation\<close>.\<close>

lemma worker_order:
  assumes "outcome =
     (case authorizeMutation cr env w rq ident password viewToken of
        Inl e \<Rightarrow> (send 500 (errorDetail ''Worker error'' e), db w)
      | Inr None \<Rightarrow> mutation
      | Inr (Some rejection) \<Rightarrow> (rejection, db w))"
  shows "(\<forall>e. isAdmin cr env w rq = Inl e \<longrightarrow>
            outcome = (send 500 (errorDetail ''Worker error'' e), db w)) \<and>
         (isAdmin cr env w rq = Inr True \<longrightarrow> outcome = mutation) \<and>
         (isAdmin cr env w rq = Inr False \<longrightarrow> viewTokenAuthorized cr env w ident viewToken \<longrightarrow>
            outcome = mutation) \<and>
         (isAdmin cr env w rq = Inr False \<longrightarrow> \<not> viewTokenAuthorized cr env w ident viewToken \<longrightarrow>
            (passwordFallback cr w ident password = Inr None \<longrightarrow> outcome = mutation) \<and>
            (\<forall>r. passwordFallback cr w ident password = Inr (Some r) \<longrightarrow>
               outcome = (r, db w) \<and> rs_status r \<in> {401, 404, 500}) \<and>
            (\<forall>e. passwordFallback cr w ident password = Inl e \<longrightarrow>
               outcome = (send 500 (errorDetail ''Worker error'' e), db w)))"
  using assms passwordFallback_rejects [of cr w ident password]
  by (auto simp: authorizeMutation_def)

lemma updatePost_tokens:
  "view_tokens (snd (updatePost w ident title content)) = view_tokens (db w) \<and>
   admin_sessions (snd (updatePost w ident title content)) = admin_sessions (db w) \<and>
   (rs_status (fst (updatePost w ident title content)) = 200 \<longrightarrow>
      rs_body (fst (updatePost w ident title content)) = okBody)"
  by (simp add: updatePost_def patchPost_def send_def split: option.splits)

lemma removePost_tokens:
  "set (view_tokens (snd (removePost w ident))) \<subseteq> set (view_tokens (db w)) \<and>
   admin_sessions (snd (removePost w ident)) = admin_sessions (db w) \<and>
   (rs_status (fst (removePost w ident)) = 200 \<longrightarrow>
      rs_body (fst (removePost w ident)) = okBody)"
  by (auto simp: removePost_def deletePost_def send_def Let_def split: option.splits)

lemma worker_tokens:
  assumes "outcome =
     (case authorizeMutation cr env w rq ident password viewToken of
        Inl e \<Rightarrow> (send 500 (errorDetail ''Worker error'' e), db w)
      | Inr None \<Rightarrow> mutation
      | Inr (Some rejection) \<Rightarrow> (rejection, db w))"
    and "set (view_tokens (snd mutation)) \<subseteq> set (view_tokens (db w))"
    and "admin_sessions (snd mutation) = admin_sessions (db w)"
  shows "set (view_tokens (snd outcome)) \<subseteq> set (view_tokens (db w)) \<and>
         admin_sessions (snd outcome) = admin_sessions (db w)"
  using assms by (auto split: sum.splits option.splits)

lemma route_put:
  "sr_method rq = ''PUT'' \<Longrightarrow> postMatch (sr_pathname rq) = Some ident \<Longrightarrow>
   route nd cfg now s rq = srv_handlePutPost nd cfg now s rq ident"
  by (simp add: route.simps)

lemma route_delete:
  "sr_method rq = ''DELETE'' \<Longrightarrow> postMatch (sr_pathname rq) = Some ident \<Longrightarrow>
   route nd cfg now s rq = srv_handleDeletePost nd cfg now s rq ident"
  by (simp add: route.simps)

lemma route_put_invalid:
  assumes "sr_method rq = ''PUT''" "postMatch (sr_pathname rq) = Some ident"
  shows "(sr_body rq = None \<longrightarrow>
            route nd cfg now s rq = Inr (json_response 400 (errorBody ''Invalid JSON'') None, s)) \<and>
         (sr_body rq = Some JNull \<longrightarrow> route nd cfg now s rq = Inr (None, s)) \<and>
         (sr_body rq = Some body \<longrightarrow> body \<noteq> JNull \<longrightarrow>
          trim (stringField body ''title'') = [] \<or> trim (stringField body ''content'') = [] \<longrightarrow>
            route nd cfg now s rq = Inr (json_response 400 (errorBody ''Missing fields'') None, s)) \<and>
         (sr_body rq = Some body \<longrightarrow> body \<noteq> JNull \<longrightarrow>
          trim (stringField body ''title'') \<noteq> [] \<longrightarrow> trim (stringField body ''content'') \<noteq> [] \<longrightarrow>
          findIndex (\<lambda>p. sp_id p = ident) (data_posts s) = None \<longrightarrow>
            route nd cfg now s rq = Inr (json_response 404 (errorBody ''Not found'') None, s))"
  using assms by (auto simp: route_put srv_handlePutPost_def)

lemma route_delete_invalid:
  assumes "sr_method rq = ''DELETE''" "postMatch (sr_pathname rq) = Some ident"
  shows "(sr_body rq = None \<longrightarrow>
            route nd cfg now s rq = Inr (json_response 400 (errorBody ''Invalid JSON'') None, s)) \<and>
         (sr_body rq = Some JNull \<longrightarrow> route nd cfg now s rq = Inr (None, s)) \<and>
         (sr_body rq = Some body \<longrightarrow> body \<noteq> JNull \<longrightarrow>
          findIndex (\<lambda>p. sp_id p = ident) (data_posts s) = None \<longrightarrow>
            route nd cfg now s rq = Inr (json_response 404 (errorBody ''Not found'') None, s))"
  using assms by (auto simp: route_delete srv_handleDeletePost_def)

lemma route_put_valid:
  assumes "sr_method rq = ''PUT''" "postMatch (sr_pathname rq) = Some ident"
    "sr_body rq = Some body" "body \<noteq> JNull"
    "trim (stringField body ''title'') \<noteq> []" "trim (stringField body ''content'') \<noteq> []"
    "findIndex (\<lambda>p. sp_id p = ident) (data_posts s) = Some idx"
  shows "route nd cfg now s rq =
     (case srv_authorizeMutation nd cfg now s rq ident (data_posts s ! idx)
             (stringField body ''password'') (stringField body ''viewToken'') of
        Thrown e \<Rightarrow> Inl (e, s)
      | Rejected r \<Rightarrow> Inr (Some r, s)
      | Authorized ck sess \<Rightarrow>
          Inr (srv_updatePost now s idx (trim (stringField body ''title''))
                 (trim (stringField body ''content'')) ck sess))"
  using assms by (simp add: route_put srv_handlePutPost_def)

lemma route_delete_valid:
  assumes "sr_method rq = ''DELETE''" "postMatch (sr_pathname rq) = Some ident"
    "sr_body rq = Some body" "body \<noteq> JNull"
    "findIndex (\<lambda>p. sp_id p = ident) (data_posts s) = Some idx"
  shows "route nd cfg now s rq =
     (case srv_authorizeMutation nd cfg now s rq ident (data_posts s ! idx)
             (stringField body ''password'') (stringField body ''viewToken'') of
        Thrown e \<Rightarrow> Inl (e, s)
      | Rejected r \<Rightarrow> Inr (Some r, s)
      | Authorized ck sess \<Rightarrow> Inr (srv_removePost s idx ck sess))"
  using assms by (simp add: route_delete srv_handleDeletePost_def)

lemma srv_isAdmin_Inl:
  "srv_isAdmin nd cfg s rq = Inl e \<longleftrightarrow>
     srv_parseCookies (node_decodeURIComponent nd) (sr_cookie rq) = Inl e"
  by (auto simp: srv_isAdmin_def getAdminSession_def split: sum.splits option.splits)


lemma parsed_session:
  assumes "srv_isAdmin nd cfg s rq = Inr b"
  shows "\<exists>session. sessionOf nd cfg s rq = Inr session"
    and "\<exists>sid ensured ck sess used.
           getOrCreateSession nd cfg now (sessions s) rq = Inr (sid, ensured, ck, sess, used)"
proof -
  from assms obtain cookies where
    c: "srv_parseCookies (node_decodeURIComponent nd) (sr_cookie rq) = Inr cookies"
    by (cases "srv_parseCookies (node_decodeURIComponent nd) (sr_cookie rq)")
       (auto simp: srv_isAdmin_def getAdminSession_def)
  then have "\<exists>sid. getSessionId nd cfg rq = Inr sid"
    by (auto simp: getSessionId_def split: option.splits)
  then obtain sid where g: "getSessionId nd cfg rq = Inr sid" ..
  then show "\<exists>session. sessionOf nd cfg s rq = Inr session"
    by (cases sid) (simp_all add: sessionOf_def)
  from g show "\<exists>sid ensured ck sess used.
           getOrCreateSession nd cfg now (sessions s) rq = Inr (sid, ensured, ck, sess, used)"
    by (cases sid) (auto simp: getOrCreateSession_def Let_def split: option.splits)
qed

text \<open>The order of the checks of the local server, for a handler that ends in \<open>mutation\<close>.\<close>

lemma local_order:
  assumes "outcome =
     (case srv_authorizeMutation nd cfg now s rq ident post password viewToken of
        Thrown e \<Rightarrow> Inl (e, s)
      | Rejected r \<Rightarrow> Inr (Some r, s)
      | Authorized ck sess \<Rightarrow> Inr (mutation ck sess))"
  shows "(\<forall>e. srv_isAdmin nd cfg s rq = Inl e \<longrightarrow> outcome = Inl (e, s)) \<and>
         (srv_isAdmin nd cfg s rq = Inr True \<longrightarrow> outcome = Inr (mutation None (sessions s))) \<and>
         (srv_isAdmin nd cfg s rq = Inr False \<longrightarrow>
            (\<exists>session. sessionOf nd cfg s rq = Inr session \<and>
               (sessionVerified session ident \<or> sessionTokenOk session ident viewToken \<longrightarrow>
                  outcome = Inr (mutation None (sessions s))) \<and>
               (\<not> sessionVerified session ident \<longrightarrow> \<not> sessionTokenOk session ident viewToken \<longrightarrow>
                  (password = [] \<longrightarrow>
                     outcome = Inr (Some (send 401 (errorBody ''Password required'')), s)) \<and>
                  (password \<noteq> [] \<longrightarrow>
                     (\<forall>e. srv_verifyPassword nd password (sp_password post) = Inl e \<longrightarrow>
                        outcome = Inl (e, s)) \<and>
                     (srv_verifyPassword nd password (sp_password post) = Inr False \<longrightarrow>
                        outcome = Inr (Some (send 401 (errorBody ''Invalid password'')), s)) \<and>
                     (srv_verifyPassword nd password (sp_password post) = Inr True \<longrightarrow>
                        (\<exists>sid ensured ck sess used.
                           getOrCreateSession nd cfg now (sessions s) rq =
                             Inr (sid, ensured, ck, sess, used) \<and>
                           outcome =
                             Inr (mutation ck
                                   (sess(sid \<mapsto> unlock ensured ident (node_randomUUID nd used) now)))))))))"
proof (intro conjI allI impI)
  fix e assume "srv_isAdmin nd cfg s rq = Inl e"
  with assms show "outcome = Inl (e, s)" by (simp add: srv_authorizeMutation_def)
next
  assume "srv_isAdmin nd cfg s rq = Inr True"
  with assms show "outcome = Inr (mutation None (sessions s))" by (simp add: srv_authorizeMutation_def)
next
  assume a: "srv_isAdmin nd cfg s rq = Inr False"
  from parsed_session(1) [OF a] parsed_session(2) [OF a, of now]
  obtain session sid ensured ck sess used where
    so: "sessionOf nd cfg s rq = Inr session"
    and g: "getOrCreateSession nd cfg now (sessions s) rq = Inr (sid, ensured, ck, sess, used)"
    by blast
  have yes: "outcome = Inr (mutation None (sessions s))"
    if "sessionVerified session ident \<or> sessionTokenOk session ident viewToken"
    using that assms a so by (auto simp: srv_authorizeMutation_def Let_def)
  have fb: "outcome =
     (case srv_passwordFallback nd cfg now s rq ident post password of
        Thrown e \<Rightarrow> Inl (e, s)
      | Rejected r \<Rightarrow> Inr (Some r, s)
      | Authorized ck sess \<Rightarrow> Inr (mutation ck sess))"
    if "\<not> sessionVerified session ident" "\<not> sessionTokenOk session ident viewToken"
    using that assms a so by (simp add: srv_authorizeMutation_def Let_def)
  have no: "(password = [] \<longrightarrow>
               outcome = Inr (Some (send 401 (errorBody ''Password required'')), s)) \<and>
            (password \<noteq> [] \<longrightarrow>
               (\<forall>e. srv_verifyPassword nd password (sp_password post) = Inl e \<longrightarrow>
                  outcome = Inl (e, s)) \<and>
               (srv_verifyPassword nd password (sp_password post) = Inr False \<longrightarrow>
                  outcome = Inr (Some (send 401 (errorBody ''Invalid password'')), s)) \<and>
               (srv_verifyPassword nd password (sp_password post) = Inr True \<longrightarrow>
                  (\<exists>sid ensured ck sess used.
                     getOrCreateSession nd cfg now (sessions s) rq =
                       Inr (sid, ensured, ck, sess, used) \<and>
                     outcome =
                       Inr (mutation ck
                             (sess(sid \<mapsto> unlock ensured ident (node_randomUUID nd used) now))))))"
    if "\<not> sessionVerified session ident" "\<not> sessionTokenOk session ident viewToken"
    using fb [OF that] g by (auto simp: srv_passwordFallback_def)
  from so yes no
  show "\<exists>session. sessionOf nd cfg s rq = Inr session \<and>
               (sessionVerified session ident \<or> sessionTokenOk session ident viewToken \<longrightarrow>
                  outcome = Inr (mutation None (sessions s))) \<and>
               (\<not> sessionVerified session ident \<longrightarrow> \<not> sessionTokenOk session ident viewToken \<longrightarrow>
                  (password = [] \<longrightarrow>
                     outcome = Inr (Some (send 401 (errorBody ''Password required'')), s)) \<and>
                  (password \<noteq> [] \<longrightarrow>
                     (\<forall>e. srv_verifyPassword nd password (sp_password post) = Inl e \<longrightarrow>
                        outcome = Inl (e, s)) \<and>
                     (srv_verifyPassword nd password (sp_password post) = Inr False \<longrightarrow>
                        outcome = Inr (Some (send 401 (errorBody ''Invalid password'')), s)) \<and>
                     (srv_verifyPassword nd password (sp_password post) = Inr True \<longrightarrow>
                        (\<exists>sid ensured ck sess used.
                           getOrCreateSession nd cfg now (sessions s) rq =
                             Inr (sid, ensured, ck, sess, used) \<and>
                           outcome =
                             Inr (mutation ck
                                   (sess(sid \<mapsto> unlock ensured ident (node_randomUUID nd used) now)))))))"
    by blast
qed

lemma worker_store:
  assumes "outcome =
     (case authorizeMutation cr env w rq ident password viewToken of
        Inl e \<Rightarrow> (send 500 (errorDetail ''Worker error'' e), db w)
      | Inr None \<Rightarrow> mutation
      | Inr (Some rejection) \<Rightarrow> (rejection, db w))"
    and "P (snd mutation)" and "P (db w)"
  shows "P (snd outcome)"
  using assms by (auto split: sum.splits option.splits)


lemma worker_put_order:
  assumes "rq_method rq = ''PUT''"
    and "postMatch (rq_pathname rq) = Some ident"
    and "truthyBody (rq_body rq) = Some body"
    and "trim (stringField body ''title'') \<noteq> []"
    and "trim (stringField body ''content'') \<noteq> []"
  shows
   "((\<forall>e. isAdmin cr env w rq = Inl e \<longrightarrow>
      fetch cr env w rq = (send 500 (errorDetail ''Worker error'' e), db w)) \<and>
   (isAdmin cr env w rq = Inr True \<longrightarrow> fetch cr env w rq = (updatePost w ident (trim (stringField body ''title'')) (trim (stringField body ''content'')))) \<and>
   (isAdmin cr env w rq = Inr False \<longrightarrow> viewTokenAuthorized cr env w ident (stringField body ''viewToken'') \<longrightarrow>
      fetch cr env w rq = (updatePost w ident (trim (stringField body ''title'')) (trim (stringField body ''content'')))) \<and>
   (isAdmin cr env w rq = Inr False \<longrightarrow> \<not> viewTokenAuthorized cr env w ident (stringField body ''viewToken'') \<longrightarrow>
      (passwordFallback cr w ident (stringField body ''password'') = Inr None \<longrightarrow> fetch cr env w rq = (updatePost w ident (trim (stringField body ''title'')) (trim (stringField body ''content'')))) \<and>
      (\<forall>r. passwordFallback cr w ident (stringField body ''password'') = Inr (Some r) \<longrightarrow>
         fetch cr env w rq = (r, db w) \<and> rs_status r \<in> {401, 404, 500}) \<and>
      (\<forall>e. passwordFallback cr w ident (stringField body ''password'') = Inl e \<longrightarrow>
         fetch cr env w rq = (send 500 (errorDetail ''Worker error'' e), db w)))) \<and>
   view_tokens (snd (fetch cr env w rq)) = view_tokens (db w) \<and>
   admin_sessions (snd (fetch cr env w rq)) = admin_sessions (db w)"
proof -
  note f = fetch_put_valid [OF assms, of cr env w]
  note o = worker_order [OF f]
  have t: "view_tokens (snd (fetch cr env w rq)) = view_tokens (db w)"
    by (rule worker_store [OF f, of "\<lambda>d. view_tokens d = view_tokens (db w)"])
       (simp_all add: updatePost_tokens)
  have a: "admin_sessions (snd (fetch cr env w rq)) = admin_sessions (db w)"
    by (rule worker_store [OF f, of "\<lambda>d. admin_sessions d = admin_sessions (db w)"])
       (simp_all add: updatePost_tokens)
  show ?thesis by (rule conjI [OF o conjI [OF t a]])
qed


lemma worker_delete_order:
  assumes "rq_method rq = ''DELETE''"
    and "postMatch (rq_pathname rq) = Some ident"
    and "truthyBody (rq_body rq) = Some body"
  shows
   "((\<forall>e. isAdmin cr env w rq = Inl e \<longrightarrow>
      fetch cr env w rq = (send 500 (errorDetail ''Worker error'' e), db w)) \<and>
   (isAdmin cr env w rq = Inr True \<longrightarrow> fetch cr env w rq = (removePost w ident)) \<and>
   (isAdmin cr env w rq = Inr False \<longrightarrow> viewTokenAuthorized cr env w ident (stringField body ''viewToken'') \<longrightarrow>
      fetch cr env w rq = (removePost w ident)) \<and>
   (isAdmin cr env w rq = Inr False \<longrightarrow> \<not> viewTokenAuthorized cr env w ident (stringField body ''viewToken'') \<longrightarrow>
      (passwordFallback cr w ident (stringField body ''password'') = Inr None \<longrightarrow> fetch cr env w rq = (removePost w ident)) \<and>
      (\<forall>r. passwordFallback cr w ident (stringField body ''password'') = Inr (Some r) \<longrightarrow>
         fetch cr env w rq = (r, db w) \<and> rs_status r \<in> {401, 404, 500}) \<and>
      (\<forall>e. passwordFallback cr w ident (stringField body ''password'') = Inl e \<longrightarrow>
         fetch cr env w rq = (send 500 (errorDetail ''Worker error'' e), db w)))) \<and>
   set (view_tokens (snd (fetch cr env w rq))) \<subseteq> set (view_tokens (db w)) \<and>
   admin_sessions (snd (fetch cr env w rq)) = admin_sessions (db w)"
proof -
  note f = fetch_delete_valid [OF assms, of cr env w]
  note o = worker_order [OF f]
  have t: "set (view_tokens (snd (fetch cr env w rq))) \<subseteq> set (view_tokens (db w))"
    by (rule worker_store [OF f, of "\<lambda>d. set (view_tokens d) \<subseteq> set (view_tokens (db w))"])
       (simp_all add: removePost_tokens)
  have a: "admin_sessions (snd (fetch cr env w rq)) = admin_sessions (db w)"
    by (rule worker_store [OF f, of "\<lambda>d. admin_sessions d = admin_sessions (db w)"])
       (simp_all add: removePost_tokens)
  show ?thesis by (rule conjI [OF o conjI [OF t a]])
qed






lemma demo_postMatch: "postMatch ''/api/posts/p1'' = Some ''p1''"
  by (simp add: postMatch_def)

lemma demo_fields:
  "stringField (JObj kvs) k = (case map_of (rev kvs) k of Some (JStr v) \<Rightarrow> v | _ \<Rightarrow> [])"
  "truthyBody (Some (JObj kvs)) = Some (JObj kvs)"
  "trim ''T'' = ''T''" "trim ''C'' = ''C''"
  by (simp_all add: stringField_def getMember_def truthyBody_def trim_def isWhiteSpace_def)

lemma demo_isAdmin:
  "rq_cookie rq = adminCookie \<Longrightarrow> t < 2000 \<Longrightarrow> isAdmin plainPlatform demoEnv (demoWorld t) rq = Inr True"
  using demo_admin_matches isAdmin_parsed [of plainPlatform rq "[(''woldecks.admin'', ''adm.5a17'')]"]
  by (simp add: demo_cookies demoWorld_simps)

lemma demo_malformed:
  "rq_cookie rq = malformedCookie \<Longrightarrow> isAdmin plainPlatform env w rq = Inl ''URI malformed''"
  by (simp add: isAdmin_Inl demo_cookies)

lemma no_token_not_authorized: "\<not> viewTokenAuthorized cr env w ident []"
  by (simp add: viewTokenAuthorized_def splitToken_def)


lemma demo_verify: "verifyPassword plainPlatform pw demoPost = Inr (pw = ''swordfish'')"
  by (auto simp: verifyPassword_def pbkdf2Hash_def plainPlatform_def plainDeriveBits_def demoPost_def
      hexToBytes_bytesToHex safeEqualHex_iff bytesToHex_inj bytesOf_inj)

lemma demo_selectPost:
  "selectPost (demoWorld t) ''p1'' = [demoPost]" "selectPost (demoWorld t) ''nope'' = []"
  by (simp_all add: selectPost_def demoWorld_simps) (simp_all add: demoPost_def)

lemma demo_passwordFallback:
  "passwordFallback plainPlatform (demoWorld t) ''p1'' pw =
     (if pw = [] then Inr (Some (send 401 (errorBody ''Password required'')))
      else if pw = ''swordfish'' then Inr None
      else Inr (Some (send 401 (errorBody ''Invalid password''))))"
  by (simp add: passwordFallback_def demoWorld_simps demo_selectPost demo_verify)

lemma demo_srv_verify:
  "srv_verifyPassword plainNode pw (sp_password demoSrvPost) = Inr (pw = ''swordfish'')"
  by (auto simp: srv_verifyPassword_def plainNode_def plainPbkdf2Sync_def demoSrvPost_def
      bufferFromHex_bytesToHex timingSafeEqual_def bytesOf_inj)

lemma srv_no_cookie:
  assumes "sr_cookie rq = None"
  shows "srv_isAdmin nd cfg s rq = Inr False" "sessionOf nd cfg s rq = Inr None"
    "getOrCreateSession nd cfg now sess rq =
       Inr (node_randomUUID nd 0, newSession now,
            Some (setCookie ''woldecks.sid'' (sign nd cfg (node_randomUUID nd 0)) False),
            sess(node_randomUUID nd 0 \<mapsto> newSession now), 1)"
  using assms
  by (simp_all add: srv_isAdmin_def getAdminSession_def sessionOf_def getOrCreateSession_def
      getSessionId_def parseCookies_absent)


lemma srv_malformed:
  "sr_cookie rq = malformedCookie \<Longrightarrow> srv_isAdmin plainNode cfg s rq = Inl ''URI malformed''"
  by (simp add: srv_isAdmin_Inl demo_cookies)

lemma demo_view_step:
  "route plainNode demoCfg 10 freshState
     \<lparr>sr_method = ''POST'', sr_pathname = ''/api/posts/p1/view'', sr_cookie = None,
      sr_body = Some (JObj [(''password'', JStr ''swordfish'')])\<rparr> =
     Inr (Some \<lparr>rs_status = 200,
                rs_body = JObj [(''post'', srv_postJson demoSrvPost), (''viewToken'', JStr ''uuid-1'')],
                rs_set_cookie = Some (setCookie ''woldecks.sid'' ''uuid-0.secretuuid-0'' False)\<rparr>,
          demoState)"
proof -
  let ?rq = "\<lparr>sr_method = ''POST'', sr_pathname = ''/api/posts/p1/view'', sr_cookie = None,
      sr_body = Some (JObj [(''password'', JStr ''swordfish'')])\<rparr>"
  have vm: "viewMatch ''/api/posts/p1/view'' = Some ''p1''" by (simp add: viewMatch_def)
  have pw: "stringField (JObj [(''password'', JStr ''swordfish'')]) ''password'' = ''swordfish''"
    by (simp add: stringField_def getMember_def)
  have post: "find (\<lambda>p. sp_id p = ''p1'') (data_posts freshState) = Some demoSrvPost"
    by (simp add: freshState_def demoSrvPost_def)
  have c: "sr_cookie ?rq = None" by simp
  have gs: "getOrCreateSession plainNode demoCfg 10 (sessions freshState) ?rq =
      Inr (''uuid-0'', newSession 10,
           Some (setCookie ''woldecks.sid'' ''uuid-0.secretuuid-0'' False),
           [''uuid-0'' \<mapsto> newSession 10], 1)"
    by (simp add: srv_no_cookie(3) [OF c] sign_def plainNode_def plainUUID_def plainHmac_def
        demoCfg_def freshState_def)
  have uu: "node_randomUUID plainNode (Suc 0) = ''uuid-1''"
    by (simp add: plainNode_def plainUUID_def)
  have hv: "srv_handleViewPost plainNode demoCfg 10 freshState ?rq ''p1'' =
      Inr (json_response 200
             (JObj [(''post'', srv_postJson demoSrvPost), (''viewToken'', JStr ''uuid-1'')])
             (Some (setCookie ''woldecks.sid'' ''uuid-0.secretuuid-0'' False)),
           freshState\<lparr>sessions := [''uuid-0'' \<mapsto> unlock (newSession 10) ''p1'' ''uuid-1'' 10]\<rparr>)"
    by (simp add: srv_handleViewPost_def pw post demo_srv_verify gs uu Let_def)
  have st: "freshState\<lparr>sessions := [''uuid-0'' \<mapsto> unlock (newSession 10) ''p1'' ''uuid-1'' 10]\<rparr> =
      demoState"
    by (simp add: freshState_def demoState_def demoSession_def unlock_def newSession_def)
  show ?thesis
    by (subst route.simps)
       (simp add: vm postMatch_def srv_no_cookie(1) [OF c] hv st json_response_def)
qed


text \<open>
  The admin check of the local server asks whether the admin cookie carries the signed id
  of a session in the map \<^verbatim>\<open>sessions\<close>. The sessions of visitors are in the same map and
  their cookie is signed in the same way, so the value of the visitor's session cookie
  above, sent under the name of the admin cookie, passes the check.
\<close>

lemma visitor_cookie_passes_admin_check:
  "srv_isAdmin plainNode demoCfg demoState
     \<lparr>sr_method = ''GET'', sr_pathname = ''/api/admin/me'',
      sr_cookie = Some ''woldecks.admin=uuid-0.secretuuid-0'', sr_body = None\<rparr> = Inr True"
  by (simp add: srv_isAdmin_def getAdminSession_def demo_cookies verifySigned_def plainNode_def
      plainHmac_def demoCfg_def demoState_def)





subsection \<open>Rejections\<close>

lemma worker_rejections:
  assumes "outcome =
     (case authorizeMutation cr env w rq ident password viewToken of
        Inl e \<Rightarrow> (send 500 (errorDetail ''Worker error'' e), db w)
      | Inr None \<Rightarrow> mutation
      | Inr (Some rejection) \<Rightarrow> (rejection, db w))"
  shows
   "(\<forall>e. isAdmin cr env w rq = Inl e \<longrightarrow>
       outcome = (send 500 (errorDetail ''Worker error'' e), db w)) \<and>
    (isAdmin cr env w rq = Inr False \<longrightarrow> \<not> viewTokenAuthorized cr env w ident viewToken \<longrightarrow>
       (password = [] \<longrightarrow> outcome = (send 401 (errorBody ''Password required''), db w)) \<and>
       (password \<noteq> [] \<longrightarrow>
          (\<forall>detail. outage w SelectPosts = Some detail \<longrightarrow>
             outcome = (send 500 (errorDetail ''Failed to verify'' detail), db w)) \<and>
          (outage w SelectPosts = None \<longrightarrow>
             (selectPost w ident = [] \<longrightarrow> outcome = (send 404 (errorBody ''Not found''), db w)) \<and>
             (\<forall>p ps. selectPost w ident = p # ps \<longrightarrow>
                (verifyPassword cr password p = Inr False \<longrightarrow>
                   outcome = (send 401 (errorBody ''Invalid password''), db w)) \<and>
                (\<forall>e. verifyPassword cr password p = Inl e \<longrightarrow>
                   outcome = (send 500 (errorDetail ''Worker error'' e), db w))))))"
  using assms by (auto simp: authorizeMutation_def passwordFallback_def)

lemma local_rejections:
  assumes "outcome =
     (case srv_authorizeMutation nd cfg now s lrq ident post password viewToken of
        Thrown e \<Rightarrow> Inl (e, s)
      | Rejected r \<Rightarrow> Inr (Some r, s)
      | Authorized ck sess \<Rightarrow> Inr (mutation ck sess))"
  shows
   "(\<forall>e. srv_isAdmin nd cfg s lrq = Inl e \<longrightarrow> outcome = Inl (e, s)) \<and>
    (srv_isAdmin nd cfg s lrq = Inr False \<longrightarrow>
       (\<exists>session. sessionOf nd cfg s lrq = Inr session \<and>
          (\<not> sessionVerified session ident \<longrightarrow> \<not> sessionTokenOk session ident viewToken \<longrightarrow>
             (password = [] \<longrightarrow>
                outcome = Inr (Some (send 401 (errorBody ''Password required'')), s)) \<and>
             (password \<noteq> [] \<longrightarrow>
                (\<forall>e. srv_verifyPassword nd password (sp_password post) = Inl e \<longrightarrow>
                   outcome = Inl (e, s)) \<and>
                (srv_verifyPassword nd password (sp_password post) = Inr False \<longrightarrow>
                   outcome = Inr (Some (send 401 (errorBody ''Invalid password'')), s))))))"
  using local_order [OF assms] by blast

lemma worker_invalid_json:
  assumes m: "rq_method rq = ''PUT'' \<or> rq_method rq = ''DELETE''"
    and p: "postMatch (rq_pathname rq) = Some ident"
  shows
   "truthyBody (rq_body rq) = None \<longrightarrow>
       fetch cr env w rq = (send 400 (errorBody ''Invalid JSON''), db w)"
  using m fetch_put_invalid [OF _ p, of cr env w] fetch_delete_invalid [OF _ p, of cr env w] by blast

lemma worker_missing_fields:
  assumes m: "rq_method rq = ''PUT'' \<or> rq_method rq = ''DELETE''"
    and p: "postMatch (rq_pathname rq) = Some ident"
  shows
   "rq_method rq = ''PUT'' \<longrightarrow> truthyBody (rq_body rq) = Some body \<longrightarrow>
    trim (stringField body ''title'') = [] \<or> trim (stringField body ''content'') = [] \<longrightarrow>
       fetch cr env w rq = (send 400 (errorBody ''Missing fields''), db w)"
  using fetch_put_invalid [OF _ p, of cr env w body] by blast

lemma worker_rejection_branches:
  assumes m: "rq_method rq = ''PUT'' \<or> rq_method rq = ''DELETE''"
    and p: "postMatch (rq_pathname rq) = Some ident"
  shows
   "truthyBody (rq_body rq) = Some body \<longrightarrow>
    (rq_method rq = ''DELETE'' \<or> trim (stringField body ''title'') \<noteq> [] \<and> trim (stringField body ''content'') \<noteq> []) \<longrightarrow>
       ((\<forall>e. isAdmin cr env w rq = Inl e \<longrightarrow>
           fetch cr env w rq = (send 500 (errorDetail ''Worker error'' e), db w)) \<and>
        (isAdmin cr env w rq = Inr False \<longrightarrow> \<not> viewTokenAuthorized cr env w ident (stringField body ''viewToken'') \<longrightarrow>
           ((stringField body ''password'') = [] \<longrightarrow> fetch cr env w rq = (send 401 (errorBody ''Password required''), db w)) \<and>
           ((stringField body ''password'') \<noteq> [] \<longrightarrow>
              (\<forall>detail. outage w SelectPosts = Some detail \<longrightarrow>
                 fetch cr env w rq = (send 500 (errorDetail ''Failed to verify'' detail), db w)) \<and>
              (outage w SelectPosts = None \<longrightarrow>
                 (selectPost w ident = [] \<longrightarrow> fetch cr env w rq = (send 404 (errorBody ''Not found''), db w)) \<and>
                 (\<forall>p ps. selectPost w ident = p # ps \<longrightarrow>
                    (verifyPassword cr (stringField body ''password'') p = Inr False \<longrightarrow>
                       fetch cr env w rq = (send 401 (errorBody ''Invalid password''), db w)) \<and>
                    (\<forall>e. verifyPassword cr (stringField body ''password'') p = Inl e \<longrightarrow>
                       fetch cr env w rq = (send 500 (errorDetail ''Worker error'' e), db w)))))))"
proof (intro impI)
  assume b: "truthyBody (rq_body rq) = Some body"
    and v: "rq_method rq = ''DELETE'' \<or>
      trim (stringField body ''title'') \<noteq> [] \<and> trim (stringField body ''content'') \<noteq> []"
  from m v consider
    (put) "rq_method rq = ''PUT''" "trim (stringField body ''title'') \<noteq> []"
      "trim (stringField body ''content'') \<noteq> []"
    | (del) "rq_method rq = ''DELETE''"
    by auto
  then show "(\<forall>e. isAdmin cr env w rq = Inl e \<longrightarrow>
             fetch cr env w rq = (send 500 (errorDetail ''Worker error'' e), db w)) \<and>
          (isAdmin cr env w rq = Inr False \<longrightarrow> \<not> viewTokenAuthorized cr env w ident (stringField body ''viewToken'') \<longrightarrow>
             ((stringField body ''password'') = [] \<longrightarrow> fetch cr env w rq = (send 401 (errorBody ''Password required''), db w)) \<and>
             ((stringField body ''password'') \<noteq> [] \<longrightarrow>
                (\<forall>detail. outage w SelectPosts = Some detail \<longrightarrow>
                   fetch cr env w rq = (send 500 (errorDetail ''Failed to verify'' detail), db w)) \<and>
                (outage w SelectPosts = None \<longrightarrow>
                   (selectPost w ident = [] \<longrightarrow> fetch cr env w rq = (send 404 (errorBody ''Not found''), db w)) \<and>
                   (\<forall>p ps. selectPost w ident = p # ps \<longrightarrow>
                      (verifyPassword cr (stringField body ''password'') p = Inr False \<longrightarrow>
                         fetch cr env w rq = (send 401 (errorBody ''Invalid password''), db w)) \<and>
                      (\<forall>e. verifyPassword cr (stringField body ''password'') p = Inl e \<longrightarrow>
                         fetch cr env w rq = (send 500 (errorDetail ''Worker error'' e), db w))))))"
  proof cases
    case put
    from worker_rejections [OF fetch_put_valid [OF put(1) p b put(2,3), of cr env w]]
    show ?thesis .
  next
    case del
    from worker_rejections [OF fetch_delete_valid [OF del p b, of cr env w]]
    show ?thesis .
  qed
qed

lemma local_invalid_json:
  assumes m: "sr_method lrq = ''PUT'' \<or> sr_method lrq = ''DELETE''"
    and p: "postMatch (sr_pathname lrq) = Some ident"
  shows
   "sr_body lrq = None \<longrightarrow>
       route nd cfg now s lrq = Inr (json_response 400 (errorBody ''Invalid JSON'') None, s)"
  using m route_put_invalid [OF _ p, of nd cfg now s] route_delete_invalid [OF _ p, of nd cfg now s] by blast

lemma local_null_body:
  assumes m: "sr_method lrq = ''PUT'' \<or> sr_method lrq = ''DELETE''"
    and p: "postMatch (sr_pathname lrq) = Some ident"
  shows
   "sr_body lrq = Some JNull \<longrightarrow> route nd cfg now s lrq = Inr (None, s)"
  using m route_put_invalid [OF _ p, of nd cfg now s] route_delete_invalid [OF _ p, of nd cfg now s] by blast

lemma local_missing_fields:
  assumes m: "sr_method lrq = ''PUT'' \<or> sr_method lrq = ''DELETE''"
    and p: "postMatch (sr_pathname lrq) = Some ident"
  shows
   "sr_method lrq = ''PUT'' \<longrightarrow> sr_body lrq = Some lbody \<longrightarrow> lbody \<noteq> JNull \<longrightarrow>
    trim (stringField lbody ''title'') = [] \<or> trim (stringField lbody ''content'') = [] \<longrightarrow>
       route nd cfg now s lrq = Inr (json_response 400 (errorBody ''Missing fields'') None, s)"
  using route_put_invalid [OF _ p, of nd cfg now s lbody] by blast

lemma local_rejection_branches:
  assumes m: "sr_method lrq = ''PUT'' \<or> sr_method lrq = ''DELETE''"
    and p: "postMatch (sr_pathname lrq) = Some ident"
    and b: "sr_body lrq = Some lbody"
    and n: "lbody \<noteq> JNull"
    and v: "sr_method lrq = ''DELETE'' \<or> trim (stringField lbody ''title'') \<noteq> [] \<and> trim (stringField lbody ''content'') \<noteq> []"
  shows
   "(findIndex (\<lambda>p. sp_id p = ident) (data_posts s) = None \<longrightarrow>
          route nd cfg now s lrq = Inr (json_response 404 (errorBody ''Not found'') None, s)) \<and>
       (\<forall>idx. findIndex (\<lambda>p. sp_id p = ident) (data_posts s) = Some idx \<longrightarrow>
          ((\<forall>e. srv_isAdmin nd cfg s lrq = Inl e \<longrightarrow> route nd cfg now s lrq = Inl (e, s)) \<and>
           (srv_isAdmin nd cfg s lrq = Inr False \<longrightarrow>
              (\<exists>session. sessionOf nd cfg s lrq = Inr session \<and>
                 (\<not> sessionVerified session ident \<longrightarrow> \<not> sessionTokenOk session ident (stringField lbody ''viewToken'') \<longrightarrow>
                    ((stringField lbody ''password'') = [] \<longrightarrow>
                       route nd cfg now s lrq = Inr (Some (send 401 (errorBody ''Password required'')), s)) \<and>
                    ((stringField lbody ''password'') \<noteq> [] \<longrightarrow>
                       (\<forall>e. srv_verifyPassword nd (stringField lbody ''password'') (sp_password (data_posts s ! idx)) = Inl e \<longrightarrow>
                          route nd cfg now s lrq = Inl (e, s)) \<and>
                       (srv_verifyPassword nd (stringField lbody ''password'') (sp_password (data_posts s ! idx)) = Inr False \<longrightarrow>
                          route nd cfg now s lrq = Inr (Some (send 401 (errorBody ''Invalid password'')), s))))))))"
proof -
  from m v consider
    (put) "sr_method lrq = ''PUT''" "trim (stringField lbody ''title'') \<noteq> []"
      "trim (stringField lbody ''content'') \<noteq> []"
    | (del) "sr_method lrq = ''DELETE''"
    by auto
  note cases = this
  have A: "findIndex (\<lambda>p. sp_id p = ident) (data_posts s) = None \<longrightarrow>
      route nd cfg now s lrq = Inr (json_response 404 (errorBody ''Not found'') None, s)"
    using cases
  proof cases
    case put
    with route_put_invalid [OF put(1) p, of nd cfg now s lbody] b n show ?thesis by blast
  next
    case del
    with route_delete_invalid [OF del p, of nd cfg now s lbody] b n show ?thesis by blast
  qed
  have B: "\<forall>idx. findIndex (\<lambda>p. sp_id p = ident) (data_posts s) = Some idx \<longrightarrow>
      ((\<forall>e. srv_isAdmin nd cfg s lrq = Inl e \<longrightarrow> route nd cfg now s lrq = Inl (e, s)) \<and>
       (srv_isAdmin nd cfg s lrq = Inr False \<longrightarrow>
          (\<exists>session. sessionOf nd cfg s lrq = Inr session \<and>
             (\<not> sessionVerified session ident \<longrightarrow> \<not> sessionTokenOk session ident (stringField lbody ''viewToken'') \<longrightarrow>
                ((stringField lbody ''password'') = [] \<longrightarrow>
                   route nd cfg now s lrq = Inr (Some (send 401 (errorBody ''Password required'')), s)) \<and>
                ((stringField lbody ''password'') \<noteq> [] \<longrightarrow>
                   (\<forall>e. srv_verifyPassword nd (stringField lbody ''password'') (sp_password (data_posts s ! idx)) = Inl e \<longrightarrow>
                      route nd cfg now s lrq = Inl (e, s)) \<and>
                   (srv_verifyPassword nd (stringField lbody ''password'') (sp_password (data_posts s ! idx)) = Inr False \<longrightarrow>
                      route nd cfg now s lrq = Inr (Some (send 401 (errorBody ''Invalid password'')), s)))))))"
  proof (intro allI impI)
    fix idx assume i: "findIndex (\<lambda>p. sp_id p = ident) (data_posts s) = Some idx"
    from cases show "(\<forall>e. srv_isAdmin nd cfg s lrq = Inl e \<longrightarrow> route nd cfg now s lrq = Inl (e, s)) \<and>
          (srv_isAdmin nd cfg s lrq = Inr False \<longrightarrow>
             (\<exists>session. sessionOf nd cfg s lrq = Inr session \<and>
                (\<not> sessionVerified session ident \<longrightarrow> \<not> sessionTokenOk session ident (stringField lbody ''viewToken'') \<longrightarrow>
                   ((stringField lbody ''password'') = [] \<longrightarrow>
                      route nd cfg now s lrq = Inr (Some (send 401 (errorBody ''Password required'')), s)) \<and>
                   ((stringField lbody ''password'') \<noteq> [] \<longrightarrow>
                      (\<forall>e. srv_verifyPassword nd (stringField lbody ''password'') (sp_password (data_posts s ! idx)) = Inl e \<longrightarrow>
                         route nd cfg now s lrq = Inl (e, s)) \<and>
                      (srv_verifyPassword nd (stringField lbody ''password'') (sp_password (data_posts s ! idx)) = Inr False \<longrightarrow>
                         route nd cfg now s lrq = Inr (Some (send 401 (errorBody ''Invalid password'')), s))))))"
    proof cases
      case put
      from local_rejections [OF route_put_valid [OF put(1) p b n put(2,3) i, of nd cfg now]]
      show ?thesis .
    next
      case del
      from local_rejections [OF route_delete_valid [OF del p b n i, of nd cfg now]]
      show ?thesis .
    qed
  qed
  show ?thesis by (rule conjI [OF A B])
qed

text \<open>
  C3 (as stated): the responses to unauthorized \<^verbatim>\<open>PUT\<close> and \<^verbatim>\<open>DELETE\<close> requests are
  identical. In the Worker a \<^verbatim>\<open>DELETE\<close> without credential, one with a wrong password
  and one with a password for a post that does not exist get three different responses.
\<close>

theorem rejections_differ_counterexample:
  "fst (fetch plainPlatform demoEnv (demoWorld 0)
          \<lparr>rq_method = ''DELETE'', rq_pathname = ''/api/posts/p1'', rq_cookie = None,
           rq_body = Some (JObj [])\<rparr>)
     = \<lparr>rs_status = 401, rs_body = JObj [(''error'', JStr ''Password required'')], rs_set_cookie = None\<rparr> \<and>
   fst (fetch plainPlatform demoEnv (demoWorld 0)
          \<lparr>rq_method = ''DELETE'', rq_pathname = ''/api/posts/p1'', rq_cookie = None,
           rq_body = Some (JObj [(''password'', JStr ''wrong'')])\<rparr>)
     = \<lparr>rs_status = 401, rs_body = JObj [(''error'', JStr ''Invalid password'')], rs_set_cookie = None\<rparr> \<and>
   fst (fetch plainPlatform demoEnv (demoWorld 0)
          \<lparr>rq_method = ''DELETE'', rq_pathname = ''/api/posts/nope'', rq_cookie = None,
           rq_body = Some (JObj [(''password'', JStr ''wrong'')])\<rparr>)
     = \<lparr>rs_status = 404, rs_body = JObj [(''error'', JStr ''Not found'')], rs_set_cookie = None\<rparr>"
  by (simp add: fetch_def routes_def postMatch_def handleDeletePost_def demo_fields
      authorizeMutation_def isAdmin_no_cookie no_token_not_authorized passwordFallback_def
      demoWorld_simps demo_selectPost demo_verify send_def errorBody_def)

text \<open>
  C3 (amended): every \<^verbatim>\<open>PUT\<close> and \<^verbatim>\<open>DELETE\<close> request that is not authorized leaves
  the store unchanged, and its response tells which check failed, in the order of the code.
  Worker: 400 \<^verbatim>\<open>Invalid JSON\<close> for a body that is not a truthy JSON value; 400
  \<^verbatim>\<open>Missing fields\<close> for a \<^verbatim>\<open>PUT\<close> without title or content; 500 \<^verbatim>\<open>Worker error\<close> with
  the message of the exception when the cookie header cannot be decoded; then, for a caller
  who is not the admin and has no valid view token, 401 \<^verbatim>\<open>Password required\<close> without
  password, 500 \<^verbatim>\<open>Failed to verify\<close> when the store does not answer, 404 \<^verbatim>\<open>Not found\<close>
  for a post that does not exist, 401 \<^verbatim>\<open>Invalid password\<close> for a wrong password, and 500
  \<^verbatim>\<open>Worker error\<close> when the hasher throws. Local server: 400 \<^verbatim>\<open>Invalid JSON\<close> for a
  body that cannot be read, no response for the body \<^verbatim>\<open>null\<close>, 400 \<^verbatim>\<open>Missing fields\<close>,
  404 \<^verbatim>\<open>Not found\<close> for a post that does not exist, before any credential is looked at;
  no response when the cookie header cannot be decoded; then, for a caller who is not the
  admin and whose session does not authorize, 401 \<^verbatim>\<open>Password required\<close>, 401
  \<^verbatim>\<open>Invalid password\<close>, and no response when the hasher throws.
\<close>


theorem rejections_by_branch:
  "((rq_method rq = ''PUT'' \<or> rq_method rq = ''DELETE'') \<longrightarrow>
    postMatch (rq_pathname rq) = Some ident \<longrightarrow>
      (truthyBody (rq_body rq) = None \<longrightarrow>
          fetch cr env w rq = (send 400 (errorBody ''Invalid JSON''), db w)) \<and>
      (rq_method rq = ''PUT'' \<longrightarrow> truthyBody (rq_body rq) = Some body \<longrightarrow>
       trim (stringField body ''title'') = [] \<or> trim (stringField body ''content'') = [] \<longrightarrow>
          fetch cr env w rq = (send 400 (errorBody ''Missing fields''), db w)) \<and>
      (truthyBody (rq_body rq) = Some body \<longrightarrow>
       (rq_method rq = ''DELETE'' \<or> trim (stringField body ''title'') \<noteq> [] \<and> trim (stringField body ''content'') \<noteq> []) \<longrightarrow>
          (let password = stringField body ''password''; viewToken = stringField body ''viewToken''
            in (\<forall>e. isAdmin cr env w rq = Inl e \<longrightarrow>
                  fetch cr env w rq = (send 500 (errorDetail ''Worker error'' e), db w)) \<and>
               (isAdmin cr env w rq = Inr False \<longrightarrow> \<not> viewTokenAuthorized cr env w ident viewToken \<longrightarrow>
                  (password = [] \<longrightarrow> fetch cr env w rq = (send 401 (errorBody ''Password required''), db w)) \<and>
                  (password \<noteq> [] \<longrightarrow>
                     (\<forall>detail. outage w SelectPosts = Some detail \<longrightarrow>
                        fetch cr env w rq = (send 500 (errorDetail ''Failed to verify'' detail), db w)) \<and>
                     (outage w SelectPosts = None \<longrightarrow>
                        (selectPost w ident = [] \<longrightarrow> fetch cr env w rq = (send 404 (errorBody ''Not found''), db w)) \<and>
                        (\<forall>p ps. selectPost w ident = p # ps \<longrightarrow>
                           (verifyPassword cr password p = Inr False \<longrightarrow>
                              fetch cr env w rq = (send 401 (errorBody ''Invalid password''), db w)) \<and>
                           (\<forall>e. verifyPassword cr password p = Inl e \<longrightarrow>
                              fetch cr env w rq = (send 500 (errorDetail ''Worker error'' e), db w))))))))) \<and>
   ((sr_method lrq = ''PUT'' \<or> sr_method lrq = ''DELETE'') \<longrightarrow>
    postMatch (sr_pathname lrq) = Some ident \<longrightarrow>
      (sr_body lrq = None \<longrightarrow>
          route nd cfg now s lrq = Inr (json_response 400 (errorBody ''Invalid JSON'') None, s)) \<and>
      (sr_body lrq = Some JNull \<longrightarrow> route nd cfg now s lrq = Inr (None, s)) \<and>
      (sr_method lrq = ''PUT'' \<longrightarrow> sr_body lrq = Some lbody \<longrightarrow> lbody \<noteq> JNull \<longrightarrow>
       trim (stringField lbody ''title'') = [] \<or> trim (stringField lbody ''content'') = [] \<longrightarrow>
          route nd cfg now s lrq = Inr (json_response 400 (errorBody ''Missing fields'') None, s)) \<and>
      (sr_body lrq = Some lbody \<longrightarrow> lbody \<noteq> JNull \<longrightarrow>
       (sr_method lrq = ''DELETE'' \<or> trim (stringField lbody ''title'') \<noteq> [] \<and> trim (stringField lbody ''content'') \<noteq> []) \<longrightarrow>
          (findIndex (\<lambda>p. sp_id p = ident) (data_posts s) = None \<longrightarrow>
             route nd cfg now s lrq = Inr (json_response 404 (errorBody ''Not found'') None, s)) \<and>
          (\<forall>idx. findIndex (\<lambda>p. sp_id p = ident) (data_posts s) = Some idx \<longrightarrow>
             (let password = stringField lbody ''password''; viewToken = stringField lbody ''viewToken'';
                   post = data_posts s ! idx
               in (\<forall>e. srv_isAdmin nd cfg s lrq = Inl e \<longrightarrow> route nd cfg now s lrq = Inl (e, s)) \<and>
                  (srv_isAdmin nd cfg s lrq = Inr False \<longrightarrow>
                     (\<exists>session. sessionOf nd cfg s lrq = Inr session \<and>
                        (\<not> sessionVerified session ident \<longrightarrow> \<not> sessionTokenOk session ident viewToken \<longrightarrow>
                           (password = [] \<longrightarrow>
                              route nd cfg now s lrq = Inr (Some (send 401 (errorBody ''Password required'')), s)) \<and>
                           (password \<noteq> [] \<longrightarrow>
                              (\<forall>e. srv_verifyPassword nd password (sp_password post) = Inl e \<longrightarrow>
                                 route nd cfg now s lrq = Inl (e, s)) \<and>
                              (srv_verifyPassword nd password (sp_password post) = Inr False \<longrightarrow>
                                 route nd cfg now s lrq = Inr (Some (send 401 (errorBody ''Invalid password'')), s)))))))))) \<and>
   send 401 (errorBody ''Password required'') \<noteq> send 401 (errorBody ''Invalid password'') \<and>
   send 404 (errorBody ''Not found'') \<noteq> send 401 (errorBody ''Invalid password'') \<and>
   send 404 (errorBody ''Not found'') \<noteq> send 401 (errorBody ''Password required'')"
  unfolding Let_def
  apply (intro conjI)
  subgoal
    apply (intro impI)
    apply (intro conjI)
    subgoal by (rule worker_invalid_json; assumption)
    subgoal by (rule worker_missing_fields; assumption)
    subgoal by (rule worker_rejection_branches; assumption)
    done
  subgoal
    apply (intro impI)
    apply (intro conjI)
    subgoal by (rule local_invalid_json; assumption)
    subgoal by (rule local_null_body; assumption)
    subgoal by (rule local_missing_fields; assumption)
    subgoal by (intro impI) (rule local_rejection_branches; assumption)
    done
  subgoal by (simp add: send_def errorBody_def)
  subgoal by (simp add: send_def errorBody_def)
  subgoal by (simp add: send_def errorBody_def)
  done


text \<open>The rejections of C3 on the demo store.\<close>

theorem rejections_by_branch_witness:
  "fetch plainPlatform demoEnv (demoWorld 0)
     \<lparr>rq_method = ''DELETE'', rq_pathname = ''/api/posts/p1'', rq_cookie = None,
      rq_body = Some (JObj [])\<rparr>
     = (send 401 (errorBody ''Password required''), db (demoWorld 0)) \<and>
   fetch plainPlatform demoEnv (demoWorld 0)
     \<lparr>rq_method = ''DELETE'', rq_pathname = ''/api/posts/p1'', rq_cookie = None,
      rq_body = Some (JObj [(''password'', JStr ''wrong'')])\<rparr>
     = (send 401 (errorBody ''Invalid password''), db (demoWorld 0)) \<and>
   fetch plainPlatform demoEnv (demoWorld 0)
     \<lparr>rq_method = ''DELETE'', rq_pathname = ''/api/posts/p1'', rq_cookie = malformedCookie,
      rq_body = Some (JObj [])\<rparr>
     = (send 500 (errorDetail ''Worker error'' ''URI malformed''), db (demoWorld 0)) \<and>
   fetch plainPlatform demoEnv (demoWorld 0)
     \<lparr>rq_method = ''PUT'', rq_pathname = ''/api/posts/p1'', rq_cookie = None,
      rq_body = Some (JObj [(''content'', JStr ''C'')])\<rparr>
     = (send 400 (errorBody ''Missing fields''), db (demoWorld 0)) \<and>
   route plainNode demoCfg 50 demoState
     \<lparr>sr_method = ''DELETE'', sr_pathname = ''/api/posts/nope'', sr_cookie = None,
      sr_body = Some (JObj [(''password'', JStr ''wrong'')])\<rparr>
     = Inr (json_response 404 (errorBody ''Not found'') None, demoState) \<and>
   route plainNode demoCfg 50 demoState
     \<lparr>sr_method = ''DELETE'', sr_pathname = ''/api/posts/p1'', sr_cookie = malformedCookie,
      sr_body = Some (JObj [])\<rparr>
     = Inl (''URI malformed'', demoState)"
proof -
  let ?b0 = "JObj []"
  let ?b3 = "JObj [(''password'', JStr ''wrong'')]"
  let ?b4 = "JObj [(''content'', JStr ''C'')]"
  let ?r0 = "\<lparr>rq_method = ''DELETE'', rq_pathname = ''/api/posts/p1'', rq_cookie = None,
      rq_body = Some ?b0\<rparr>"
  let ?r3 = "\<lparr>rq_method = ''DELETE'', rq_pathname = ''/api/posts/p1'', rq_cookie = None,
      rq_body = Some ?b3\<rparr>"
  let ?r4 = "\<lparr>rq_method = ''DELETE'', rq_pathname = ''/api/posts/p1'', rq_cookie = malformedCookie,
      rq_body = Some ?b0\<rparr>"
  let ?r5 = "\<lparr>rq_method = ''PUT'', rq_pathname = ''/api/posts/p1'', rq_cookie = None,
      rq_body = Some ?b4\<rparr>"
  let ?l = "\<lparr>sr_method = ''DELETE'', sr_pathname = ''/api/posts/nope'', sr_cookie = None,
      sr_body = Some ?b3\<rparr>"
  let ?m = "\<lparr>sr_method = ''DELETE'', sr_pathname = ''/api/posts/p1'', sr_cookie = malformedCookie,
      sr_body = Some ?b0\<rparr>"
  have 1: "fetch plainPlatform demoEnv (demoWorld 0) ?r0
      = (send 401 (errorBody ''Password required''), db (demoWorld 0))"
    using rejections_by_branch [where rq = ?r0 and ident = "''p1''" and body = ?b0
        and cr = plainPlatform and env = demoEnv and w = "demoWorld 0", THEN conjunct1]
    by (simp add: Let_def demo_postMatch demo_fields isAdmin_no_cookie no_token_not_authorized)
  have 2: "fetch plainPlatform demoEnv (demoWorld 0) ?r3
      = (send 401 (errorBody ''Invalid password''), db (demoWorld 0))"
    using rejections_by_branch [where rq = ?r3 and ident = "''p1''" and body = ?b3
        and cr = plainPlatform and env = demoEnv and w = "demoWorld 0", THEN conjunct1]
    by (simp add: Let_def demo_postMatch demo_fields isAdmin_no_cookie no_token_not_authorized
        demoWorld_simps demo_selectPost demo_verify)
  have 3: "fetch plainPlatform demoEnv (demoWorld 0) ?r4
      = (send 500 (errorDetail ''Worker error'' ''URI malformed''), db (demoWorld 0))"
    using rejections_by_branch [where rq = ?r4 and ident = "''p1''" and body = ?b0
        and cr = plainPlatform and env = demoEnv and w = "demoWorld 0", THEN conjunct1]
    by (simp add: Let_def demo_postMatch demo_fields demo_malformed)
  have 4: "fetch plainPlatform demoEnv (demoWorld 0) ?r5
      = (send 400 (errorBody ''Missing fields''), db (demoWorld 0))"
    using rejections_by_branch [where rq = ?r5 and ident = "''p1''" and body = ?b4
        and cr = plainPlatform and env = demoEnv and w = "demoWorld 0", THEN conjunct1]
    by (simp add: Let_def demo_postMatch demo_fields trim_def)
  have pm: "postMatch ''/api/posts/nope'' = Some ''nope''" by (simp add: postMatch_def)
  have 5: "route plainNode demoCfg 50 demoState ?l
      = Inr (json_response 404 (errorBody ''Not found'') None, demoState)"
    using rejections_by_branch [where lrq = ?l and ident = "''nope''" and lbody = ?b3
        and nd = plainNode and cfg = demoCfg and s = demoState and now = 50,
        THEN conjunct2, THEN conjunct1]
    by (simp add: Let_def pm demoState_def demoSrvPost_def)
  have 6: "route plainNode demoCfg 50 demoState ?m = Inl (''URI malformed'', demoState)"
    using rejections_by_branch [where lrq = ?m and ident = "''p1''" and lbody = ?b0
        and nd = plainNode and cfg = demoCfg and s = demoState and now = 50,
        THEN conjunct2, THEN conjunct1]
    by (simp add: Let_def demo_postMatch srv_malformed) (simp add: demoState_def demoSrvPost_def)
  from 1 2 3 4 5 6 show ?thesis by simp
qed


subsection \<open>The password fallback\<close>

lemma mutation_bodies:
  "''viewToken'' \<notin> set (keys_of (rs_body (fst (updatePost w ident title content))))"
  "''viewToken'' \<notin> set (keys_of (rs_body (fst (removePost w ident))))"
  by (simp_all add: updatePost_def removePost_def send_def okBody_def errorDetail_def
      split: option.splits)

lemma demo_patch:
  "patchPost (demoWorld t) ''p1'' title content =
     \<lparr>posts = [demoPost\<lparr>pr_title := title, pr_content := content, pr_updated_at := Some t\<rparr>],
      view_tokens = [demoViewRow], admin_sessions = [demoAdminRow]\<rparr>"
  by (simp add: patchPost_def demoWorld_def literalMatching_def idQuery_def demoPost_def)

text \<open>
  C2 (as stated): when the password verifies, a fresh view token is made, stored and
  returned. In the Worker a \<^verbatim>\<open>PUT\<close> by a caller who is not the admin, without view
  token and with the right password updates the post, answers \<^verbatim>\<open>{ok: true}\<close> and leaves
  the table of view tokens as it was.
\<close>

theorem password_put_counterexample:
  "isAdmin plainPlatform demoEnv (demoWorld 0)
       \<lparr>rq_method = ''PUT'', rq_pathname = ''/api/posts/p1'', rq_cookie = None,
        rq_body = Some (JObj [(''title'', JStr ''T''), (''content'', JStr ''C''),
                              (''password'', JStr ''swordfish'')])\<rparr> = Inr False \<and>
   verifyPassword plainPlatform ''swordfish'' demoPost = Inr True \<and>
   fetch plainPlatform demoEnv (demoWorld 0)
       \<lparr>rq_method = ''PUT'', rq_pathname = ''/api/posts/p1'', rq_cookie = None,
        rq_body = Some (JObj [(''title'', JStr ''T''), (''content'', JStr ''C''),
                              (''password'', JStr ''swordfish'')])\<rparr>
     = (\<lparr>rs_status = 200, rs_body = JObj [(''ok'', JBool True)], rs_set_cookie = None\<rparr>,
        \<lparr>posts = [demoPost\<lparr>pr_title := ''T'', pr_content := ''C'', pr_updated_at := Some 0\<rparr>],
         view_tokens = view_tokens (db (demoWorld 0)),
         admin_sessions = admin_sessions (db (demoWorld 0))\<rparr>)"
  by (simp add: fetch_def routes_def postMatch_def handlePutPost_def demo_fields
      authorizeMutation_def isAdmin_no_cookie no_token_not_authorized demo_passwordFallback
      demoWorld_simps demo_verify send_def okBody_def updatePost_def demo_patch)

text \<open>
  C2 (amended): when the caller is not the admin, the second check fails and the password
  verifies, the Worker runs the mutation, makes and stores no token, and a successful
  response is \<^verbatim>\<open>{ok: true}\<close>; the local server marks the post as unlocked in the session
  of the caller and stores a fresh random token for the post there (in a new session, with
  its signed cookie set, if the request had none), and its response is \<^verbatim>\<open>{ok: true}\<close>
  too: the token is not in the body.
\<close>

theorem password_fallback_effects:
  "(rq_method rq = ''PUT'' \<longrightarrow> postMatch (rq_pathname rq) = Some ident \<longrightarrow>
    truthyBody (rq_body rq) = Some body \<longrightarrow>
    trim (stringField body ''title'') \<noteq> [] \<longrightarrow> trim (stringField body ''content'') \<noteq> [] \<longrightarrow>
    isAdmin cr env w rq = Inr False \<longrightarrow>
    \<not> viewTokenAuthorized cr env w ident (stringField body ''viewToken'') \<longrightarrow>
    passwordFallback cr w ident (stringField body ''password'') = Inr None \<longrightarrow>
      fetch cr env w rq =
        updatePost w ident (trim (stringField body ''title'')) (trim (stringField body ''content'')) \<and>
      view_tokens (snd (fetch cr env w rq)) = view_tokens (db w) \<and>
      (rs_status (fst (fetch cr env w rq)) = 200 \<longrightarrow> rs_body (fst (fetch cr env w rq)) = okBody) \<and>
      ''viewToken'' \<notin> set (keys_of (rs_body (fst (fetch cr env w rq))))) \<and>
   (rq_method rq = ''DELETE'' \<longrightarrow> postMatch (rq_pathname rq) = Some ident \<longrightarrow>
    truthyBody (rq_body rq) = Some body \<longrightarrow>
    isAdmin cr env w rq = Inr False \<longrightarrow>
    \<not> viewTokenAuthorized cr env w ident (stringField body ''viewToken'') \<longrightarrow>
    passwordFallback cr w ident (stringField body ''password'') = Inr None \<longrightarrow>
      fetch cr env w rq = removePost w ident \<and>
      set (view_tokens (snd (fetch cr env w rq))) \<subseteq> set (view_tokens (db w)) \<and>
      (rs_status (fst (fetch cr env w rq)) = 200 \<longrightarrow> rs_body (fst (fetch cr env w rq)) = okBody) \<and>
      ''viewToken'' \<notin> set (keys_of (rs_body (fst (fetch cr env w rq))))) \<and>
   (sr_method lrq = ''PUT'' \<longrightarrow> postMatch (sr_pathname lrq) = Some ident \<longrightarrow>
    sr_body lrq = Some lbody \<longrightarrow> lbody \<noteq> JNull \<longrightarrow>
    trim (stringField lbody ''title'') \<noteq> [] \<longrightarrow> trim (stringField lbody ''content'') \<noteq> [] \<longrightarrow>
    findIndex (\<lambda>p. sp_id p = ident) (data_posts s) = Some idx \<longrightarrow>
    srv_isAdmin nd cfg s lrq = Inr False \<longrightarrow> sessionOf nd cfg s lrq = Inr session \<longrightarrow>
    \<not> sessionVerified session ident \<longrightarrow>
    \<not> sessionTokenOk session ident (stringField lbody ''viewToken'') \<longrightarrow>
    stringField lbody ''password'' \<noteq> [] \<longrightarrow>
    srv_verifyPassword nd (stringField lbody ''password'') (sp_password (data_posts s ! idx)) = Inr True \<longrightarrow>
    getOrCreateSession nd cfg now (sessions s) lrq = Inr (sid, ensured, ck, sess, used) \<longrightarrow>
      route nd cfg now s lrq =
        Inr (srv_updatePost now s idx (trim (stringField lbody ''title''))
               (trim (stringField lbody ''content'')) ck
               (sess(sid \<mapsto> unlock ensured ident (node_randomUUID nd used) now)))) \<and>
   (sr_method lrq = ''DELETE'' \<longrightarrow> postMatch (sr_pathname lrq) = Some ident \<longrightarrow>
    sr_body lrq = Some lbody \<longrightarrow> lbody \<noteq> JNull \<longrightarrow>
    findIndex (\<lambda>p. sp_id p = ident) (data_posts s) = Some idx \<longrightarrow>
    srv_isAdmin nd cfg s lrq = Inr False \<longrightarrow> sessionOf nd cfg s lrq = Inr session \<longrightarrow>
    \<not> sessionVerified session ident \<longrightarrow>
    \<not> sessionTokenOk session ident (stringField lbody ''viewToken'') \<longrightarrow>
    stringField lbody ''password'' \<noteq> [] \<longrightarrow>
    srv_verifyPassword nd (stringField lbody ''password'') (sp_password (data_posts s ! idx)) = Inr True \<longrightarrow>
    getOrCreateSession nd cfg now (sessions s) lrq = Inr (sid, ensured, ck, sess, used) \<longrightarrow>
      route nd cfg now s lrq =
        Inr (srv_removePost s idx ck
               (sess(sid \<mapsto> unlock ensured ident (node_randomUUID nd used) now)))) \<and>
   fst (srv_updatePost now s idx title content ck' sess') =
     Some \<lparr>rs_status = 200, rs_body = okBody, rs_set_cookie = ck'\<rparr> \<and>
   sessions (snd (srv_updatePost now s idx title content ck' sess')) = sess' \<and>
   fst (srv_removePost s idx ck' sess') =
     Some \<lparr>rs_status = 200, rs_body = okBody, rs_set_cookie = ck'\<rparr> \<and>
   sessions (snd (srv_removePost s idx ck' sess')) = sess' \<and>
   ident \<in> ss_verified (unlock e ident tok now) \<and>
   ss_tokens (unlock e ident tok now) ident = Some \<lparr>tk_token = tok, tk_createdAt = now\<rparr> \<and>
   keys_of okBody = [''ok'']"
proof (intro conjI impI)
  assume m: "rq_method rq = ''PUT''" "postMatch (rq_pathname rq) = Some ident"
    "truthyBody (rq_body rq) = Some body"
    "trim (stringField body ''title'') \<noteq> []" "trim (stringField body ''content'') \<noteq> []"
    and a: "isAdmin cr env w rq = Inr False"
      "\<not> viewTokenAuthorized cr env w ident (stringField body ''viewToken'')"
      "passwordFallback cr w ident (stringField body ''password'') = Inr None"
  from worker_put_order [OF m, of cr env w] a
  show f: "fetch cr env w rq =
      updatePost w ident (trim (stringField body ''title'')) (trim (stringField body ''content''))"
    by blast
  from updatePost_tokens [of w ident]
  show "view_tokens (snd (fetch cr env w rq)) = view_tokens (db w)" by (simp add: f)
  {
    assume "rs_status (fst (fetch cr env w rq)) = 200"
    with updatePost_tokens [of w ident] show "rs_body (fst (fetch cr env w rq)) = okBody"
      by (simp add: f)
  }
  from mutation_bodies(1) show "''viewToken'' \<notin> set (keys_of (rs_body (fst (fetch cr env w rq))))"
    by (simp add: f)
next
  assume m: "rq_method rq = ''DELETE''" "postMatch (rq_pathname rq) = Some ident"
    "truthyBody (rq_body rq) = Some body"
    and a: "isAdmin cr env w rq = Inr False"
      "\<not> viewTokenAuthorized cr env w ident (stringField body ''viewToken'')"
      "passwordFallback cr w ident (stringField body ''password'') = Inr None"
  from worker_delete_order [OF m, of cr env w] a
  show f: "fetch cr env w rq = removePost w ident" by blast
  from removePost_tokens [of w ident]
  show "set (view_tokens (snd (fetch cr env w rq))) \<subseteq> set (view_tokens (db w))" by (simp add: f)
  {
    assume "rs_status (fst (fetch cr env w rq)) = 200"
    with removePost_tokens [of w ident] show "rs_body (fst (fetch cr env w rq)) = okBody"
      by (simp add: f)
  }
  from mutation_bodies(2) show "''viewToken'' \<notin> set (keys_of (rs_body (fst (fetch cr env w rq))))"
    by (simp add: f)
next
  assume a: "sr_method lrq = ''PUT''" "postMatch (sr_pathname lrq) = Some ident"
    "sr_body lrq = Some lbody" "lbody \<noteq> JNull"
    "trim (stringField lbody ''title'') \<noteq> []" "trim (stringField lbody ''content'') \<noteq> []"
    "findIndex (\<lambda>p. sp_id p = ident) (data_posts s) = Some idx"
    and v: "srv_isAdmin nd cfg s lrq = Inr False" "sessionOf nd cfg s lrq = Inr session"
    "\<not> sessionVerified session ident"
    "\<not> sessionTokenOk session ident (stringField lbody ''viewToken'')"
    "stringField lbody ''password'' \<noteq> []"
    "srv_verifyPassword nd (stringField lbody ''password'') (sp_password (data_posts s ! idx)) = Inr True"
    "getOrCreateSession nd cfg now (sessions s) lrq = Inr (sid, ensured, ck, sess, used)"
  from v show "route nd cfg now s lrq =
        Inr (srv_updatePost now s idx (trim (stringField lbody ''title''))
               (trim (stringField lbody ''content'')) ck
               (sess(sid \<mapsto> unlock ensured ident (node_randomUUID nd used) now)))"
    by (simp add: route_put_valid [OF a] srv_authorizeMutation_def srv_passwordFallback_def)
next
  assume a: "sr_method lrq = ''DELETE''" "postMatch (sr_pathname lrq) = Some ident"
    "sr_body lrq = Some lbody" "lbody \<noteq> JNull"
    "findIndex (\<lambda>p. sp_id p = ident) (data_posts s) = Some idx"
    and v: "srv_isAdmin nd cfg s lrq = Inr False" "sessionOf nd cfg s lrq = Inr session"
    "\<not> sessionVerified session ident"
    "\<not> sessionTokenOk session ident (stringField lbody ''viewToken'')"
    "stringField lbody ''password'' \<noteq> []"
    "srv_verifyPassword nd (stringField lbody ''password'') (sp_password (data_posts s ! idx)) = Inr True"
    "getOrCreateSession nd cfg now (sessions s) lrq = Inr (sid, ensured, ck, sess, used)"
  from v show "route nd cfg now s lrq =
        Inr (srv_removePost s idx ck
               (sess(sid \<mapsto> unlock ensured ident (node_randomUUID nd used) now)))"
    by (simp add: route_delete_valid [OF a] srv_authorizeMutation_def srv_passwordFallback_def)
next
  show "fst (srv_updatePost now s idx title content ck' sess') =
     Some \<lparr>rs_status = 200, rs_body = okBody, rs_set_cookie = ck'\<rparr>"
    "sessions (snd (srv_updatePost now s idx title content ck' sess')) = sess'"
    "fst (srv_removePost s idx ck' sess') =
     Some \<lparr>rs_status = 200, rs_body = okBody, rs_set_cookie = ck'\<rparr>"
    "sessions (snd (srv_removePost s idx ck' sess')) = sess'"
    "ident \<in> ss_verified (unlock e ident tok now)"
    "ss_tokens (unlock e ident tok now) ident = Some \<lparr>tk_token = tok, tk_createdAt = now\<rparr>"
    "keys_of okBody = [''ok'']"
    by (simp_all add: srv_updatePost_def srv_removePost_def json_response_def unlock_def okBody_def)
qed

text \<open>The password fallback of C2 on the demo store, in the Worker and in the local server.\<close>

theorem password_fallback_effects_witness:
  "fetch plainPlatform demoEnv (demoWorld 0)
     \<lparr>rq_method = ''DELETE'', rq_pathname = ''/api/posts/p1'', rq_cookie = None,
      rq_body = Some (JObj [(''password'', JStr ''swordfish'')])\<rparr>
     = removePost (demoWorld 0) ''p1'' \<and>
   route plainNode demoCfg 50 freshState
     \<lparr>sr_method = ''DELETE'', sr_pathname = ''/api/posts/p1'', sr_cookie = None,
      sr_body = Some (JObj [(''password'', JStr ''swordfish'')])\<rparr>
     = Inr (srv_removePost freshState 0
              (Some (setCookie ''woldecks.sid'' (sign plainNode demoCfg ''uuid-0'') False))
              ((sessions freshState)(''uuid-0'' \<mapsto> unlock (newSession 50) ''p1'' ''uuid-1'' 50)))"
proof -
  let ?b = "JObj [(''password'', JStr ''swordfish'')]"
  let ?r = "\<lparr>rq_method = ''DELETE'', rq_pathname = ''/api/posts/p1'', rq_cookie = None,
      rq_body = Some ?b\<rparr>"
  let ?l = "\<lparr>sr_method = ''DELETE'', sr_pathname = ''/api/posts/p1'', sr_cookie = None,
      sr_body = Some ?b\<rparr>"
  have 1: "fetch plainPlatform demoEnv (demoWorld 0) ?r = removePost (demoWorld 0) ''p1''"
    using password_fallback_effects [where rq = ?r and ident = "''p1''" and body = ?b
        and cr = plainPlatform and env = demoEnv and w = "demoWorld 0", THEN conjunct2, THEN conjunct1]
    by (simp add: Let_def demo_postMatch demo_fields isAdmin_no_cookie no_token_not_authorized
        demo_passwordFallback)
  have c: "sr_cookie ?l = None" by simp
  have g: "getOrCreateSession plainNode demoCfg 50 (sessions freshState) ?l =
      Inr (''uuid-0'', newSession 50,
           Some (setCookie ''woldecks.sid'' (sign plainNode demoCfg ''uuid-0'') False),
           (sessions freshState)(''uuid-0'' \<mapsto> newSession 50), 1)"
    by (simp add: srv_no_cookie(3) [OF c] plainNode_def plainUUID_def)
  have u: "node_randomUUID plainNode 1 = ''uuid-1''" by (simp add: plainNode_def plainUUID_def)
  have i: "findIndex (\<lambda>p. sp_id p = ''p1'') (data_posts freshState) = Some 0"
    "data_posts freshState ! 0 = demoSrvPost"
    by (simp_all add: freshState_def demoSrvPost_def)
  have 2: "route plainNode demoCfg 50 freshState ?l
     = Inr (srv_removePost freshState 0
              (Some (setCookie ''woldecks.sid'' (sign plainNode demoCfg ''uuid-0'') False))
              ((sessions freshState)(''uuid-0'' \<mapsto> unlock (newSession 50) ''p1'' ''uuid-1'' 50)))"
    using password_fallback_effects [where lrq = ?l and ident = "''p1''" and lbody = ?b
        and nd = plainNode and cfg = demoCfg and s = freshState and idx = 0 and now = 50
        and session = None
        and sid = "''uuid-0''" and ensured = "newSession 50"
        and ck = "Some (setCookie ''woldecks.sid'' (sign plainNode demoCfg ''uuid-0'') False)"
        and sess = "(sessions freshState)(''uuid-0'' \<mapsto> newSession 50)" and used = 1,
        THEN conjunct2, THEN conjunct2, THEN conjunct2, THEN conjunct1] g u demo_srv_verify i
      srv_no_cookie(1,2) [OF c, of plainNode demoCfg freshState]
    by (simp add: Let_def demo_postMatch demo_fields sessionVerified_def sessionTokenOk_def)
  from 1 2 show ?thesis by simp
qed


subsection \<open>Malformed stored parameters\<close>

lemma routes_list:
  "rq_method rq = ''GET'' \<Longrightarrow> rq_pathname rq = ''/api/posts'' \<Longrightarrow>
   routes cr env w rq = handleListPosts w"
  by (simp add: routes_def)

lemma routes_get:
  assumes "rq_method rq = ''GET''" "postMatch (rq_pathname rq) = Some ident"
  shows "routes cr env w rq = handleGetPost cr env w rq ident"
proof -
  from assms(2) have "rq_pathname rq = ''/api/posts/'' @ ident" by (simp add: postMatch_Some)
  then have "rq_pathname rq \<noteq> ''/api/admin/me''" "rq_pathname rq \<noteq> ''/api/posts''" by auto
  with assms show ?thesis by (simp add: routes_def)
qed

lemma routes_view:
  assumes "rq_method rq = ''POST''" "viewMatch (rq_pathname rq) = Some ident"
  shows "routes cr env w rq = handleViewPost cr env w rq ident"
proof -
  from assms(2) have "rq_pathname rq = ''/api/posts/'' @ ident @ ''/view''"
    by (simp add: viewMatch_Some)
  then have "rq_pathname rq \<noteq> ''/api/admin/login''" "rq_pathname rq \<noteq> ''/api/admin/logout''"
    "rq_pathname rq \<noteq> ''/api/posts''" by auto
  with assms show ?thesis by (simp add: routes_def)
qed

lemma route_list:
  "sr_method rq = ''GET'' \<Longrightarrow> sr_pathname rq = ''/api/posts'' \<Longrightarrow>
   route nd cfg now s rq = srv_handleListPosts s"
  by (simp add: route.simps)

lemma route_get:
  assumes "sr_method rq = ''GET''" "postMatch (sr_pathname rq) = Some ident"
  shows "route nd cfg now s rq = srv_handleGetPost nd cfg s rq ident"
proof -
  from assms(2) have "sr_pathname rq = ''/api/posts/'' @ ident" by (simp add: postMatch_Some)
  then have "sr_pathname rq \<noteq> ''/api/admin/me''" "sr_pathname rq \<noteq> ''/api/posts''" by auto
  with assms show ?thesis by (simp add: route.simps)
qed

lemma route_redirected:
  assumes "sr_method rq = ''POST''" "viewMatch (sr_pathname rq) = Some ident"
  shows "route nd cfg now s (rq\<lparr>sr_pathname := ''/api/posts/'' @ ident\<rparr>) = Inr (None, s)"
proof -
  let ?rq = "rq\<lparr>sr_pathname := ''/api/posts/'' @ ident\<rparr>"
  have "sr_pathname ?rq \<noteq> ''/api/admin/login''" "sr_pathname ?rq \<noteq> ''/api/admin/logout''"
    "sr_pathname ?rq \<noteq> ''/api/posts''" "sr_method ?rq = ''POST''"
    "viewMatch (sr_pathname ?rq) = None"
    using assms viewMatch_redirect [OF assms(2)] by auto
  then show ?thesis by (subst route.simps) simp
qed

lemma route_view:
  assumes "sr_method rq = ''POST''" "viewMatch (sr_pathname rq) = Some ident"
  shows "route nd cfg now s rq =
           (case srv_isAdmin nd cfg s rq of
              Inl e \<Rightarrow> Inl (e, s)
            | Inr admin \<Rightarrow>
                if admin then Inr (None, s) else srv_handleViewPost nd cfg now s rq ident)"
proof -
  from assms(2) have "sr_pathname rq = ''/api/posts/'' @ ident @ ''/view''"
    by (simp add: viewMatch_Some)
  then have "sr_pathname rq \<noteq> ''/api/admin/login''" "sr_pathname rq \<noteq> ''/api/admin/logout''"
    "sr_pathname rq \<noteq> ''/api/posts''" by auto
  with assms route_redirected [OF assms, of nd cfg now s] show ?thesis
    by (subst route.simps) (simp split: sum.splits)
qed









subsection \<open>The bodies of the public responses\<close>

lemma makeToken_fields:
  "td_token (makeToken cr uuid src pepper) = uuid"
  "td_salt (makeToken cr uuid src pepper) = bytesToHex (map src [0..<16])"
  by (simp_all add: makeToken_def Let_def getRandomValues_16)

lemma mappers:
  "postSummaryJson p =
     JObj [(''id'', JStr (pr_id p)), (''title'', JStr (pr_title p)), (''author'', JStr (pr_author p)),
           (''createdAt'', JNum (int (pr_created_at p))),
           (''updatedAt'', (case pr_updated_at p of None \<Rightarrow> JNull | Some t \<Rightarrow> JNum (int t)))]"
  "postJson p =
     JObj [(''id'', JStr (pr_id p)), (''title'', JStr (pr_title p)), (''author'', JStr (pr_author p)),
           (''content'', JStr (pr_content p)),
           (''createdAt'', JNum (int (pr_created_at p))),
           (''updatedAt'', (case pr_updated_at p of None \<Rightarrow> JNull | Some t \<Rightarrow> JNum (int t)))]"
  "srv_postSummaryJson q =
     JObj [(''id'', JStr (sp_id q)), (''title'', JStr (sp_title q)), (''author'', JStr (sp_author q)),
           (''createdAt'', JNum (int (sp_createdAt q))),
           (''updatedAt'', (case sp_updatedAt q of None \<Rightarrow> JNull | Some t \<Rightarrow> JNum (int t)))]"
  "srv_postJson q =
     JObj [(''id'', JStr (sp_id q)), (''title'', JStr (sp_title q)), (''author'', JStr (sp_author q)),
           (''content'', JStr (sp_content q)),
           (''createdAt'', JNum (int (sp_createdAt q))),
           (''updatedAt'', (case sp_updatedAt q of None \<Rightarrow> JNull | Some t \<Rightarrow> JNum (int t)))]"
  by (simp_all add: postSummaryJson_def postJson_def srv_postSummaryJson_def srv_postJson_def
      instantJson_def)

lemma worker_list_body:
  assumes "rq_method rq = ''GET''" "rq_pathname rq = ''/api/posts''"
    and "rs_status (fst (fetch cr env w rq)) = 200"
  shows "rs_body (fst (fetch cr env w rq)) =
      JObj [(''posts'', JArr (map postSummaryJson (rev (sort_key pr_created_at (posts (db w))))))]"
  using assms
  by (auto simp: fetch_def routes_list handleListPosts_def send_def split: option.splits)

lemma loadPost_body:
  assumes "loadPost w ident = Inr (r, d)" "rs_status r = 200"
  shows "\<exists>p ps. selectPost w ident = p # ps \<and> rs_body r = JObj [(''post'', postJson p)]"
  using assms
  by (auto simp: loadPost_def send_def split: option.splits list.splits)

lemma worker_get_body:
  assumes "rq_method rq = ''GET''" "postMatch (rq_pathname rq) = Some ident"
    and ok: "rs_status (fst (fetch cr env w rq)) = 200"
  shows "isAdmin cr env w rq = Inr True \<and>
    (\<exists>p ps. selectPost w ident = p # ps \<and>
       rs_body (fst (fetch cr env w rq)) = JObj [(''post'', postJson p)])"
proof -
  have f: "fetch cr env w rq =
      (case handleGetPost cr env w rq ident of
         Inl message \<Rightarrow> (send 500 (errorDetail ''Worker error'' message), db w)
       | Inr result \<Rightarrow> result)"
    using assms(1) by (simp add: fetch_def routes_get [OF assms(1,2)])
  show ?thesis
  proof (cases "isAdmin cr env w rq")
    case (Inl e)
    with f ok show ?thesis by (simp add: handleGetPost_def send_def)
  next
    case (Inr admin)
    show ?thesis
    proof (cases admin)
      case False
      with Inr f ok show ?thesis by (simp add: handleGetPost_def send_def)
    next
      case True
      with Inr f have g: "fetch cr env w rq =
          (case loadPost w ident of
             Inl message \<Rightarrow> (send 500 (errorDetail ''Worker error'' message), db w)
           | Inr result \<Rightarrow> result)"
        by (simp add: handleGetPost_def)
      show ?thesis
      proof (cases "loadPost w ident")
        case (Inl e)
        with g ok show ?thesis by (simp add: send_def)
      next
        case (Inr res)
        obtain r d where "res = (r, d)" by (cases res)
        with Inr g ok loadPost_body [of w ident r d] True \<open>isAdmin cr env w rq = Inr admin\<close>
        show ?thesis by simp
      qed
    qed
  qed
qed

lemma viewWithPassword_body:
  assumes "viewWithPassword cr env w rq ident = Inr (r, d)" "rs_status r = 200"
  shows "\<exists>p ps. selectPost w ident = p # ps \<and>
     rs_body r = JObj [(''post'', postJson p),
        (''viewToken'', JStr (randomUUID w @ ''.'' @ bytesToHex (map (randomValues w) [0..<16])))]"
  using assms
  by (auto simp: viewWithPassword_def Let_def send_def makeToken_fields
      split: option.splits list.splits sum.splits if_splits)

lemma worker_view_body:
  assumes "rq_method rq = ''POST''" "viewMatch (rq_pathname rq) = Some ident"
    and ok: "rs_status (fst (fetch cr env w rq)) = 200"
  shows "\<exists>p ps. selectPost w ident = p # ps \<and>
    rs_body (fst (fetch cr env w rq)) =
      (if isAdmin cr env w rq = Inr True then JObj [(''post'', postJson p)]
       else JObj [(''post'', postJson p),
          (''viewToken'', JStr (randomUUID w @ ''.'' @ bytesToHex (map (randomValues w) [0..<16])))])"
proof -
  have f: "fetch cr env w rq =
      (case handleViewPost cr env w rq ident of
         Inl message \<Rightarrow> (send 500 (errorDetail ''Worker error'' message), db w)
       | Inr result \<Rightarrow> result)"
    using assms(1) by (simp add: fetch_def routes_view [OF assms(1,2)])
  show ?thesis
  proof (cases "isAdmin cr env w rq")
    case (Inl e)
    with f ok show ?thesis by (simp add: handleViewPost_def send_def)
  next
    case (Inr admin)
    define h where "h = (if admin then loadPost w ident else viewWithPassword cr env w rq ident)"
    from Inr f have g: "fetch cr env w rq =
        (case h of
           Inl message \<Rightarrow> (send 500 (errorDetail ''Worker error'' message), db w)
         | Inr result \<Rightarrow> result)"
      by (simp add: handleViewPost_def h_def)
    show ?thesis
    proof (cases h)
      case (Inl e)
      with g ok show ?thesis by (simp add: send_def)
    next
      case (Inr res)
      obtain r d where res: "res = (r, d)" by (cases res)
      with Inr g ok have r: "fetch cr env w rq = (r, d)" "rs_status r = 200" by simp_all
      show ?thesis
      proof (cases admin)
        case True
        with Inr res have "loadPost w ident = Inr (r, d)" by (simp add: h_def)
        from loadPost_body [OF this r(2)] r(1) True \<open>isAdmin cr env w rq = Inr admin\<close>
        show ?thesis by simp
      next
        case False
        with Inr res have "viewWithPassword cr env w rq ident = Inr (r, d)" by (simp add: h_def)
        from viewWithPassword_body [OF this r(2)] r(1) False \<open>isAdmin cr env w rq = Inr admin\<close>
        show ?thesis by simp
      qed
    qed
  qed
qed

lemma local_list_body:
  assumes "sr_method lrq = ''GET''" "sr_pathname lrq = ''/api/posts''"
  shows "route nd cfg now s lrq =
      Inr (Some \<lparr>rs_status = 200,
        rs_body = JObj [(''posts'',
           JArr (map srv_postSummaryJson (rev (sort_key sp_createdAt (data_posts s)))))],
        rs_set_cookie = None\<rparr>, s)"
  by (simp add: route_list [OF assms] srv_handleListPosts_def json_response_def)

lemma local_get_body:
  assumes "sr_method lrq = ''GET''" "postMatch (sr_pathname lrq) = Some ident"
    and "route nd cfg now s lrq = Inr (Some r, s')" "rs_status r = 200"
  shows "srv_isAdmin nd cfg s lrq = Inr True \<and>
    (\<exists>q. find (\<lambda>p. sp_id p = ident) (data_posts s) = Some q \<and>
       rs_body r = JObj [(''post'', srv_postJson q)])"
  using assms(3,4)
  by (auto simp: route_get [OF assms(1,2)] srv_handleGetPost_def json_response_def
      split: sum.splits if_splits option.splits)

lemma local_view_body:
  assumes "sr_method lrq = ''POST''" "viewMatch (sr_pathname lrq) = Some ident"
    and "route nd cfg now s lrq = Inr (Some r, s')" "rs_status r = 200"
  shows "srv_isAdmin nd cfg s lrq = Inr False \<and>
    (\<exists>q sid session ck sess used.
       find (\<lambda>p. sp_id p = ident) (data_posts s) = Some q \<and>
       getOrCreateSession nd cfg now (sessions s) lrq = Inr (sid, session, ck, sess, used) \<and>
       rs_body r = JObj [(''post'', srv_postJson q), (''viewToken'', JStr (node_randomUUID nd used))])"
proof (cases "srv_isAdmin nd cfg s lrq")
  case (Inl e)
  with assms(3) show ?thesis by (simp add: route_view [OF assms(1,2)])
next
  case (Inr admin)
  show ?thesis
  proof (cases admin)
    case True
    with Inr assms(3) show ?thesis by (simp add: route_view [OF assms(1,2)])
  next
    case False
    with Inr assms(3) have "srv_handleViewPost nd cfg now s lrq ident = Inr (Some r, s')"
      by (simp add: route_view [OF assms(1,2)])
    with assms(4) False Inr show ?thesis
      by (auto simp: srv_handleViewPost_def Let_def json_response_def
          split: option.splits sum.splits if_splits prod.splits)
  qed
qed

text \<open>
  C10: in both implementations the body of every successful response of the public post
  endpoints is made of a stored post by the two mappers alone. \<^verbatim>\<open>GET /api/posts\<close>
  answers the summaries of the stored posts, newest first, each with the fields \<^verbatim>\<open>id\<close>,
  \<^verbatim>\<open>title\<close>, \<^verbatim>\<open>author\<close>, \<^verbatim>\<open>createdAt\<close> and \<^verbatim>\<open>updatedAt\<close>. \<^verbatim>\<open>GET /api/posts/{id}\<close>
  answers, to the admin only, the post with these fields and \<^verbatim>\<open>content\<close>. The view
  answers the same post, and to a caller who is not the admin also \<^verbatim>\<open>viewToken\<close>, whose
  value is made of fresh randomness only: in the Worker a UUID, a dot and the hex of 16
  random bytes, in the local server a UUID. The last four equations give the two mappers of
  each implementation in full: the values are the id, the title, the author, the content
  and the two instants of the post, and no field of its credential record is read.
\<close>

theorem public_bodies_without_credentials:
  "(rq_method rq = ''GET'' \<longrightarrow> rq_pathname rq = ''/api/posts'' \<longrightarrow>
    rs_status (fst (fetch cr env w rq)) = 200 \<longrightarrow>
      rs_body (fst (fetch cr env w rq)) =
        JObj [(''posts'', JArr (map postSummaryJson (rev (sort_key pr_created_at (posts (db w))))))]) \<and>
   (rq_method rq = ''GET'' \<longrightarrow> postMatch (rq_pathname rq) = Some ident \<longrightarrow>
    rs_status (fst (fetch cr env w rq)) = 200 \<longrightarrow>
      isAdmin cr env w rq = Inr True \<and>
      (\<exists>p ps. selectPost w ident = p # ps \<and>
         rs_body (fst (fetch cr env w rq)) = JObj [(''post'', postJson p)])) \<and>
   (rq_method rq = ''POST'' \<longrightarrow> viewMatch (rq_pathname rq) = Some ident \<longrightarrow>
    rs_status (fst (fetch cr env w rq)) = 200 \<longrightarrow>
      (\<exists>p ps. selectPost w ident = p # ps \<and>
         rs_body (fst (fetch cr env w rq)) =
           (if isAdmin cr env w rq = Inr True then JObj [(''post'', postJson p)]
            else JObj [(''post'', postJson p),
               (''viewToken'',
                JStr (randomUUID w @ ''.'' @ bytesToHex (map (randomValues w) [0..<16])))]))) \<and>
   (sr_method lrq = ''GET'' \<longrightarrow> sr_pathname lrq = ''/api/posts'' \<longrightarrow>
      route nd cfg now s lrq =
        Inr (Some \<lparr>rs_status = 200,
          rs_body = JObj [(''posts'',
             JArr (map srv_postSummaryJson (rev (sort_key sp_createdAt (data_posts s)))))],
          rs_set_cookie = None\<rparr>, s)) \<and>
   (sr_method lrq = ''GET'' \<longrightarrow> postMatch (sr_pathname lrq) = Some ident \<longrightarrow>
    route nd cfg now s lrq = Inr (Some r, s') \<longrightarrow> rs_status r = 200 \<longrightarrow>
      srv_isAdmin nd cfg s lrq = Inr True \<and>
      (\<exists>q. find (\<lambda>p. sp_id p = ident) (data_posts s) = Some q \<and>
         rs_body r = JObj [(''post'', srv_postJson q)])) \<and>
   (sr_method lrq = ''POST'' \<longrightarrow> viewMatch (sr_pathname lrq) = Some ident \<longrightarrow>
    route nd cfg now s lrq = Inr (Some r, s') \<longrightarrow> rs_status r = 200 \<longrightarrow>
      srv_isAdmin nd cfg s lrq = Inr False \<and>
      (\<exists>q sid session ck sess used.
         find (\<lambda>p. sp_id p = ident) (data_posts s) = Some q \<and>
         getOrCreateSession nd cfg now (sessions s) lrq = Inr (sid, session, ck, sess, used) \<and>
         rs_body r =
           JObj [(''post'', srv_postJson q), (''viewToken'', JStr (node_randomUUID nd used))])) \<and>
   postSummaryJson row =
     JObj [(''id'', JStr (pr_id row)), (''title'', JStr (pr_title row)), (''author'', JStr (pr_author row)),
           (''createdAt'', JNum (int (pr_created_at row))),
           (''updatedAt'', (case pr_updated_at row of None \<Rightarrow> JNull | Some t \<Rightarrow> JNum (int t)))] \<and>
   postJson row =
     JObj [(''id'', JStr (pr_id row)), (''title'', JStr (pr_title row)), (''author'', JStr (pr_author row)),
           (''content'', JStr (pr_content row)),
           (''createdAt'', JNum (int (pr_created_at row))),
           (''updatedAt'', (case pr_updated_at row of None \<Rightarrow> JNull | Some t \<Rightarrow> JNum (int t)))] \<and>
   srv_postSummaryJson item =
     JObj [(''id'', JStr (sp_id item)), (''title'', JStr (sp_title item)), (''author'', JStr (sp_author item)),
           (''createdAt'', JNum (int (sp_createdAt item))),
           (''updatedAt'', (case sp_updatedAt item of None \<Rightarrow> JNull | Some t \<Rightarrow> JNum (int t)))] \<and>
   srv_postJson item =
     JObj [(''id'', JStr (sp_id item)), (''title'', JStr (sp_title item)), (''author'', JStr (sp_author item)),
           (''content'', JStr (sp_content item)),
           (''createdAt'', JNum (int (sp_createdAt item))),
           (''updatedAt'', (case sp_updatedAt item of None \<Rightarrow> JNull | Some t \<Rightarrow> JNum (int t)))]"
  apply (intro conjI)
  subgoal by (intro impI) (rule worker_list_body; assumption)
  subgoal by (intro impI) (rule worker_get_body; assumption)
  subgoal by (intro impI) (rule worker_view_body; assumption)
  subgoal by (intro impI) (rule local_list_body; assumption)
  subgoal by (intro impI) (rule local_get_body; assumption)
  subgoal by (intro impI) (rule local_view_body; assumption)
  subgoal by (rule mappers)
  subgoal by (rule mappers)
  subgoal by (rule mappers)
  subgoal by (rule mappers)
  done

text \<open>
  The three endpoints on the demo store of each implementation: the list, the read of the
  admin and the view of a visitor with the password.
\<close>

theorem public_bodies_without_credentials_witness:
  "rs_body (fst (fetch plainPlatform demoEnv (demoWorld 0)
      \<lparr>rq_method = ''GET'', rq_pathname = ''/api/posts'', rq_cookie = None, rq_body = None\<rparr>)) =
     JObj [(''posts'', JArr [postSummaryJson demoPost])] \<and>
   rs_body (fst (fetch plainPlatform demoEnv (demoWorld 0)
      \<lparr>rq_method = ''GET'', rq_pathname = ''/api/posts/p1'', rq_cookie = adminCookie,
       rq_body = None\<rparr>)) =
     JObj [(''post'', postJson demoPost)] \<and>
   rs_body (fst (fetch plainPlatform demoEnv (demoWorld 0)
      \<lparr>rq_method = ''POST'', rq_pathname = ''/api/posts/p1/view'', rq_cookie = None,
       rq_body = Some (JObj [(''password'', JStr ''swordfish'')])\<rparr>)) =
     JObj [(''post'', postJson demoPost),
           (''viewToken'', JStr ''uuid-9.09090909090909090909090909090909'')] \<and>
   route plainNode demoCfg 10 demoState
      \<lparr>sr_method = ''GET'', sr_pathname = ''/api/posts'', sr_cookie = None, sr_body = None\<rparr> =
     Inr (Some \<lparr>rs_status = 200, rs_body = JObj [(''posts'', JArr [srv_postSummaryJson demoSrvPost])],
                rs_set_cookie = None\<rparr>, demoState) \<and>
   route plainNode demoCfg 10 demoState
      \<lparr>sr_method = ''GET'', sr_pathname = ''/api/posts/p1'',
       sr_cookie = Some ''woldecks.admin=uuid-0.secretuuid-0'', sr_body = None\<rparr> =
     Inr (Some \<lparr>rs_status = 200, rs_body = JObj [(''post'', srv_postJson demoSrvPost)],
                rs_set_cookie = None\<rparr>, demoState) \<and>
   (\<exists>r s'. route plainNode demoCfg 10 freshState
      \<lparr>sr_method = ''POST'', sr_pathname = ''/api/posts/p1/view'', sr_cookie = None,
       sr_body = Some (JObj [(''password'', JStr ''swordfish'')])\<rparr> = Inr (Some r, s') \<and>
      rs_status r = 200 \<and>
      rs_body r = JObj [(''post'', srv_postJson demoSrvPost), (''viewToken'', JStr ''uuid-1'')]) \<and>
   postJson demoPost =
     JObj [(''id'', JStr ''p1''), (''title'', JStr ''Hello''), (''author'', JStr ''Ann''),
           (''content'', JStr ''First post''), (''createdAt'', JNum 100), (''updatedAt'', JNull)]"
proof -
  let ?l = "\<lparr>rq_method = ''GET'', rq_pathname = ''/api/posts'', rq_cookie = None, rq_body = None\<rparr>"
  let ?g = "\<lparr>rq_method = ''GET'', rq_pathname = ''/api/posts/p1'', rq_cookie = adminCookie,
       rq_body = None\<rparr>"
  let ?v = "\<lparr>rq_method = ''POST'', rq_pathname = ''/api/posts/p1/view'', rq_cookie = None,
       rq_body = Some (JObj [(''password'', JStr ''swordfish'')])\<rparr>"
  let ?ll = "\<lparr>sr_method = ''GET'', sr_pathname = ''/api/posts'', sr_cookie = None, sr_body = None\<rparr>"
  let ?lg = "\<lparr>sr_method = ''GET'', sr_pathname = ''/api/posts/p1'',
       sr_cookie = Some ''woldecks.admin=uuid-0.secretuuid-0'', sr_body = None\<rparr>"
  let ?lv = "\<lparr>sr_method = ''POST'', sr_pathname = ''/api/posts/p1/view'', sr_cookie = None,
       sr_body = Some (JObj [(''password'', JStr ''swordfish'')])\<rparr>"
  note t = public_bodies_without_credentials
  have vm: "viewMatch ''/api/posts/p1/view'' = Some ''p1''" by (simp add: viewMatch_def)
  have a: "isAdmin plainPlatform demoEnv (demoWorld 0) ?g = Inr True"
    by (rule demo_isAdmin) simp_all
  have ok1: "rs_status (fst (fetch plainPlatform demoEnv (demoWorld 0) ?l)) = 200"
    by (simp add: fetch_def routes_def handleListPosts_def demoWorld_simps send_def)
  have ok2: "rs_status (fst (fetch plainPlatform demoEnv (demoWorld 0) ?g)) = 200"
    by (simp add: fetch_def routes_def demo_postMatch handleGetPost_def a loadPost_def
        demoWorld_simps demo_selectPost send_def)
  have ok3: "rs_status (fst (fetch plainPlatform demoEnv (demoWorld 0) ?v)) = 200"
    by (simp add: fetch_def routes_def postMatch_def vm handleViewPost_def viewWithPassword_def
        isAdmin_no_cookie demo_fields demoWorld_simps demo_selectPost demo_verify send_def Let_def)
  have 1: "rs_body (fst (fetch plainPlatform demoEnv (demoWorld 0) ?l)) =
      JObj [(''posts'', JArr [postSummaryJson demoPost])]"
    using t [where rq = ?l and cr = plainPlatform and env = demoEnv and w = "demoWorld 0",
        THEN conjunct1] ok1
    by (simp add: demoWorld_simps)
  have 2: "rs_body (fst (fetch plainPlatform demoEnv (demoWorld 0) ?g)) =
      JObj [(''post'', postJson demoPost)]"
    using t [where rq = ?g and cr = plainPlatform and env = demoEnv and w = "demoWorld 0"
        and ident = "''p1''", THEN conjunct2, THEN conjunct1] ok2
    by (auto simp: demo_postMatch demo_selectPost)
  have h: "bytesToHex (map (\<lambda>i. 9) [0..<16]) = ''09090909090909090909090909090909''"
    by code_simp
  have rv: "randomUUID (demoWorld 0) = ''uuid-9''" "randomValues (demoWorld 0) = (\<lambda>i. 9)"
    by (simp_all add: demoWorld_def)
  have 3: "rs_body (fst (fetch plainPlatform demoEnv (demoWorld 0) ?v)) =
      JObj [(''post'', postJson demoPost),
            (''viewToken'', JStr ''uuid-9.09090909090909090909090909090909'')]"
    using t [where rq = ?v and cr = plainPlatform and env = demoEnv and w = "demoWorld 0"
        and ident = "''p1''", THEN conjunct2, THEN conjunct2, THEN conjunct1] ok3
    by (auto simp: vm demo_selectPost isAdmin_no_cookie rv h)
  have 4: "route plainNode demoCfg 10 demoState ?ll =
      Inr (Some \<lparr>rs_status = 200, rs_body = JObj [(''posts'', JArr [srv_postSummaryJson demoSrvPost])],
                 rs_set_cookie = None\<rparr>, demoState)"
    using t [where lrq = ?ll and nd = plainNode and cfg = demoCfg and now = 10 and s = demoState,
        THEN conjunct2, THEN conjunct2, THEN conjunct2, THEN conjunct1]
    by (simp add: demoState_def)
  have la: "srv_isAdmin plainNode demoCfg demoState ?lg = Inr True"
    by (simp add: srv_isAdmin_def getAdminSession_def demo_cookies verifySigned_def plainNode_def
        plainHmac_def demoCfg_def demoState_def)
  have fd: "find (\<lambda>p. sp_id p = ''p1'') (data_posts demoState) = Some demoSrvPost"
    by (simp add: demoState_def demoSrvPost_def)
  have r5: "route plainNode demoCfg 10 demoState ?lg =
      Inr (Some \<lparr>rs_status = 200, rs_body = JObj [(''post'', srv_postJson demoSrvPost)],
                 rs_set_cookie = None\<rparr>, demoState)"
    by (subst route.simps) (simp add: demo_postMatch srv_handleGetPost_def la fd json_response_def)
  have 5: "srv_isAdmin plainNode demoCfg demoState ?lg = Inr True \<and>
      (\<exists>q. find (\<lambda>p. sp_id p = ''p1'') (data_posts demoState) = Some q \<and>
         JObj [(''post'', srv_postJson demoSrvPost)] = JObj [(''post'', srv_postJson q)])"
    using t [where lrq = ?lg and nd = plainNode and cfg = demoCfg and now = 10 and s = demoState
        and ident = "''p1''" and s' = demoState
        and r = "\<lparr>rs_status = 200, rs_body = JObj [(''post'', srv_postJson demoSrvPost)],
                 rs_set_cookie = None\<rparr>",
        THEN conjunct2, THEN conjunct2, THEN conjunct2, THEN conjunct2, THEN conjunct1] r5
    by (simp add: demo_postMatch)
  have 6: "\<exists>r s'. route plainNode demoCfg 10 freshState ?lv = Inr (Some r, s') \<and>
      rs_status r = 200 \<and>
      rs_body r = JObj [(''post'', srv_postJson demoSrvPost), (''viewToken'', JStr ''uuid-1'')]"
    using demo_view_step by simp
  have 7: "postJson demoPost =
     JObj [(''id'', JStr ''p1''), (''title'', JStr ''Hello''), (''author'', JStr ''Ann''),
           (''content'', JStr ''First post''), (''createdAt'', JNum 100), (''updatedAt'', JNull)]"
    using t [where row = demoPost, THEN conjunct2, THEN conjunct2, THEN conjunct2, THEN conjunct2,
        THEN conjunct2, THEN conjunct2, THEN conjunct2, THEN conjunct1]
    by (simp add: demoPost_def)
  from 1 2 3 4 5 r5 6 7 show ?thesis by simp
qed



end
